theory Spec2Isabelle
  imports Complex_Main "HOL-Library.Word"
begin

section \<open>Numbers, vectors and matrices\<close>

text \<open>
  The sources compute in IEEE doubles through Eigen. Here a double is a \<open>real\<close>:
  rounding, overflow, infinities and NaN are not represented, except at the one place
  (the average step size of the refiner) where the source divides by a count that can be
  zero and the NaN decides a branch. In particular \<open>1.0 / rho\<close> is the real quotient;
  for \<open>rho = 0\<close> the C++ value is an infinity and HOL's quotient is \<open>0\<close>, so statements
  that depend on that quotient assume \<open>rho\<close> positive.

  \<open>Eigen::VectorXd\<close> is a list of reals, \<open>Eigen::Vector3d\<close> a triple, and a matrix
  (sparse or dense) is its row count, its column count and its coefficient function.
  Eigen asserts that the sizes of the operands of a sum or a product agree; the
  operations below are total and truncate to the shorter operand.
\<close>

type_synonym VectorXd = "real list"
type_synonym Vector3d = "real \<times> real \<times> real"

record Matrix =
  rows :: nat
  cols :: nat
  coeff :: "nat \<Rightarrow> nat \<Rightarrow> real"

definition vadd :: "VectorXd \<Rightarrow> VectorXd \<Rightarrow> VectorXd" where
  "vadd a b = map2 (+) a b"

definition vsub :: "VectorXd \<Rightarrow> VectorXd \<Rightarrow> VectorXd" where
  "vsub a b = map2 (-) a b"

definition vscale :: "real \<Rightarrow> VectorXd \<Rightarrow> VectorXd" where
  "vscale c v = map (\<lambda>x. c * x) v"

definition setZero :: "nat \<Rightarrow> VectorXd" where
  "setZero n = replicate n 0"

definition squaredNorm :: "VectorXd \<Rightarrow> real" where
  "squaredNorm v = sum_list (map (\<lambda>x. x * x) v)"

definition vnorm :: "VectorXd \<Rightarrow> real" where
  "vnorm v = sqrt (squaredNorm v)"

definition transpose_m :: "Matrix \<Rightarrow> Matrix" where
  "transpose_m A = \<lparr>rows = cols A, cols = rows A, coeff = (\<lambda>i j. coeff A j i)\<rparr>"

definition smult_m :: "real \<Rightarrow> Matrix \<Rightarrow> Matrix" where
  "smult_m c A = \<lparr>rows = rows A, cols = cols A, coeff = (\<lambda>i j. c * coeff A i j)\<rparr>"

definition mat_vec :: "Matrix \<Rightarrow> VectorXd \<Rightarrow> VectorXd" where
  "mat_vec A v =
     map (\<lambda>i. sum_list (map (\<lambda>j. coeff A i j * v ! j) [0..<cols A])) [0..<rows A]"

definition mat_mul :: "Matrix \<Rightarrow> Matrix \<Rightarrow> Matrix" where
  "mat_mul A B =
     \<lparr>rows = rows A, cols = cols B,
      coeff = (\<lambda>i j. sum_list (map (\<lambda>k. coeff A i k * coeff B k j) [0..<cols A]))\<rparr>"

definition asDiagonal :: "VectorXd \<Rightarrow> Matrix" where
  "asDiagonal w =
     \<lparr>rows = length w, cols = length w,
      coeff = (\<lambda>i j. if i = j \<and> i < length w then w ! i else 0)\<rparr>"

definition Identity :: "nat \<Rightarrow> Matrix" where
  "Identity n = \<lparr>rows = n, cols = n, coeff = (\<lambda>i j. if i = j then 1 else 0)\<rparr>"

section \<open>The sparse Cholesky adapter\<close>

text \<open>
  The class \<open>SparseCholeskyLLt\<close> (math/sparse_cholesky_llt.h) is not among the sources.
  Its member functions are taken as parameters: each returns the status that \<open>Info()\<close>
  reports right after the call, together with the factor (type \<open>'f\<close>) or the solution.
\<close>

datatype ComputationInfo = Success | NumericalIssue | NoConvergence | InvalidInput

record 'f SparseCholeskyLLt =
  llt_Compute :: "Matrix \<Rightarrow> ComputationInfo \<times> 'f"
  llt_AnalyzePattern :: "Matrix \<Rightarrow> ComputationInfo \<times> 'f"
  llt_Factorize :: "'f \<Rightarrow> Matrix \<Rightarrow> ComputationInfo \<times> 'f"
  llt_Solve :: "'f \<Rightarrow> VectorXd \<Rightarrow> ComputationInfo \<times> VectorXd"

text \<open>What ends a call without a return value: a failed glog \<open>CHECK\<close>, \<open>FindOrDie\<close> on a
  missing key, an index outside a vector or matrix, a null pointer dereferenced.\<close>

datatype abort = CheckFailed | KeyNotFound | IndexOutOfRange | NullPointerDereference

section \<open>The L1 solver (ADMM)\<close>

record Options =
  max_num_iterations :: int
  rho :: real
  alpha :: real
  absolute_tolerance :: real
  relative_tolerance :: real

definition default_Options :: Options where
  "default_Options =
     \<lparr>max_num_iterations = 1000, rho = 1, alpha = 1,
      absolute_tolerance = 1 / 10000, relative_tolerance = 1 / 100\<rparr>"

record 'f L1Solver =
  L1_options :: Options
  L1_a :: Matrix
  L1_linear_solver :: 'f

definition L1Solver_new ::
  "'f SparseCholeskyLLt \<Rightarrow> Options \<Rightarrow> Matrix \<Rightarrow> abort + 'f L1Solver" where
  "L1Solver_new llt options mat =
     (let spd_mat = mat_mul (transpose_m mat) mat;
          (info, factor) = llt_Compute llt spd_mat
      in if info = Success
         then Inr \<lparr>L1_options = options, L1_a = mat, L1_linear_solver = factor\<rparr>
         else Inl CheckFailed)"

definition SetMaxIterations :: "int \<Rightarrow> 'f L1Solver \<Rightarrow> 'f L1Solver" where
  "SetMaxIterations max_iterations S =
     S\<lparr>L1_options := (L1_options S)\<lparr>max_num_iterations := max_iterations\<rparr>\<rparr>"

definition Shrinkage :: "VectorXd \<Rightarrow> real \<Rightarrow> VectorXd" where
  "Shrinkage vec kappa =
     (let zero_vec = setZero (length vec)
      in map2 (-) (map2 max zero_vec (map (\<lambda>v. v - kappa) vec))
                  (map2 max zero_vec (map (\<lambda>v. - v - kappa) vec)))"

text \<open>The local vectors of \<open>Solve\<close> (\<open>x\<close> is \<open>*solution\<close>). \<open>z\<close> and \<open>u\<close> start at zero;
  \<open>a_times_x\<close>, \<open>z_old\<close> and \<open>ax_hat\<close> are allocated without values and written before they are read
  (they start at zero here).\<close>

record admm_state =
  admm_x :: VectorXd
  admm_z :: VectorXd
  admm_u :: VectorXd
  admm_a_times_x :: VectorXd
  admm_z_old :: VectorXd
  admm_ax_hat :: VectorXd

definition admm_init :: "'f L1Solver \<Rightarrow> VectorXd \<Rightarrow> admm_state" where
  "admm_init S solution =
     \<lparr>admm_x = solution, admm_z = setZero (rows (L1_a S)), admm_u = setZero (rows (L1_a S)),
      admm_a_times_x = setZero (rows (L1_a S)), admm_z_old = setZero (rows (L1_a S)),
      admm_ax_hat = setZero (rows (L1_a S))\<rparr>"

text \<open>One pass through the body of the \<open>for\<close> loop: the early \<open>return\<close> after a failed
  linear solve, the \<open>break\<close> on convergence, or the next iteration.\<close>

datatype iteration = SolveFailed admm_state | Converged admm_state | NotConverged admm_state

definition admm_iteration ::
  "'f SparseCholeskyLLt \<Rightarrow> 'f L1Solver \<Rightarrow> VectorXd \<Rightarrow> admm_state \<Rightarrow> iteration" where
  "admm_iteration llt S rhs st =
     (let opts = L1_options S;
          rhs_norm = vnorm rhs;
          primal_abs_tolerance_eps = sqrt (real (rows (L1_a S))) * absolute_tolerance opts;
          dual_abs_tolerance_eps = sqrt (real (cols (L1_a S))) * absolute_tolerance opts;
          (info, x') = llt_Solve llt (L1_linear_solver S)
                         (mat_vec (transpose_m (L1_a S)) (vsub (vadd rhs (admm_z st)) (admm_u st)))
      in if info \<noteq> Success then SolveFailed (st\<lparr>admm_x := x'\<rparr>)
         else
           let a_times_x' = mat_vec (L1_a S) x';
               ax_hat' = vadd (vscale (alpha opts) a_times_x')
                              (vscale (1 - alpha opts) (vadd (admm_z st) rhs));
               z_old' = admm_z st;
               z' = Shrinkage (vadd (vsub ax_hat' rhs) (admm_u st)) (1 / rho opts);
               u' = vadd (admm_u st) (vsub (vsub ax_hat' z') rhs);
               r_norm = vnorm (vsub (vsub a_times_x' z') rhs);
               s_norm = vnorm (mat_vec (smult_m (- rho opts) (transpose_m (L1_a S)))
                                       (vsub z' z_old'));
               max_norm = max (max (vnorm a_times_x') (vnorm z')) rhs_norm;
               primal_eps = primal_abs_tolerance_eps + relative_tolerance opts * max_norm;
               dual_eps = dual_abs_tolerance_eps
                          + relative_tolerance opts
                            * vnorm (mat_vec (smult_m (rho opts) (transpose_m (L1_a S))) u');
               st' = \<lparr>admm_x = x', admm_z = z', admm_u = u', admm_a_times_x = a_times_x',
                      admm_z_old = z_old', admm_ax_hat = ax_hat'\<rparr>
           in if r_norm < primal_eps \<and> s_norm < dual_eps then Converged st'
              else NotConverged st')"

text \<open>The loop, by the number of iterations still allowed. It returns the way it ended,
  the final state, and the state after each pass through the body.\<close>

datatype loop_exit = IterationCap | SolverFailure | Convergence

fun Solve_loop ::
  "'f SparseCholeskyLLt \<Rightarrow> 'f L1Solver \<Rightarrow> VectorXd \<Rightarrow> nat \<Rightarrow> admm_state
   \<Rightarrow> loop_exit \<times> admm_state \<times> admm_state list" where
  "Solve_loop llt S rhs 0 st = (IterationCap, st, [])"
| "Solve_loop llt S rhs (Suc n) st =
     (case admm_iteration llt S rhs st of
        SolveFailed st' \<Rightarrow> (SolverFailure, st', [st'])
      | Converged st' \<Rightarrow> (Convergence, st', [st'])
      | NotConverged st' \<Rightarrow>
          (case Solve_loop llt S rhs n st' of (e, fin, tr) \<Rightarrow> (e, fin, st' # tr)))"

definition Solve_run ::
  "'f SparseCholeskyLLt \<Rightarrow> 'f L1Solver \<Rightarrow> VectorXd \<Rightarrow> VectorXd
   \<Rightarrow> loop_exit \<times> admm_state \<times> admm_state list" where
  "Solve_run llt S rhs solution =
     Solve_loop llt S rhs (nat (max_num_iterations (L1_options S))) (admm_init S solution)"

text \<open>\<open>Solve(rhs, &solution)\<close>: what the caller sees is the vector left in \<open>*solution\<close>.\<close>

definition Solve :: "'f SparseCholeskyLLt \<Rightarrow> 'f L1Solver \<Rightarrow> VectorXd \<Rightarrow> VectorXd \<Rightarrow> VectorXd" where
  "Solve llt S rhs solution = admm_x (fst (snd (Solve_run llt S rhs solution)))"

section \<open>Views, measurements and the containers that hold them\<close>

text \<open>
  \<open>image_t\<close> is \<open>uint32_t\<close>. A \<open>std::unordered_map\<close> is an association list with
  distinct keys, in the order in which the container is iterated. The \<open>int\<close> indices of
  the sources are unbounded integers here (no claim depends on their overflow).
\<close>

type_synonym image_t = "32 word"
type_synonym ImagePair = "image_t \<times> image_t"

record TwoViewGeometry =
  rotation_2 :: Vector3d
  translation_2 :: Vector3d
  visibility_score :: int

type_synonym view_pairs_t = "(ImagePair \<times> TwoViewGeometry) list"
type_synonym global_rotations_t = "(image_t \<times> Vector3d) list"
type_synonym view_id_to_index_t = "(image_t \<times> int) list"

text \<open>Modelled from the spec: \<open>FindOrDie\<close> is defined in util/map_util.h, which is not
  among the sources. The spec has a missing entry (a view without an initial rotation)
  reported by an assertion: the value of a key that is present is returned, and a
  missing key ends the call.\<close>

definition FindOrDie :: "('k \<times> 'v) list \<Rightarrow> 'k \<Rightarrow> abort + 'v" where
  "FindOrDie m k = (case map_of m k of None \<Rightarrow> Inl KeyNotFound | Some v \<Rightarrow> Inr v)"

text \<open>\<open>m[k]\<close> on an \<open>unordered_map\<close> with \<open>int\<close> values: a missing key is inserted with
  the value \<open>0\<close>.\<close>

definition index_or_insert :: "view_id_to_index_t \<Rightarrow> image_t \<Rightarrow> int \<times> view_id_to_index_t" where
  "index_or_insert m k =
     (case map_of m k of Some i \<Rightarrow> (i, m) | None \<Rightarrow> (0, m @ [(k, 0)]))"

definition neg3 :: "Vector3d \<Rightarrow> Vector3d" where
  "neg3 v = (case v of (a, b, c) \<Rightarrow> (- a, - b, - c))"

definition squaredNorm3 :: "Vector3d \<Rightarrow> real" where
  "squaredNorm3 v = (case v of (a, b, c) \<Rightarrow> a * a + b * b + c * c)"

definition norm3 :: "Vector3d \<Rightarrow> real" where
  "norm3 v = sqrt (squaredNorm3 v)"

text \<open>\<open>v.segment<3>(start)\<close>: the unchecked read, the checked read and the checked write.\<close>

definition seg3 :: "VectorXd \<Rightarrow> nat \<Rightarrow> Vector3d" where
  "seg3 v start = (v ! start, v ! (start + 1), v ! (start + 2))"

definition segment3 :: "VectorXd \<Rightarrow> int \<Rightarrow> abort + Vector3d" where
  "segment3 v start =
     (if 0 \<le> start \<and> nat start + 3 \<le> length v then Inr (seg3 v (nat start))
      else Inl IndexOutOfRange)"

definition set_segment3 :: "VectorXd \<Rightarrow> int \<Rightarrow> Vector3d \<Rightarrow> abort + VectorXd" where
  "set_segment3 v start w =
     (if 0 \<le> start \<and> nat start + 3 \<le> length v
      then (case w of (a, b, c) \<Rightarrow>
              Inr (v[nat start := a, nat start + 1 := b, nat start + 2 := c]))
      else Inl IndexOutOfRange)"

section \<open>The IRLS local refiner\<close>

record IRLSRefinerOptions =
  max_num_irls_iterations :: int
  irls_loss_parameter_sigma :: real
  irls_step_convergence_threshold :: real
  num_threads :: int

record IRLSRotationLocalRefiner =
  irls_options :: IRLSRefinerOptions
  tangent_space_step :: VectorXd
  tangent_space_residual :: VectorXd
  view_id_to_index :: view_id_to_index_t
  sparse_matrix :: Matrix

text \<open>
  What the refiner calls and the sources do not contain: \<open>geometry::MultiplyRotations\<close>,
  \<open>internal::ViewIdToAscentIndex\<close>, \<open>internal::SetupLinearSystem\<close> and the Cholesky
  adapter. They are parameters.
\<close>

record 'f irls_deps =
  MultiplyRotations :: "Vector3d \<Rightarrow> Vector3d \<Rightarrow> Vector3d"
  ViewIdToAscentIndex :: "global_rotations_t \<Rightarrow> view_id_to_index_t"
  SetupLinearSystem :: "view_pairs_t \<Rightarrow> nat \<Rightarrow> view_id_to_index_t \<Rightarrow> Matrix"
  linear_solver :: "'f SparseCholeskyLLt"

text \<open>Modelled from the spec: \<open>kConstantRotationIndex\<close> is declared in a header that is not
  among the sources. The spec holds the view of dense index 0 constant and omits its
  columns (the block of view \<open>i\<close> starts at column \<open>3 * idx(i) - 3\<close>), so the constant is
  \<open>-1\<close>, the value of \<open>idx - 1\<close> at that view.\<close>

definition kConstantRotationIndex :: int where
  "kConstantRotationIndex = - 1"

text \<open>The constructor. \<open>resize\<close> leaves the coefficients without values; they are written
  before they are read (zero here).\<close>

definition IRLSRotationLocalRefiner_new ::
  "int \<Rightarrow> int \<Rightarrow> IRLSRefinerOptions \<Rightarrow> IRLSRotationLocalRefiner" where
  "IRLSRotationLocalRefiner_new num_orientations num_edges options =
     \<lparr>irls_options = options,
      tangent_space_step = setZero (nat ((num_orientations - 1) * 3)),
      tangent_space_residual = setZero (nat (num_edges * 3)),
      view_id_to_index = [],
      sparse_matrix = \<lparr>rows = 0, cols = 0, coeff = (\<lambda>i j. 0)\<rparr>\<rparr>"

definition SetInitTangentSpaceStep ::
  "VectorXd \<Rightarrow> IRLSRotationLocalRefiner \<Rightarrow> IRLSRotationLocalRefiner" where
  "SetInitTangentSpaceStep step R = R\<lparr>tangent_space_step := step\<rparr>"

definition SetViewIdToIndex ::
  "view_id_to_index_t \<Rightarrow> IRLSRotationLocalRefiner \<Rightarrow> IRLSRotationLocalRefiner" where
  "SetViewIdToIndex m R = R\<lparr>view_id_to_index := m\<rparr>"

definition SetSparseMatrix :: "Matrix \<Rightarrow> IRLSRotationLocalRefiner \<Rightarrow> IRLSRotationLocalRefiner" where
  "SetSparseMatrix M R = R\<lparr>sparse_matrix := M\<rparr>"

fun UpdateGlobalRotations ::
  "'f irls_deps \<Rightarrow> IRLSRotationLocalRefiner \<Rightarrow> global_rotations_t \<Rightarrow> abort + global_rotations_t" where
  "UpdateGlobalRotations env R [] = Inr []"
| "UpdateGlobalRotations env R ((view_id, rotation) # rest) =
     (case FindOrDie (view_id_to_index R) view_id of
        Inl a \<Rightarrow> Inl a
      | Inr idx \<Rightarrow>
          (let view_index = idx - 1
           in if view_index = kConstantRotationIndex
              then (case UpdateGlobalRotations env R rest of
                      Inl a \<Rightarrow> Inl a
                    | Inr rest' \<Rightarrow> Inr ((view_id, rotation) # rest'))
              else (case segment3 (tangent_space_step R) (3 * view_index) of
                      Inl a \<Rightarrow> Inl a
                    | Inr rotation_change \<Rightarrow>
                        (case UpdateGlobalRotations env R rest of
                           Inl a \<Rightarrow> Inl a
                         | Inr rest' \<Rightarrow>
                             Inr ((view_id, MultiplyRotations env rotation rotation_change)
                                  # rest')))))"

fun ComputeResiduals_loop ::
  "'f irls_deps \<Rightarrow> global_rotations_t \<Rightarrow> view_pairs_t \<Rightarrow> int \<Rightarrow> VectorXd \<Rightarrow> abort + VectorXd" where
  "ComputeResiduals_loop env gr [] rotation_error_index res = Inr res"
| "ComputeResiduals_loop env gr ((pair, geom) # rest) rotation_error_index res =
     (case FindOrDie gr (fst pair) of
        Inl a \<Rightarrow> Inl a
      | Inr rotation1 \<Rightarrow>
          (case FindOrDie gr (snd pair) of
             Inl a \<Rightarrow> Inl a
           | Inr rotation2 \<Rightarrow>
               (case set_segment3 res (3 * rotation_error_index)
                       (MultiplyRotations env (neg3 rotation2)
                          (MultiplyRotations env (rotation_2 geom) rotation1)) of
                  Inl a \<Rightarrow> Inl a
                | Inr res' \<Rightarrow>
                    ComputeResiduals_loop env gr rest (rotation_error_index + 1) res')))"

definition ComputeResiduals ::
  "'f irls_deps \<Rightarrow> IRLSRotationLocalRefiner \<Rightarrow> view_pairs_t \<Rightarrow> global_rotations_t
   \<Rightarrow> abort + IRLSRotationLocalRefiner" where
  "ComputeResiduals env R relative_rotations gr =
     (case ComputeResiduals_loop env gr relative_rotations 0 (tangent_space_residual R) of
        Inl a \<Rightarrow> Inl a
      | Inr res \<Rightarrow> Inr (R\<lparr>tangent_space_residual := res\<rparr>))"

text \<open>\<open>ComputeAverageStepSize\<close>. With fewer than three coefficients \<open>num_vertices\<close> is \<open>0\<close>
  and the C++ quotient \<open>0.0 / 0\<close> is NaN, which is \<open>None\<close> here: every comparison with
  it is false.\<close>

definition ComputeAverageStepSize :: "IRLSRotationLocalRefiner \<Rightarrow> real option" where
  "ComputeAverageStepSize R =
     (let num_vertices = length (tangent_space_step R) div 3;
          delta_V = sum_list (map (\<lambda>k. norm3 (seg3 (tangent_space_step R) (3 * k)))
                                  [0..<num_vertices])
      in if num_vertices = 0 then None else Some (delta_V / real num_vertices))"

definition less_double :: "real option \<Rightarrow> real \<Rightarrow> bool" where
  "less_double a b = (case a of None \<Rightarrow> False | Some v \<Rightarrow> v < b)"

text \<open>The weights of one iteration (the \<open>omp parallel for\<close> over the edges; each edge
  writes its own three coefficients). The residual has been filled for these
  \<open>num_edges\<close> edges by \<open>ComputeResiduals\<close>, so the reads are in range.\<close>

definition edge_weight :: "real \<Rightarrow> VectorXd \<Rightarrow> nat \<Rightarrow> real" where
  "edge_weight sigma residual k =
     (let e_sq = squaredNorm3 (seg3 residual (3 * k));
          tmp = e_sq + sigma * sigma;
          w = sigma / (tmp * tmp)
      in w)"

definition irls_weights :: "real \<Rightarrow> VectorXd \<Rightarrow> nat \<Rightarrow> VectorXd" where
  "irls_weights sigma residual num_edges =
     concat (map (\<lambda>k. replicate 3 (edge_weight sigma residual k)) [0..<num_edges])"

text \<open>One pass through the body of the loop of \<open>SolveIRLS\<close>: the two \<open>return false\<close>, or
  the step with its average size.\<close>

datatype irls_step = FactorizeFailed | LinearSolveFailed | StepTaken "real option"

type_synonym 'f irls_state = "IRLSRotationLocalRefiner \<times> global_rotations_t \<times> 'f"

definition irls_iteration ::
  "'f irls_deps \<Rightarrow> view_pairs_t \<Rightarrow> 'f irls_state \<Rightarrow> abort + (irls_step \<times> 'f irls_state)" where
  "irls_iteration env relative_rotations st =
     (case st of (R, gr, factor) \<Rightarrow>
        let sigma = irls_loss_parameter_sigma (irls_options R);
            num_edges = length relative_rotations;
            weights = irls_weights sigma (tangent_space_residual R) num_edges;
            at_weight = mat_mul (transpose_m (sparse_matrix R)) (asDiagonal weights);
            (info, factor') = llt_Factorize (linear_solver env) factor
                                (mat_mul at_weight (sparse_matrix R))
        in if info \<noteq> Success then Inr (FactorizeFailed, R, gr, factor')
           else
             let (info', step) = llt_Solve (linear_solver env) factor'
                                   (mat_vec at_weight (tangent_space_residual R));
                 R1 = R\<lparr>tangent_space_step := step\<rparr>
             in if info' \<noteq> Success then Inr (LinearSolveFailed, R1, gr, factor')
                else (case UpdateGlobalRotations env R1 gr of
                        Inl a \<Rightarrow> Inl a
                      | Inr gr' \<Rightarrow>
                          (case ComputeResiduals env R1 relative_rotations gr' of
                             Inl a \<Rightarrow> Inl a
                           | Inr R2 \<Rightarrow>
                               Inr (StepTaken (ComputeAverageStepSize R2), R2, gr', factor'))))"

text \<open>The loop, by the number of iterations still allowed: the value returned, the final
  state, and what each pass through the body did.\<close>

fun irls_loop ::
  "'f irls_deps \<Rightarrow> view_pairs_t \<Rightarrow> nat \<Rightarrow> 'f irls_state
   \<Rightarrow> abort + (bool \<times> 'f irls_state \<times> irls_step list)" where
  "irls_loop env relative_rotations 0 st = Inr (True, st, [])"
| "irls_loop env relative_rotations (Suc n) st =
     (case irls_iteration env relative_rotations st of
        Inl a \<Rightarrow> Inl a
      | Inr (FactorizeFailed, st') \<Rightarrow> Inr (False, st', [FactorizeFailed])
      | Inr (LinearSolveFailed, st') \<Rightarrow> Inr (False, st', [LinearSolveFailed])
      | Inr (StepTaken avg_step_size, st') \<Rightarrow>
          (if less_double avg_step_size
                (irls_step_convergence_threshold (irls_options (fst st')))
           then Inr (True, st', [StepTaken avg_step_size])
           else (case irls_loop env relative_rotations n st' of
                   Inl a \<Rightarrow> Inl a
                 | Inr (ok, fin, tr) \<Rightarrow> Inr (ok, fin, StepTaken avg_step_size # tr))))"

text \<open>The two lazy initialisations at the head of \<open>SolveIRLS\<close>: the index map and the
  sparse matrix are built only when no setter has supplied them.\<close>

definition SolveIRLS_prepare ::
  "'f irls_deps \<Rightarrow> IRLSRotationLocalRefiner \<Rightarrow> view_pairs_t \<Rightarrow> global_rotations_t
   \<Rightarrow> IRLSRotationLocalRefiner" where
  "SolveIRLS_prepare env R relative_rotations global_rotations =
     (let R1 = (if view_id_to_index R = []
                then R\<lparr>view_id_to_index := ViewIdToAscentIndex env global_rotations\<rparr>
                else R)
      in if rows (sparse_matrix R1) = 0
         then R1\<lparr>sparse_matrix :=
                   SetupLinearSystem env relative_rotations
                     (length global_rotations) (view_id_to_index R1)\<rparr>
         else R1)"

text \<open>\<open>SolveIRLS\<close>: the value returned, the refiner and \<open>*global_rotations\<close> as the call
  leaves them, and the passes of the loop.\<close>

definition SolveIRLS ::
  "'f irls_deps \<Rightarrow> IRLSRotationLocalRefiner \<Rightarrow> view_pairs_t \<Rightarrow> global_rotations_t
   \<Rightarrow> abort + (bool \<times> IRLSRotationLocalRefiner \<times> global_rotations_t \<times> irls_step list)" where
  "SolveIRLS env R relative_rotations global_rotations =
     (let num_edges = length relative_rotations
      in if \<not> 0 < length global_rotations then Inl CheckFailed
         else if \<not> 0 < num_edges then Inl CheckFailed
         else
           let R2 = SolveIRLS_prepare env R relative_rotations global_rotations;
               (info, factor) = llt_AnalyzePattern (linear_solver env)
                                  (mat_mul (transpose_m (sparse_matrix R2)) (sparse_matrix R2))
           in if info \<noteq> Success then Inr (False, R2, global_rotations, [])
              else (case ComputeResiduals env R2 relative_rotations global_rotations of
                      Inl a \<Rightarrow> Inl a
                    | Inr R3 \<Rightarrow>
                        (case irls_loop env relative_rotations
                                (nat (max_num_irls_iterations (irls_options R3)))
                                (R3, global_rotations, factor) of
                           Inl a \<Rightarrow> Inl a
                         | Inr (ok, (R', gr', factor'), tr) \<Rightarrow> Inr (ok, R', gr', tr))))"

section \<open>The Lagrange-dual estimator\<close>

text \<open>Modelled from the spec: the enumeration \<open>solver::SDPSolverType\<close> and the options
  structure \<open>solver::SDPSolverOptions\<close> are declared in headers that are not among the
  sources. The three enumerators are the ones the spec lists and the \<open>switch\<close> of
  \<open>CreateSDPSolver\<close> names; \<open>OTHER_SOLVER_TYPE\<close> stands for every other value the field
  can hold (the \<open>switch\<close> has a \<open>default\<close> branch for them).\<close>

datatype SDPSolverType = RBR_BCM | RANK_DEFICIENT_BCM | RIEMANNIAN_STAIRCASE | OTHER_SOLVER_TYPE int

record SDPSolverOptions =
  solver_type :: SDPSolverType

text \<open>The solver objects that \<open>CreateSDPSolver\<close> constructs; a null pointer is \<open>None\<close>.\<close>

datatype SDPSolver =
    RBRSDPSolver int int SDPSolverOptions
  | RankRestrictedSDPSolver int int SDPSolverOptions
  | RiemannianStaircase int int SDPSolverOptions

text \<open>\<open>Eigen::Triplet\<close> and \<open>setFromTriplets\<close>: the matrix keeps its size, every triplet
  must lie inside it, and the values of triplets with the same position are summed.\<close>

type_synonym Triplet = "int \<times> int \<times> real"

definition triplet_in_range :: "Matrix \<Rightarrow> Triplet \<Rightarrow> bool" where
  "triplet_in_range M t =
     (case t of (r, c, v) \<Rightarrow> 0 \<le> r \<and> r < int (rows M) \<and> 0 \<le> c \<and> c < int (cols M))"

definition setFromTriplets :: "Matrix \<Rightarrow> Triplet list \<Rightarrow> abort + Matrix" where
  "setFromTriplets M ts =
     (if list_all (triplet_in_range M) ts
      then Inr (M\<lparr>coeff := (\<lambda>i j. sum_list (map (\<lambda>t. snd (snd t))
                                 (filter (\<lambda>t. fst t = int i \<and> fst (snd t) = int j) ts)))\<rparr>)
      else Inl IndexOutOfRange)"

definition zero_matrix :: "nat \<Rightarrow> nat \<Rightarrow> Matrix" where
  "zero_matrix r c = \<lparr>rows = r, cols = c, coeff = (\<lambda>i j. 0)\<rparr>"

definition msub :: "Matrix \<Rightarrow> Matrix \<Rightarrow> Matrix" where
  "msub A B = \<lparr>rows = rows A, cols = cols A, coeff = (\<lambda>i j. coeff A i j - coeff B i j)\<rparr>"

text \<open>\<open>Y.block(0, start, 3, 3).transpose()\<close>, the determinant of a \<open>3 \<times> 3\<close> matrix, and
  \<open>-R\<close>.\<close>

definition block3_transposed :: "Matrix \<Rightarrow> int \<Rightarrow> abort + Matrix" where
  "block3_transposed Y start =
     (if 0 \<le> start \<and> nat start + 3 \<le> cols Y \<and> 3 \<le> rows Y
      then Inr \<lparr>rows = 3, cols = 3, coeff = (\<lambda>i j. coeff Y j (nat start + i))\<rparr>
      else Inl IndexOutOfRange)"

definition determinant3 :: "Matrix \<Rightarrow> real" where
  "determinant3 M =
     coeff M 0 0 * (coeff M 1 1 * coeff M 2 2 - coeff M 1 2 * coeff M 2 1)
     - coeff M 0 1 * (coeff M 1 0 * coeff M 2 2 - coeff M 1 2 * coeff M 2 0)
     + coeff M 0 2 * (coeff M 1 0 * coeff M 2 1 - coeff M 1 1 * coeff M 2 0)"

text \<open>The status of a Spectra eigensolver.\<close>

datatype SpectraInfo = SUCCESSFUL | NOT_COMPUTED | NOT_CONVERGING | NUMERICAL_ISSUE

text \<open>
  What the estimator calls and the sources do not contain: \<open>ViewIdToAscentIndex\<close>, the two
  ceres conversions between an angle-axis vector and a rotation matrix, the run of an
  SDP solver (\<open>SetCovariance\<close>, \<open>SetAdjacentEdges\<close>, \<open>Solve\<close>, \<open>GetSolution\<close>: from the
  covariance, the adjacency and the summary to the solution and the summary), and the
  Spectra eigensolver asked for the 2 smallest algebraic eigenvalues with 5 Lanczos
  vectors (its status and its eigenvalues). They are parameters; \<open>'s\<close> is the type of
  the summary.
\<close>

type_synonym adj_edges_t = "(int \<times> int list) list"

record 's ld_deps =
  ld_ViewIdToAscentIndex :: "global_rotations_t \<Rightarrow> view_id_to_index_t"
  AngleAxisToRotationMatrix :: "Vector3d \<Rightarrow> nat \<Rightarrow> nat \<Rightarrow> real"
  RotationMatrixToAngleAxis :: "Matrix \<Rightarrow> Vector3d"
  sdp_run :: "SDPSolver \<Rightarrow> Matrix \<Rightarrow> adj_edges_t \<Rightarrow> 's \<Rightarrow> Matrix \<times> 's"
  SymEigsSolver :: "Matrix \<Rightarrow> SpectraInfo \<times> real list"

record 's LagrangeDualRotationEstimator =
  ld_options :: SDPSolverOptions
  images_num :: int
  dim :: int
  ld_R :: Matrix
  ld_Y :: Matrix
  alpha_max :: real
  ld_summary :: 's
  ld_view_id_to_index :: view_id_to_index_t

text \<open>The constructor; \<open>summary0\<close> is the default-constructed summary.\<close>

definition LagrangeDualRotationEstimator_new ::
  "'s \<Rightarrow> int \<Rightarrow> int \<Rightarrow> SDPSolverOptions \<Rightarrow> 's LagrangeDualRotationEstimator" where
  "LagrangeDualRotationEstimator_new summary0 N d options =
     \<lparr>ld_options = options, images_num = N, dim = d,
      ld_R = zero_matrix (nat (d * N)) (nat (d * N)),
      ld_Y = zero_matrix 0 0,
      alpha_max = 0,
      ld_summary = summary0,
      ld_view_id_to_index = []\<rparr>"

definition ld_SetViewIdToIndex ::
  "view_id_to_index_t \<Rightarrow> 's LagrangeDualRotationEstimator \<Rightarrow> 's LagrangeDualRotationEstimator" where
  "ld_SetViewIdToIndex m E = E\<lparr>ld_view_id_to_index := m\<rparr>"

definition SetRAOption ::
  "SDPSolverOptions \<Rightarrow> 's LagrangeDualRotationEstimator \<Rightarrow> 's LagrangeDualRotationEstimator" where
  "SetRAOption options E = E\<lparr>ld_options := options\<rparr>"

definition GetRASummary :: "'s LagrangeDualRotationEstimator \<Rightarrow> 's" where
  "GetRASummary E = ld_summary E"

definition GetErrorBound :: "'s LagrangeDualRotationEstimator \<Rightarrow> real" where
  "GetErrorBound E = alpha_max E"

definition CreateSDPSolver ::
  "'s LagrangeDualRotationEstimator \<Rightarrow> int \<Rightarrow> int \<Rightarrow> SDPSolver option" where
  "CreateSDPSolver E n d =
     (case solver_type (ld_options E) of
        RBR_BCM \<Rightarrow> Some (RBRSDPSolver n d (ld_options E))
      | RANK_DEFICIENT_BCM \<Rightarrow> Some (RankRestrictedSDPSolver n d (ld_options E))
      | RIEMANNIAN_STAIRCASE \<Rightarrow> Some (RiemannianStaircase n d (ld_options E))
      | OTHER_SOLVER_TYPE v \<Rightarrow> None)"

text \<open>\<open>adj_edges[i].push_back(j)\<close>.\<close>

definition adj_push_back :: "adj_edges_t \<Rightarrow> int \<Rightarrow> int \<Rightarrow> adj_edges_t" where
  "adj_push_back adj i j =
     (case map_of adj i of
        None \<Rightarrow> adj @ [(i, [j])]
      | Some js \<Rightarrow> map (\<lambda>(k, ks). if k = i then (k, ks @ [j]) else (k, ks)) adj)"

text \<open>The eighteen triplets of one measurement, in the order of the two nested loops.\<close>

definition edge_triplets :: "int \<Rightarrow> int \<Rightarrow> int \<Rightarrow> (nat \<Rightarrow> nat \<Rightarrow> real) \<Rightarrow> Triplet list" where
  "edge_triplets d i j R_ij =
     concat (map (\<lambda>l. concat (map (\<lambda>r.
        [(d * i + int l, d * j + int r, R_ij r l),
         (d * j + int l, d * i + int r, R_ij l r)]) [0..<3])) [0..<3])"

fun FillinRelativeGraph_loop ::
  "'s ld_deps \<Rightarrow> int \<Rightarrow> view_pairs_t \<Rightarrow> view_id_to_index_t \<times> Triplet list \<times> adj_edges_t
   \<Rightarrow> view_id_to_index_t \<times> Triplet list \<times> adj_edges_t" where
  "FillinRelativeGraph_loop env d [] acc = acc"
| "FillinRelativeGraph_loop env d ((pair, geom) # rest) acc =
     (case acc of (m, triplets, adj) \<Rightarrow>
        let (i, m1) = index_or_insert m (fst pair);
            (j, m2) = index_or_insert m1 (snd pair);
            R_ij = AngleAxisToRotationMatrix env (rotation_2 geom)
        in FillinRelativeGraph_loop env d rest
             (m2, triplets @ edge_triplets d i j R_ij,
              adj_push_back (adj_push_back adj i j) j i))"

definition FillinRelativeGraph ::
  "'s ld_deps \<Rightarrow> view_pairs_t \<Rightarrow> 's LagrangeDualRotationEstimator
   \<Rightarrow> abort + ('s LagrangeDualRotationEstimator \<times> adj_edges_t)" where
  "FillinRelativeGraph env view_pairs E =
     (case FillinRelativeGraph_loop env (dim E) view_pairs (ld_view_id_to_index E, [], []) of
        (m, triplets, adj) \<Rightarrow>
          (case setFromTriplets (ld_R E) triplets of
             Inl a \<Rightarrow> Inl a
           | Inr R' \<Rightarrow> Inr (E\<lparr>ld_R := R', ld_view_id_to_index := m\<rparr>, adj)))"

fun RetrieveRotations_loop ::
  "'s ld_deps \<Rightarrow> Matrix \<Rightarrow> global_rotations_t \<Rightarrow> view_id_to_index_t
   \<Rightarrow> abort + (global_rotations_t \<times> view_id_to_index_t)" where
  "RetrieveRotations_loop env Y [] m = Inr ([], m)"
| "RetrieveRotations_loop env Y ((view_id, rotation) # rest) m =
     (let (i, m1) = index_or_insert m view_id
      in case block3_transposed Y (3 * i) of
           Inl a \<Rightarrow> Inl a
         | Inr R \<Rightarrow>
             (let R' = (if determinant3 R < 0 then smult_m (- 1) R else R);
                  angle_axis = RotationMatrixToAngleAxis env R'
              in case RetrieveRotations_loop env Y rest m1 of
                   Inl a \<Rightarrow> Inl a
                 | Inr (rest', m2) \<Rightarrow> Inr ((view_id, angle_axis) # rest', m2)))"

definition RetrieveRotations ::
  "'s ld_deps \<Rightarrow> 's LagrangeDualRotationEstimator \<Rightarrow> Matrix \<Rightarrow> global_rotations_t
   \<Rightarrow> abort + ('s LagrangeDualRotationEstimator \<times> global_rotations_t)" where
  "RetrieveRotations env E Y global_rotations =
     (case RetrieveRotations_loop env Y global_rotations (ld_view_id_to_index E) of
        Inl a \<Rightarrow> Inl a
      | Inr (gr', m) \<Rightarrow> Inr (E\<lparr>ld_view_id_to_index := m\<rparr>, gr'))"

text \<open>The lazy initialisation at the head of \<open>EstimateRotations\<close>.\<close>

definition EstimateRotations_prepare ::
  "'s ld_deps \<Rightarrow> 's LagrangeDualRotationEstimator \<Rightarrow> global_rotations_t
   \<Rightarrow> 's LagrangeDualRotationEstimator" where
  "EstimateRotations_prepare env E global_rotations =
     (if ld_view_id_to_index E = []
      then E\<lparr>ld_view_id_to_index := ld_ViewIdToAscentIndex env global_rotations\<rparr>
      else E)"

definition EstimateRotations ::
  "'s ld_deps \<Rightarrow> 's LagrangeDualRotationEstimator \<Rightarrow> view_pairs_t \<Rightarrow> global_rotations_t
   \<Rightarrow> abort + (bool \<times> 's LagrangeDualRotationEstimator \<times> global_rotations_t)" where
  "EstimateRotations env E view_pairs global_rotations =
     (let N = images_num E
      in if \<not> 0 < length view_pairs then Inl CheckFailed
         else if \<not> 0 < N then Inl CheckFailed
         else
           let E1 = EstimateRotations_prepare env E global_rotations
           in case FillinRelativeGraph env view_pairs E1 of
                Inl a \<Rightarrow> Inl a
              | Inr (E2, adj_edges) \<Rightarrow>
                  (case CreateSDPSolver E2 N (dim E2) of
                     None \<Rightarrow> Inl NullPointerDereference
                   | Some solver \<Rightarrow>
                       (let (Y, summary') = sdp_run env solver (smult_m (- 1) (ld_R E2))
                                              adj_edges (ld_summary E2);
                            E3 = E2\<lparr>ld_Y := Y, ld_summary := summary'\<rparr>
                        in case RetrieveRotations env E3 Y global_rotations of
                             Inl a \<Rightarrow> Inl a
                           | Inr (E4, gr') \<Rightarrow> Inr (True, E4, gr'))))"

text \<open>\<open>ComputeErrorBound\<close>. First \<open>degrees[i]++\<close> on the \<open>std::vector\<close> of length \<open>N\<close>.
  The square root of a negative number, the arc sine outside \<open>[-1, 1]\<close> and the quotient
  by a largest degree of zero are NaN in C++ and are not represented.\<close>

definition increment_degree :: "real list \<Rightarrow> int \<Rightarrow> abort + real list" where
  "increment_degree degrees i =
     (if 0 \<le> i \<and> nat i < length degrees
      then Inr (degrees[nat i := degrees ! nat i + 1])
      else Inl IndexOutOfRange)"

fun count_degrees ::
  "view_pairs_t \<Rightarrow> view_id_to_index_t \<times> real list \<Rightarrow> abort + (view_id_to_index_t \<times> real list)" where
  "count_degrees [] acc = Inr acc"
| "count_degrees ((pair, geom) # rest) acc =
     (case acc of (m, degrees) \<Rightarrow>
        let (i, m1) = index_or_insert m (fst pair);
            (j, m2) = index_or_insert m1 (snd pair)
        in case increment_degree degrees i of
             Inl a \<Rightarrow> Inl a
           | Inr degrees1 \<Rightarrow>
               (case increment_degree degrees1 j of
                  Inl a \<Rightarrow> Inl a
                | Inr degrees2 \<Rightarrow> count_degrees rest (m2, degrees2)))"

text \<open>The second loop: the triplets of the adjacency matrix, the triplets of the degree
  matrix and the largest degree seen. It looks up the same keys as the first loop, which
  has checked every index against the length of \<open>degrees\<close>.\<close>

fun laplacian_triplets ::
  "real list \<Rightarrow> view_pairs_t \<Rightarrow> view_id_to_index_t \<times> Triplet list \<times> Triplet list \<times> real
   \<Rightarrow> view_id_to_index_t \<times> Triplet list \<times> Triplet list \<times> real" where
  "laplacian_triplets degrees [] acc = acc"
| "laplacian_triplets degrees ((pair, geom) # rest) acc =
     (case acc of (m, a_triplets, d_triplets, max_degree) \<Rightarrow>
        let (i, m1) = index_or_insert m (fst pair);
            (j, m2) = index_or_insert m1 (snd pair)
        in laplacian_triplets degrees rest
             (m2,
              a_triplets @ [(i, j, 1), (j, i, 1)],
              d_triplets @ [(i, i, degrees ! nat i), (j, j, degrees ! nat j)],
              max (max max_degree (degrees ! nat i)) (degrees ! nat j)))"

text \<open>The matrix \<open>L = D - A\<close> that is handed to the eigensolver, with the largest degree
  and the index map as the two loops leave them.\<close>

definition ComputeErrorBound_L ::
  "view_pairs_t \<Rightarrow> 's LagrangeDualRotationEstimator
   \<Rightarrow> abort + (Matrix \<times> real \<times> view_id_to_index_t)" where
  "ComputeErrorBound_L view_pairs E =
     (let N = nat (images_num E)
      in case count_degrees view_pairs (ld_view_id_to_index E, replicate N 0) of
           Inl a \<Rightarrow> Inl a
         | Inr (m, degrees) \<Rightarrow>
             (case laplacian_triplets degrees view_pairs (m, [], [], 0) of
                (m', a_triplets, d_triplets, max_degree) \<Rightarrow>
                  (case setFromTriplets (zero_matrix N N) a_triplets of
                     Inl a \<Rightarrow> Inl a
                   | Inr A \<Rightarrow>
                       (case setFromTriplets (zero_matrix N N) d_triplets of
                          Inl a \<Rightarrow> Inl a
                        | Inr D \<Rightarrow> Inr (msub D A, max_degree, m')))))"

definition ComputeErrorBound ::
  "'s ld_deps \<Rightarrow> view_pairs_t \<Rightarrow> 's LagrangeDualRotationEstimator
   \<Rightarrow> abort + 's LagrangeDualRotationEstimator" where
  "ComputeErrorBound env view_pairs E =
     (case ComputeErrorBound_L view_pairs E of
        Inl a \<Rightarrow> Inl a
      | Inr (L, max_degree, m) \<Rightarrow>
          (case SymEigsSolver env L of
             (info, eigenvalues) \<Rightarrow>
               (if info = SUCCESSFUL \<and> eigenvalues = [] then Inl IndexOutOfRange
                else
                  let lambda2 = (if info = SUCCESSFUL then hd eigenvalues else 0)
                  in Inr (E\<lparr>ld_view_id_to_index := m,
                            alpha_max :=
                              2 * arcsin (sqrt (0.25 + lambda2 / (2 * max_degree)) - 0.5)\<rparr>))))"

section \<open>The quantities the specification names\<close>

text \<open>The soft threshold \<open>shrink(v, kappa) = sign(v) * max(|v| - kappa, 0)\<close>.\<close>

definition shrink :: "real \<Rightarrow> real \<Rightarrow> real" where
  "shrink v kappa = sgn v * max (\<bar>v\<bar> - kappa) 0"

text \<open>The stopping test of the ADMM iteration in the terms of the specification: the two
  residuals and the two tolerances, read off the vectors \<open>x\<close>, \<open>z\<close>, \<open>z_old\<close>, \<open>u\<close>.\<close>

definition primal_residual :: "'f L1Solver \<Rightarrow> VectorXd \<Rightarrow> admm_state \<Rightarrow> real" where
  "primal_residual S b st = vnorm (vsub (vsub (mat_vec (L1_a S) (admm_x st)) (admm_z st)) b)"

definition dual_residual :: "'f L1Solver \<Rightarrow> admm_state \<Rightarrow> real" where
  "dual_residual S st =
     vnorm (mat_vec (smult_m (rho (L1_options S)) (transpose_m (L1_a S)))
                    (vsub (admm_z st) (admm_z_old st)))"

definition eps_primal :: "'f L1Solver \<Rightarrow> VectorXd \<Rightarrow> admm_state \<Rightarrow> real" where
  "eps_primal S b st =
     sqrt (real (rows (L1_a S))) * absolute_tolerance (L1_options S)
     + relative_tolerance (L1_options S)
       * Max {vnorm (mat_vec (L1_a S) (admm_x st)), vnorm (admm_z st), vnorm b}"

definition eps_dual :: "'f L1Solver \<Rightarrow> admm_state \<Rightarrow> real" where
  "eps_dual S st =
     sqrt (real (cols (L1_a S))) * absolute_tolerance (L1_options S)
     + relative_tolerance (L1_options S)
       * vnorm (mat_vec (smult_m (rho (L1_options S)) (transpose_m (L1_a S))) (admm_u st))"

definition stopping_criterion :: "'f L1Solver \<Rightarrow> VectorXd \<Rightarrow> admm_state \<Rightarrow> bool" where
  "stopping_criterion S b st \<longleftrightarrow>
     primal_residual S b st < eps_primal S b st \<and> dual_residual S st < eps_dual S st"

text \<open>The status of the linear solve that opens the iteration started in state \<open>st\<close>.\<close>

definition x_update_info ::
  "'f SparseCholeskyLLt \<Rightarrow> 'f L1Solver \<Rightarrow> VectorXd \<Rightarrow> admm_state \<Rightarrow> ComputationInfo" where
  "x_update_info llt S b st =
     fst (llt_Solve llt (L1_linear_solver S)
            (mat_vec (transpose_m (L1_a S)) (vsub (vadd b (admm_z st)) (admm_u st))))"

text \<open>The mean of the norms of the first \<open>n\<close> three-coefficient increments of a step.\<close>

definition mean_increment_norm :: "nat \<Rightarrow> VectorXd \<Rightarrow> real" where
  "mean_increment_norm n step = (1 / real n) * (\<Sum>k<n. norm3 (seg3 step (3 * k)))"

text \<open>The status of the pattern analysis of \<open>SolveIRLS\<close> for a refiner whose matrix is set.\<close>

definition pattern_info :: "'f irls_deps \<Rightarrow> IRLSRotationLocalRefiner \<Rightarrow> ComputationInfo" where
  "pattern_info env R =
     fst (llt_AnalyzePattern (linear_solver env)
            (mat_mul (transpose_m (sparse_matrix R)) (sparse_matrix R)))"

text \<open>The weights of the specification. Edge \<open>k\<close> of the refiner \<open>R\<close> has the residual \<open>e\<close>, the
  three coefficients of \<open>tangent_space_residual\<close> from \<open>3 * k\<close> on, and the weight
  \<open>sigma / (\<parallel>e\<parallel>\<^sup>2 + sigma\<^sup>2)\<^sup>2\<close> with \<open>sigma = irls_loss_parameter_sigma\<close>. The diagonal matrix
  \<open>row_weights\<close> carries the weight of edge \<open>k\<close> in the three rows \<open>3 * k\<close>, \<open>3 * k + 1\<close> and
  \<open>3 * k + 2\<close>.\<close>

definition edge_residual :: "IRLSRotationLocalRefiner \<Rightarrow> nat \<Rightarrow> Vector3d" where
  "edge_residual R k =
     (tangent_space_residual R ! (3 * k), tangent_space_residual R ! (3 * k + 1),
      tangent_space_residual R ! (3 * k + 2))"

definition soft_loss_weight :: "IRLSRotationLocalRefiner \<Rightarrow> nat \<Rightarrow> real" where
  "soft_loss_weight R k =
     irls_loss_parameter_sigma (irls_options R)
     / (squaredNorm3 (edge_residual R k) + (irls_loss_parameter_sigma (irls_options R))\<^sup>2)\<^sup>2"

definition row_weights :: "IRLSRotationLocalRefiner \<Rightarrow> nat \<Rightarrow> Matrix" where
  "row_weights R num_edges =
     \<lparr>rows = 3 * num_edges, cols = 3 * num_edges,
      coeff = (\<lambda>i j. if i = j \<and> i < 3 * num_edges then soft_loss_weight R (i div 3) else 0)\<rparr>"

text \<open>What a pass of the loop of \<open>SolveIRLS\<close> that begins in the state \<open>st\<close> and applies these
  weights asks of the Cholesky adapter: the factorization of \<open>A\<^sup>T W A\<close>, then the
  solve with the right-hand side \<open>A\<^sup>T W r\<close>, where \<open>A\<close> is \<open>sparse_matrix\<close>, \<open>W\<close> is
  \<open>row_weights\<close> and \<open>r\<close> is \<open>tangent_space_residual\<close>. Each is the pair of the status and
  the factor or the solution.\<close>

definition pass_factorize ::
  "'f irls_deps \<Rightarrow> view_pairs_t \<Rightarrow> 'f irls_state \<Rightarrow> ComputationInfo \<times> 'f" where
  "pass_factorize env rel st =
     (case st of (R, gr, factor) \<Rightarrow>
        llt_Factorize (linear_solver env) factor
          (mat_mul (mat_mul (transpose_m (sparse_matrix R)) (row_weights R (length rel)))
                   (sparse_matrix R)))"

definition pass_solve ::
  "'f irls_deps \<Rightarrow> view_pairs_t \<Rightarrow> 'f irls_state \<Rightarrow> ComputationInfo \<times> VectorXd" where
  "pass_solve env rel st =
     (case st of (R, gr, factor) \<Rightarrow>
        llt_Solve (linear_solver env) (snd (pass_factorize env rel st))
          (mat_vec (mat_mul (transpose_m (sparse_matrix R)) (row_weights R (length rel)))
                   (tangent_space_residual R)))"

text \<open>The passes of a call of \<open>SolveIRLS\<close> whose pattern analysis succeeded: \<open>sts\<close> lists the
  state in which the first pass begins (the residuals computed, the rotations as passed
  in, the factor of the analysis) and then the state that each pass leaves, \<open>tr\<close> lists
  what each pass did; pass \<open>i\<close> is the body of the loop run from \<open>sts ! i\<close>.\<close>

definition passes_of_run ::
  "'f irls_deps \<Rightarrow> IRLSRotationLocalRefiner \<Rightarrow> view_pairs_t \<Rightarrow> global_rotations_t
   \<Rightarrow> 'f irls_state list \<Rightarrow> irls_step list \<Rightarrow> bool" where
  "passes_of_run env R rel gr sts tr \<longleftrightarrow>
     length sts = Suc (length tr) \<and>
     ComputeResiduals env (SolveIRLS_prepare env R rel gr) rel gr = Inr (fst (sts ! 0)) \<and>
     fst (snd (sts ! 0)) = gr \<and>
     snd (snd (sts ! 0))
       = snd (llt_AnalyzePattern (linear_solver env)
                (mat_mul (transpose_m (sparse_matrix (SolveIRLS_prepare env R rel gr)))
                         (sparse_matrix (SolveIRLS_prepare env R rel gr)))) \<and>
     (\<forall>i<length tr. irls_iteration env rel (sts ! i) = Inr (tr ! i, sts ! Suc i))"

text \<open>The unweighted graph Laplacian \<open>L = D - A\<close> of a graph on the vertices \<open>0, ..., N - 1\<close>
  given by its edges: \<open>D\<close> is diagonal with the vertex degrees, \<open>A\<close> counts the edges that
  join two vertices.\<close>

definition vertex_degree :: "(nat \<times> nat) list \<Rightarrow> nat \<Rightarrow> nat" where
  "vertex_degree edges v =
     length (filter (\<lambda>e. fst e = v) edges) + length (filter (\<lambda>e. snd e = v) edges)"

definition adjacency :: "(nat \<times> nat) list \<Rightarrow> nat \<Rightarrow> nat \<Rightarrow> nat" where
  "adjacency edges a b = length (filter (\<lambda>e. e = (a, b) \<or> e = (b, a)) edges)"

definition graph_laplacian :: "nat \<Rightarrow> (nat \<times> nat) list \<Rightarrow> Matrix" where
  "graph_laplacian N edges =
     \<lparr>rows = N, cols = N,
      coeff = (\<lambda>a b. (if a = b then real (vertex_degree edges a) else 0)
                     - real (adjacency edges a b))\<rparr>"

definition to_rows :: "Matrix \<Rightarrow> real list list" where
  "to_rows M = map (\<lambda>i. map (\<lambda>j. coeff M i j) [0..<cols M]) [0..<rows M]"

definition rows_times :: "real list list \<Rightarrow> real list \<Rightarrow> real list" where
  "rows_times M v = map (\<lambda>r. sum_list (map2 (*) r v)) M"

text \<open>What a caller observes of a call that may have aborted.\<close>

definition returned_value :: "abort + (bool \<times> 'a) \<Rightarrow> bool option" where
  "returned_value r = (case r of Inl a \<Rightarrow> None | Inr (ok, rest) \<Rightarrow> Some ok)"

definition rotations_after ::
  "abort + (bool \<times> 'e \<times> global_rotations_t) \<Rightarrow> global_rotations_t option" where
  "rotations_after r = (case r of Inl a \<Rightarrow> None | Inr (ok, E, gr) \<Rightarrow> Some gr)"

definition bound_after_estimate ::
  "abort + (bool \<times> 's LagrangeDualRotationEstimator \<times> global_rotations_t) \<Rightarrow> real option" where
  "bound_after_estimate r = (case r of Inl a \<Rightarrow> None | Inr (ok, E, gr) \<Rightarrow> Some (GetErrorBound E))"

definition bound_after_compute :: "abort + 's LagrangeDualRotationEstimator \<Rightarrow> real option" where
  "bound_after_compute r = (case r of Inl a \<Rightarrow> None | Inr E \<Rightarrow> Some (GetErrorBound E))"

definition matrix_for_eigensolver ::
  "abort + (Matrix \<times> real \<times> view_id_to_index_t) \<Rightarrow> real list list option" where
  "matrix_for_eigensolver r = (case r of Inl a \<Rightarrow> None | Inr (L, d, m) \<Rightarrow> Some (to_rows L))"

section \<open>Concrete inputs\<close>

subsection \<open>A one-dimensional identity system for the L1 solver\<close>

text \<open>A Cholesky adapter that is exact on identity systems, and one whose solve reports a
  numerical issue and leaves the zero vector.\<close>

definition exact_identity_solver :: "unit SparseCholeskyLLt" where
  "exact_identity_solver =
     \<lparr>llt_Compute = (\<lambda>M. (Success, ())), llt_AnalyzePattern = (\<lambda>M. (Success, ())),
      llt_Factorize = (\<lambda>f M. (Success, ())), llt_Solve = (\<lambda>f rhs. (Success, rhs))\<rparr>"

definition failing_solver :: "unit SparseCholeskyLLt" where
  "failing_solver =
     \<lparr>llt_Compute = (\<lambda>M. (Success, ())), llt_AnalyzePattern = (\<lambda>M. (Success, ())),
      llt_Factorize = (\<lambda>f M. (Success, ())),
      llt_Solve = (\<lambda>f rhs. (NumericalIssue, map (\<lambda>v. 0) rhs))\<rparr>"

definition unit_solver :: "unit L1Solver" where
  "unit_solver = \<lparr>L1_options = default_Options, L1_a = Identity 1, L1_linear_solver = ()\<rparr>"

definition unit_converged :: admm_state where
  "unit_converged =
     \<lparr>admm_x = [1], admm_z = [0], admm_u = [0], admm_a_times_x = [1], admm_z_old = [0],
      admm_ax_hat = [1]\<rparr>"

definition unit_failed :: admm_state where
  "unit_failed =
     \<lparr>admm_x = [0], admm_z = [0], admm_u = [0], admm_a_times_x = [0], admm_z_old = [0],
      admm_ax_hat = [0]\<rparr>"

subsection \<open>Two views and one measurement for the refiner\<close>

text \<open>
  Views \<open>10\<close> and \<open>20\<close>, one measurement of one radian about the first axis, both initial
  rotations zero. All rotations are about that axis, where composition adds the angles.
  The matrix of the system is the \<open>3 \<times> 3\<close> identity (the columns of view \<open>10\<close>, at index
  \<open>0\<close>, are left out), so the weighted normal matrix is diagonal and the adapter below
  solves it exactly.
\<close>

definition diagonal_solver :: "Matrix SparseCholeskyLLt" where
  "diagonal_solver =
     \<lparr>llt_Compute = (\<lambda>M. (Success, M)), llt_AnalyzePattern = (\<lambda>M. (Success, M)),
      llt_Factorize = (\<lambda>f M. (Success, M)),
      llt_Solve = (\<lambda>M rhs. (Success, map (\<lambda>i. rhs ! i / coeff M i i) [0..<length rhs]))\<rparr>"

definition factorize_failing_solver :: "Matrix SparseCholeskyLLt" where
  "factorize_failing_solver =
     diagonal_solver\<lparr>llt_Factorize := (\<lambda>f M. (NumericalIssue, M))\<rparr>"

definition pair_env :: "Matrix SparseCholeskyLLt \<Rightarrow> Matrix irls_deps" where
  "pair_env llt =
     \<lparr>MultiplyRotations =
        (\<lambda>a b. case a of (a1, a2, a3) \<Rightarrow> case b of (b1, b2, b3) \<Rightarrow> (a1 + b1, a2 + b2, a3 + b3)),
      ViewIdToAscentIndex = (\<lambda>gr. zip (map fst gr) (map int [0..<length gr])),
      SetupLinearSystem = (\<lambda>rel n idx. Identity 3),
      linear_solver = llt\<rparr>"

definition pair_options :: IRLSRefinerOptions where
  "pair_options =
     \<lparr>max_num_irls_iterations = 100, irls_loss_parameter_sigma = 1,
      irls_step_convergence_threshold = 1 / 1000, num_threads = 1\<rparr>"

definition pair_refiner :: IRLSRotationLocalRefiner where
  "pair_refiner = IRLSRotationLocalRefiner_new 2 1 pair_options"

definition pair_measurement :: view_pairs_t where
  "pair_measurement =
     [((10, 20), \<lparr>rotation_2 = (1, 0, 0), translation_2 = (0, 0, 0), visibility_score = 1\<rparr>)]"

definition pair_rotations :: global_rotations_t where
  "pair_rotations = [(10, (0, 0, 0)), (20, (0, 0, 0))]"

definition pair_refined :: global_rotations_t where
  "pair_refined = [(10, (0, 0, 0)), (20, (1, 0, 0))]"

definition pair_start :: IRLSRotationLocalRefiner where
  "pair_start =
     \<lparr>irls_options = pair_options, tangent_space_step = [0, 0, 0],
      tangent_space_residual = [1, 0, 0], view_id_to_index = [(10, 0), (20, 1)],
      sparse_matrix = Identity 3\<rparr>"

definition pair_final :: IRLSRotationLocalRefiner where
  "pair_final = pair_start\<lparr>tangent_space_step := [0, 0, 0], tangent_space_residual := [0, 0, 0]\<rparr>"

definition pair_weighted :: "real \<Rightarrow> Matrix" where
  "pair_weighted w =
     mat_mul (mat_mul (transpose_m (Identity 3)) (asDiagonal [w, w, w])) (Identity 3)"

subsection \<open>Five views for the Lagrange-dual estimator\<close>

text \<open>
  Views \<open>0, ..., 4\<close> with their own numbers as indices and identity measurements. The
  conversions are the ones of the identity rotation (zero vector, identity matrix), the
  SDP solution is five identity blocks. In the star every measurement joins view \<open>0\<close>;
  in the cycle view \<open>i\<close> is joined to view \<open>i + 1\<close>, and view \<open>4\<close> to view \<open>0\<close>.
\<close>

definition identity_measurement :: TwoViewGeometry where
  "identity_measurement =
     \<lparr>rotation_2 = (0, 0, 0), translation_2 = (0, 0, 0), visibility_score = 1\<rparr>"

definition star_pairs :: view_pairs_t where
  "star_pairs = [((0, 1), identity_measurement), ((0, 2), identity_measurement),
                 ((0, 3), identity_measurement), ((0, 4), identity_measurement)]"

definition cycle_pairs :: view_pairs_t where
  "cycle_pairs = [((0, 1), identity_measurement), ((1, 2), identity_measurement),
                  ((2, 3), identity_measurement), ((3, 4), identity_measurement),
                  ((4, 0), identity_measurement)]"

definition star_rotations :: global_rotations_t where
  "star_rotations =
     [(0, (1, 0, 0)), (1, (0, 0, 0)), (2, (0, 0, 0)), (3, (0, 0, 0)), (4, (0, 0, 0))]"

definition star_result :: global_rotations_t where
  "star_result =
     [(0, (0, 0, 0)), (1, (0, 0, 0)), (2, (0, 0, 0)), (3, (0, 0, 0)), (4, (0, 0, 0))]"

definition star_index :: view_id_to_index_t where
  "star_index = [(0, 0), (1, 1), (2, 2), (3, 3), (4, 4)]"

definition star_Y :: Matrix where
  "star_Y = \<lparr>rows = 3, cols = 15, coeff = (\<lambda>i j. if j mod 3 = i then 1 else 0)\<rparr>"

definition star_env :: "SpectraInfo \<times> real list \<Rightarrow> unit ld_deps" where
  "star_env eigs =
     \<lparr>ld_ViewIdToAscentIndex = (\<lambda>gr. zip (map fst gr) (map int [0..<length gr])),
      AngleAxisToRotationMatrix = (\<lambda>v i j. if i = j then 1 else 0),
      RotationMatrixToAngleAxis = (\<lambda>M. (0, 0, 0)),
      sdp_run = (\<lambda>solver C adj s. (star_Y, s)),
      SymEigsSolver = (\<lambda>L. eigs)\<rparr>"

definition star_estimator :: "SDPSolverType \<Rightarrow> unit LagrangeDualRotationEstimator" where
  "star_estimator t =
     ld_SetViewIdToIndex star_index
       (LagrangeDualRotationEstimator_new () 5 3 \<lparr>solver_type = t\<rparr>)"

text \<open>For the star, the matrix handed to the eigensolver is \<open>star_matrix\<close>. Its
  eigenvalues are \<open>(17 - sqrt 241) / 2\<close>, three times \<open>1\<close>, and \<open>(17 + sqrt 241) / 2\<close>; of
  the two smallest the eigensolver lists the larger first.\<close>

definition star_matrix :: "real list list" where
  "star_matrix = [[16, - 1, - 1, - 1, - 1], [- 1, 1, 0, 0, 0], [- 1, 0, 1, 0, 0],
                  [- 1, 0, 0, 1, 0], [- 1, 0, 0, 0, 1]]"

definition star_eigenvalues :: "SpectraInfo \<times> real list" where
  "star_eigenvalues = (SUCCESSFUL, [1, (17 - sqrt 241) / 2])"

definition no_eigenvalues :: "SpectraInfo \<times> real list" where
  "no_eigenvalues = (NOT_CONVERGING, [])"

section \<open>The L1 solver: proofs\<close>

subsection \<open>Vectors and the identity matrix\<close>

lemma sum_list_delta:
  "i < n \<Longrightarrow> sum_list (map (\<lambda>j. (if i = j then 1 else 0) * (v ! j)) [0..<n]) = (v ! i :: real)"
proof -
  assume "i < n"
  have "sum_list (map (\<lambda>j. (if i = j then 1 else 0) * (v ! j)) [0..<n])
        = (\<Sum>j\<in>{0..<n}. (if i = j then 1 else 0) * (v ! j))"
    by (simp add: interv_sum_list_conv_sum_set_nat)
  also have "\<dots> = (\<Sum>j\<in>{0..<n}. if i = j then v ! j else 0)"
    by (rule sum.cong) auto
  also have "\<dots> = v ! i" using \<open>i < n\<close> by simp
  finally show ?thesis .
qed

lemma sum_list_delta':
  "i < n \<Longrightarrow> sum_list (map (\<lambda>j. (if j = i then 1 else 0) * (v ! j)) [0..<n]) = (v ! i :: real)"
  using sum_list_delta[of i n v] by (simp add: eq_commute[of i] cong: if_cong)

lemma mat_vec_Identity: "length v = n \<Longrightarrow> mat_vec (Identity n) v = v"
  by (simp add: mat_vec_def Identity_def list_eq_iff_nth_eq sum_list_delta)

lemma mat_vec_transpose_Identity: "length v = n \<Longrightarrow> mat_vec (transpose_m (Identity n)) v = v"
  by (simp add: mat_vec_def Identity_def transpose_m_def list_eq_iff_nth_eq sum_list_delta')

lemma vadd_zero_right: "length v = n \<Longrightarrow> vadd v (setZero n) = v"
  by (simp add: vadd_def setZero_def list_eq_iff_nth_eq)

lemma vadd_zero_left: "length v = n \<Longrightarrow> vadd (setZero n) v = v"
  by (simp add: vadd_def setZero_def list_eq_iff_nth_eq)

lemma vsub_zero_right: "length v = n \<Longrightarrow> vsub v (setZero n) = v"
  by (simp add: vsub_def setZero_def list_eq_iff_nth_eq)

lemma vsub_self: "vsub v v = setZero (length v)"
  by (simp add: vsub_def setZero_def list_eq_iff_nth_eq)

lemma vadd_zero_zero: "vadd (setZero n) (setZero n) = setZero n"
  by (simp add: vadd_def setZero_def list_eq_iff_nth_eq)

lemma vsub_zero_zero: "vsub (setZero n) (setZero n) = setZero n"
  by (simp add: vsub_def setZero_def list_eq_iff_nth_eq)

lemma relaxation_same: "vadd (vscale a v) (vscale (1 - a) v) = v"
  by (simp add: vadd_def vscale_def list_eq_iff_nth_eq algebra_simps)

lemma Shrinkage_zero: "Shrinkage (setZero n) kappa = setZero n"
  by (simp add: Shrinkage_def setZero_def list_eq_iff_nth_eq)

lemma vnorm_zero: "vnorm (setZero n) = 0"
  by (induction n) (simp_all add: vnorm_def squaredNorm_def setZero_def)

lemma sum_list_zero_mult: "sum_list (map (\<lambda>j. c j * (replicate n (0::real) ! j)) [0..<n]) = 0"
  by (simp add: interv_sum_list_conv_sum_set_nat)

lemma mat_vec_zero: "cols M = n \<Longrightarrow> mat_vec M (setZero n) = setZero (rows M)"
  by (simp add: mat_vec_def setZero_def list_eq_iff_nth_eq sum_list_zero_mult)

lemma vnorm_nonneg: "0 \<le> vnorm v"
  by (auto simp: vnorm_def squaredNorm_def intro!: sum_list_nonneg)

subsection \<open>The soft threshold\<close>

lemma Shrinkage_map:
  "Shrinkage vec kappa = map (\<lambda>v. max 0 (v - kappa) - max 0 (- v - kappa)) vec"
  by (induction vec) (simp_all add: Shrinkage_def setZero_def Let_def)

lemma soft_threshold_pointwise:
  "0 \<le> kappa \<Longrightarrow> max 0 (v - kappa) - max 0 (- v - kappa) = shrink v kappa"
  by (auto simp: shrink_def max_def sgn_real_def)

lemma Shrinkage_shrink: "0 \<le> kappa \<Longrightarrow> Shrinkage vec kappa = map (\<lambda>v. shrink v kappa) vec"
  by (simp add: Shrinkage_map soft_threshold_pointwise)

lemma admm_iteration_z:
  assumes "admm_iteration llt S rhs st = Converged st' \<or> admm_iteration llt S rhs st = NotConverged st'"
  shows "admm_z_old st' = admm_z st \<and>
         admm_z st' = Shrinkage (vadd (vsub (admm_ax_hat st') rhs) (admm_u st)) (1 / rho (L1_options S))"
  using assms
  by (auto simp: admm_iteration_def Let_def split: prod.splits if_splits)

subsection \<open>The exits of the loop\<close>

lemma mat_vec_smult_neg: "mat_vec (smult_m (- c) M) w = map uminus (mat_vec (smult_m c M) w)"
  by (simp add: mat_vec_def smult_m_def uminus_sum_list_map o_def)

lemma squaredNorm_uminus: "squaredNorm (map uminus v) = squaredNorm v"
  by (simp add: squaredNorm_def o_def)

lemma vnorm_smult_neg: "vnorm (mat_vec (smult_m (- c) M) w) = vnorm (mat_vec (smult_m c M) w)"
  by (simp add: vnorm_def mat_vec_smult_neg squaredNorm_uminus)

lemma Max3: "Max {a, b, c :: real} = max (max a b) c"
  by (simp add: max.commute max.left_commute)

lemma admm_iteration_Converged:
  "admm_iteration llt S b st = Converged st' \<Longrightarrow>
     x_update_info llt S b st = Success \<and> stopping_criterion S b st'"
  by (auto simp: admm_iteration_def Let_def x_update_info_def stopping_criterion_def
        primal_residual_def dual_residual_def eps_primal_def eps_dual_def Max3 vnorm_smult_neg
        split: prod.splits if_splits)

lemma admm_iteration_NotConverged:
  "admm_iteration llt S b st = NotConverged st' \<Longrightarrow>
     x_update_info llt S b st = Success \<and> \<not> stopping_criterion S b st'"
  by (auto simp: admm_iteration_def Let_def x_update_info_def stopping_criterion_def
        primal_residual_def dual_residual_def eps_primal_def eps_dual_def Max3 vnorm_smult_neg
        split: prod.splits if_splits)

lemma admm_iteration_SolveFailed:
  "admm_iteration llt S b st = SolveFailed st' \<Longrightarrow> x_update_info llt S b st \<noteq> Success"
  by (auto simp: admm_iteration_def Let_def x_update_info_def split: prod.splits if_splits)

lemma Solve_loop_trace:
  "Solve_loop llt S b n st = (e, fin, tr) \<Longrightarrow>
     length tr \<le> n \<and>
     (\<forall>s \<in> set (butlast tr). \<not> stopping_criterion S b s) \<and>
     (length tr < n \<longrightarrow> e = Convergence \<or> e = SolverFailure) \<and>
     (e = Convergence \<longrightarrow> tr \<noteq> [] \<and> fin = last tr \<and> stopping_criterion S b fin) \<and>
     (e = SolverFailure \<longrightarrow>
        tr \<noteq> [] \<and> fin = last tr \<and> x_update_info llt S b (last (butlast (st # tr))) \<noteq> Success) \<and>
     (e = IterationCap \<longrightarrow> length tr = n \<and> (\<forall>s \<in> set tr. \<not> stopping_criterion S b s))"
proof (induction n arbitrary: st e fin tr)
  case 0
  then show ?case by auto
next
  case (Suc n)
  show ?case
  proof (cases "admm_iteration llt S b st")
    case (SolveFailed st')
    with Suc.prems admm_iteration_SolveFailed[OF SolveFailed] show ?thesis by auto
  next
    case (Converged st')
    with Suc.prems admm_iteration_Converged[OF Converged] show ?thesis by auto
  next
    case (NotConverged st')
    obtain e' fin' tr' where rec: "Solve_loop llt S b n st' = (e', fin', tr')"
      by (cases "Solve_loop llt S b n st'") auto
    with Suc.prems NotConverged have eq: "e = e'" "fin = fin'" "tr = st' # tr'" by auto
    note IH = Suc.IH[OF rec]
    note nc = admm_iteration_NotConverged[OF NotConverged]
    show ?thesis
      using IH nc unfolding eq by (auto split: if_splits)
  qed
qed

lemma Solve_loop_passes:
  "Solve_loop llt S b n st = (e, fin, tr) \<Longrightarrow>
     fin = last (st # tr) \<and>
     (0 < n \<longrightarrow> tr \<noteq> []) \<and>
     (\<forall>i<length tr. x_update_info llt S b ((st # tr) ! i) \<noteq> Success \<longrightarrow>
         Suc i = length tr \<and> e = SolverFailure) \<and>
     (\<forall>i<length tr. x_update_info llt S b ((st # tr) ! i) = Success \<and> stopping_criterion S b (tr ! i) \<longrightarrow>
         Suc i = length tr \<and> e = Convergence) \<and>
     (\<forall>i<length tr. x_update_info llt S b ((st # tr) ! i) = Success \<and> \<not> stopping_criterion S b (tr ! i) \<and>
         Suc i = length tr \<longrightarrow> e = IterationCap \<and> length tr = n) \<and>
     (\<forall>i<length tr. x_update_info llt S b ((st # tr) ! i) = Success \<longrightarrow>
         admm_z_old (tr ! i) = admm_z ((st # tr) ! i))"
proof (induction n arbitrary: st e fin tr)
  case 0
  then show ?case by auto
next
  case (Suc n)
  show ?case
  proof (cases "admm_iteration llt S b st")
    case (SolveFailed st')
    with Suc.prems admm_iteration_SolveFailed[OF SolveFailed] show ?thesis by auto
  next
    case (Converged st')
    with Suc.prems admm_iteration_Converged[OF Converged] admm_iteration_z[of llt S b st st']
    show ?thesis by auto
  next
    case (NotConverged st')
    obtain e' fin' tr' where rec: "Solve_loop llt S b n st' = (e', fin', tr')"
      by (cases "Solve_loop llt S b n st'") auto
    with Suc.prems NotConverged have eq: "e = e'" "fin = fin'" "tr = st' # tr'" by auto
    note IH = Suc.IH[OF rec]
    note nc = admm_iteration_NotConverged[OF NotConverged]
    have z: "tr' = [] \<Longrightarrow> n = 0 \<and> e' = IterationCap"
      using rec IH by (cases n) auto
    have a: "fin' = last (st # st' # tr')" using IH by simp
    have c: "Suc i = length (st' # tr') \<and> e' = SolverFailure"
      if i: "i < length (st' # tr')"
        and f: "x_update_info llt S b ((st # st' # tr') ! i) \<noteq> Success" for i
    proof (cases i)
      case 0 with f nc show ?thesis by simp
    next
      case (Suc j)
      with i f IH show ?thesis by auto
    qed
    have d: "Suc i = length (st' # tr') \<and> e' = Convergence"
      if i: "i < length (st' # tr')"
        and f: "x_update_info llt S b ((st # st' # tr') ! i) = Success \<and> stopping_criterion S b ((st' # tr') ! i)" for i
    proof (cases i)
      case 0 with f nc show ?thesis by simp
    next
      case (Suc j)
      with i f IH show ?thesis by auto
    qed
    have ih: "e' = IterationCap \<and> length tr' = n"
      if "j < length tr'" "x_update_info llt S b ((st' # tr') ! j) = Success"
        "\<not> stopping_criterion S b (tr' ! j)" "Suc j = length tr'" for j
      using IH that by blast
    have e: "e' = IterationCap \<and> length (st' # tr') = Suc n"
      if i: "i < length (st' # tr')"
        and f: "x_update_info llt S b ((st # st' # tr') ! i) = Success \<and> \<not> stopping_criterion S b ((st' # tr') ! i) \<and> Suc i = length (st' # tr')" for i
    proof (cases i)
      case 0 with f z show ?thesis by simp
    next
      case (Suc j)
      with i f ih[of j] show ?thesis by simp
    qed
    have g: "admm_z_old ((st' # tr') ! i) = admm_z ((st # st' # tr') ! i)"
      if i: "i < length (st' # tr')"
        and f: "x_update_info llt S b ((st # st' # tr') ! i) = Success" for i
    proof (cases i)
      case 0 with admm_iteration_z[of llt S b st st'] NotConverged show ?thesis by simp
    next
      case (Suc j)
      with i f IH show ?thesis by auto
    qed
    show ?thesis
      unfolding eq using a c d e g by blast
  qed
qed

subsection \<open>The identity system\<close>

lemma identity_iteration:
  assumes exact: "\<forall>rhs. length rhs = n \<longrightarrow> llt_Solve llt (L1_linear_solver S) rhs = (Success, rhs)"
    and A: "L1_a S = Identity n" and b: "length b = n"
    and st: "admm_z st = setZero n" "admm_u st = setZero n"
  shows "\<exists>st'. (admm_iteration llt S b st = Converged st' \<or> admm_iteration llt S b st = NotConverged st')
           \<and> admm_x st' = b \<and> admm_z st' = setZero n \<and> admm_u st' = setZero n"
proof -
  have rhs: "mat_vec (transpose_m (Identity n)) (vsub (vadd b (setZero n)) (setZero n)) = b"
    using b by (simp add: vadd_zero_right vsub_zero_right mat_vec_transpose_Identity)
  have sol: "llt_Solve llt (L1_linear_solver S) b = (Success, b)"
    using exact b by simp
  have hat: "vadd (vscale a b) (vscale (1 - a) (vadd (setZero n) b)) = b" for a
    using b by (simp add: vadd_zero_left relaxation_same)
  have zn: "Shrinkage (vadd (vsub b b) (setZero n)) k = setZero n" for k
    using b by (simp add: vsub_self vadd_zero_zero Shrinkage_zero)
  have un: "vadd (setZero n) (vsub (vsub b (setZero n)) b) = setZero n"
    using b by (simp add: vsub_zero_right vsub_self vadd_zero_zero)
  show ?thesis
    using b by (simp add: admm_iteration_def Let_def A st rhs sol hat zn un mat_vec_Identity)
qed

lemma identity_loop:
  assumes exact: "\<forall>rhs. length rhs = n \<longrightarrow> llt_Solve llt (L1_linear_solver S) rhs = (Success, rhs)"
    and A: "L1_a S = Identity n" and b: "length b = n"
  shows "admm_z st = setZero n \<Longrightarrow> admm_u st = setZero n \<Longrightarrow>
         admm_x (fst (snd (Solve_loop llt S b (Suc m) st))) = b"
proof (induction m arbitrary: st)
  case 0
  from identity_iteration[OF exact A b 0] show ?case by auto
next
  case (Suc m)
  from identity_iteration[OF exact A b Suc.prems] obtain st' where
    it: "admm_iteration llt S b st = Converged st' \<or> admm_iteration llt S b st = NotConverged st'"
    and st': "admm_x st' = b" "admm_z st' = setZero n" "admm_u st' = setZero n" by blast
  from it show ?case
  proof
    assume "admm_iteration llt S b st = Converged st'"
    then show ?thesis using st' by simp
  next
    assume nc: "admm_iteration llt S b st = NotConverged st'"
    have "Solve_loop llt S b (Suc (Suc m)) st =
            (case Solve_loop llt S b (Suc m) st' of (e, fin, tr) \<Rightarrow> (e, fin, st' # tr))"
      using nc by (simp del: Solve_loop.simps add: Solve_loop.simps(2)[of llt S b "Suc m" st])
    then show ?thesis using Suc.IH[OF st'(2,3)] by (simp split: prod.splits)
  qed
qed

lemma identity_first_iteration_converges:
  assumes exact: "\<forall>rhs. length rhs = n \<longrightarrow> llt_Solve llt (L1_linear_solver S) rhs = (Success, rhs)"
    and A: "L1_a S = Identity n" and b: "length b = n"
    and st: "admm_z st = setZero n" "admm_u st = setZero n"
    and tol: "0 < absolute_tolerance (L1_options S)" "0 \<le> relative_tolerance (L1_options S)" "0 < n"
  shows "\<exists>st'. admm_iteration llt S b st = Converged st'"
proof -
  have rhs: "mat_vec (transpose_m (Identity n)) (vsub (vadd b (setZero n)) (setZero n)) = b"
    using b by (simp add: vadd_zero_right vsub_zero_right mat_vec_transpose_Identity)
  have sol: "llt_Solve llt (L1_linear_solver S) b = (Success, b)"
    using exact b by simp
  have hat: "vadd (vscale a b) (vscale (1 - a) (vadd (setZero n) b)) = b" for a
    using b by (simp add: vadd_zero_left relaxation_same)
  have zn: "Shrinkage (vadd (vsub b b) (setZero n)) k = setZero n" for k
    using b by (simp add: vsub_self vadd_zero_zero Shrinkage_zero)
  have un: "vadd (setZero n) (vsub (vsub b (setZero n)) b) = setZero n"
    using b by (simp add: vsub_zero_right vsub_self vadd_zero_zero)
  have r0: "vnorm (vsub (vsub b (setZero n)) b) = 0"
    using b by (simp add: vsub_zero_right vsub_self vnorm_zero)
  have s0: "vnorm (mat_vec (smult_m c (transpose_m (Identity n))) (vsub (setZero n) (setZero n))) = 0" for c
    by (simp add: vsub_zero_zero mat_vec_zero smult_m_def transpose_m_def Identity_def vnorm_zero)
  have s1: "mat_vec (smult_m c (transpose_m (Identity n))) (setZero n) = setZero n" for c
    by (simp add: mat_vec_zero smult_m_def transpose_m_def Identity_def)
  have pos: "0 < sqrt (real n) * absolute_tolerance (L1_options S)"
    using tol by simp
  have mx: "0 \<le> relative_tolerance (L1_options S) * max (max (vnorm b) (vnorm (setZero n))) (vnorm b)"
    using tol vnorm_nonneg[of b] by (simp add: vnorm_zero)
  show ?thesis
    using b pos mx
    by (simp add: admm_iteration_def Let_def A st rhs sol hat zn un mat_vec_Identity r0 s0 s1
          vnorm_zero Identity_def[of n, THEN arg_cong[of _ _ rows]] Identity_def[of n, THEN arg_cong[of _ _ cols]])
qed

subsection \<open>The one-dimensional runs\<close>

lemma unit_solver_new: "L1Solver_new exact_identity_solver default_Options (Identity 1) = Inr unit_solver"
  by (simp add: L1Solver_new_def exact_identity_solver_def unit_solver_def)

lemma Identity_dims [simp]: "rows (Identity n) = n" "cols (Identity n) = n"
  by (simp_all add: Identity_def)

lemma mat_vec_unit [simp]:
  "mat_vec (Identity (Suc 0)) [a] = [a]"
  "mat_vec (transpose_m (Identity (Suc 0))) [a] = [a]"
  "mat_vec (smult_m c (transpose_m (Identity (Suc 0)))) [a] = [c * a]"
  by (simp_all add: mat_vec_def Identity_def transpose_m_def smult_m_def)

lemma unit_solver_cap: "nat (max_num_iterations (L1_options unit_solver)) = 1000"
  by (simp add: unit_solver_def default_Options_def)

lemma exact_identity_solver_exact:
  "\<forall>rhs. length rhs = n \<longrightarrow> llt_Solve exact_identity_solver f rhs = (Success, rhs)"
  by (simp add: exact_identity_solver_def)

lemma unit_iteration:
  "admm_iteration exact_identity_solver unit_solver [1] (admm_init unit_solver [0]) = Converged unit_converged"
  by (simp add: admm_iteration_def Let_def unit_solver_def admm_init_def exact_identity_solver_def
        default_Options_def unit_converged_def vadd_def vsub_def vscale_def setZero_def
        Shrinkage_def vnorm_def squaredNorm_def)

lemma unit_failed_iteration:
  "admm_iteration failing_solver unit_solver [1] (admm_init unit_solver [0]) = SolveFailed unit_failed"
  by (simp add: admm_iteration_def Let_def unit_solver_def admm_init_def failing_solver_def
        default_Options_def unit_failed_def vadd_def vsub_def setZero_def)

lemma nat_1000: "nat 1000 = Suc 999" by simp

lemma unit_run:
  "Solve_run exact_identity_solver unit_solver [1] [0] = (Convergence, unit_converged, [unit_converged])"
proof -
  have "max_num_iterations (L1_options unit_solver) = 1000"
    by (simp add: unit_solver_def default_Options_def)
  then show ?thesis
    unfolding Solve_run_def by (simp only: nat_1000 Solve_loop.simps unit_iteration iteration.case)
qed

lemma unit_failed_run:
  "Solve_run failing_solver unit_solver [1] [0] = (SolverFailure, unit_failed, [unit_failed])"
proof -
  have "max_num_iterations (L1_options unit_solver) = 1000"
    by (simp add: unit_solver_def default_Options_def)
  then show ?thesis
    unfolding Solve_run_def by (simp only: nat_1000 Solve_loop.simps unit_failed_iteration iteration.case)
qed


text \<open>
  Claim C8. The update of \<open>z\<close> is the elementwise soft threshold: for a positive \<open>rho\<close>,
  hence \<open>kappa = 1 / rho\<close> positive, the expression \<open>max(0, v - kappa) - max(0, - v - kappa)\<close>
  that \<open>Shrinkage\<close> computes equals \<open>sign(v) * max(|v| - kappa, 0)\<close> in every component,
  and an iteration whose linear solve succeeds saves the old \<open>z\<close> in \<open>z_old\<close> and assigns
  \<open>shrink(ax_hat - b + u, 1 / rho)\<close> to \<open>z\<close>.
\<close>

theorem soft_threshold_z_update:
  assumes "0 < rho (L1_options S)"
  shows "Shrinkage vec (1 / rho (L1_options S)) = map (\<lambda>v. shrink v (1 / rho (L1_options S))) vec \<and>
    (admm_iteration llt S rhs st = Converged st' \<or> admm_iteration llt S rhs st = NotConverged st' \<longrightarrow>
       admm_z_old st' = admm_z st \<and>
       admm_z st' = map (\<lambda>v. shrink v (1 / rho (L1_options S)))
                      (vadd (vsub (admm_ax_hat st') rhs) (admm_u st)))"
  using assms admm_iteration_z[of llt S rhs st st'] by (simp add: Shrinkage_shrink)

theorem soft_threshold_z_update_witness:
  "0 < rho (L1_options unit_solver) \<and>
   Shrinkage [3, - 3, 1 / 2] (1 / rho (L1_options unit_solver)) = [2, - 2, 0] \<and>
   admm_iteration exact_identity_solver unit_solver [1] (admm_init unit_solver [0]) = Converged unit_converged \<and>
   admm_z_old unit_converged = admm_z (admm_init unit_solver [0]) \<and>
   admm_z unit_converged = [shrink 0 1]"
  using soft_threshold_z_update[of unit_solver "[3, - 3, 1 / 2]" exact_identity_solver "[1]"
          "admm_init unit_solver [0]" unit_converged] unit_iteration
  by (simp add: unit_solver_def default_Options_def shrink_def unit_converged_def admm_init_def
        setZero_def vadd_def vsub_def)

text \<open>
  Claim C5, as amended. The loop of \<open>Solve\<close> never runs more than \<open>max_num_iterations\<close>
  passes, and runs at least one when that number is positive. A pass whose linear solve
  reports a status other than success is the last one: \<open>Solve\<close> returns at once. A pass
  whose solve succeeds and after which the stopping test of the specification holds
  (primal residual below \<open>eps_primal\<close> and dual residual below \<open>eps_dual\<close>, \<open>z_old\<close> being
  the \<open>z\<close> with which the pass began) is the last one: the loop breaks. After a pass whose
  solve succeeds and after which the test fails the loop goes on; if that pass is the
  last one, the cap of \<open>max_num_iterations\<close> passes has been reached.
\<close>

theorem ADMM_loop_exits:
  assumes "Solve_run llt S b x0 = (e, fin, tr)"
  shows "length tr \<le> nat (max_num_iterations (L1_options S)) \<and>
     (\<forall>s \<in> set (butlast tr). \<not> stopping_criterion S b s) \<and>
     (length tr < nat (max_num_iterations (L1_options S)) \<longrightarrow> e = Convergence \<or> e = SolverFailure) \<and>
     (e = Convergence \<longrightarrow> tr \<noteq> [] \<and> fin = last tr \<and> stopping_criterion S b fin) \<and>
     (e = SolverFailure \<longrightarrow>
        tr \<noteq> [] \<and> fin = last tr \<and>
        x_update_info llt S b (last (butlast (admm_init S x0 # tr))) \<noteq> Success) \<and>
     (e = IterationCap \<longrightarrow>
        length tr = nat (max_num_iterations (L1_options S)) \<and>
        (\<forall>s \<in> set tr. \<not> stopping_criterion S b s)) \<and>
     fin = last (admm_init S x0 # tr) \<and>
     (0 < nat (max_num_iterations (L1_options S)) \<longrightarrow> tr \<noteq> []) \<and>
     (\<forall>i<length tr. x_update_info llt S b ((admm_init S x0 # tr) ! i) \<noteq> Success \<longrightarrow>
         Suc i = length tr \<and> e = SolverFailure) \<and>
     (\<forall>i<length tr. x_update_info llt S b ((admm_init S x0 # tr) ! i) = Success \<and>
                    stopping_criterion S b (tr ! i) \<longrightarrow>
         Suc i = length tr \<and> e = Convergence) \<and>
     (\<forall>i<length tr. x_update_info llt S b ((admm_init S x0 # tr) ! i) = Success \<and>
                    \<not> stopping_criterion S b (tr ! i) \<and> Suc i = length tr \<longrightarrow>
         e = IterationCap \<and> length tr = nat (max_num_iterations (L1_options S))) \<and>
     (\<forall>i<length tr. x_update_info llt S b ((admm_init S x0 # tr) ! i) = Success \<longrightarrow>
         admm_z_old (tr ! i) = admm_z ((admm_init S x0 # tr) ! i))"
proof -
  note old = Solve_loop_trace[OF assms[unfolded Solve_run_def]]
  note new = Solve_loop_passes[OF assms[unfolded Solve_run_def]]
  from conjI[OF old new] show ?thesis unfolding conj_assoc .
qed

theorem ADMM_loop_exits_witness:
  "Solve_run exact_identity_solver unit_solver [1] [0] = (Convergence, unit_converged, [unit_converged]) \<and>
   length [unit_converged] < nat (max_num_iterations (L1_options unit_solver)) \<and>
   x_update_info exact_identity_solver unit_solver [1] (admm_init unit_solver [0]) = Success \<and>
   stopping_criterion unit_solver [1] unit_converged"
proof -
  note t = ADMM_loop_exits[OF unit_run]
  note c = t[THEN conjunct2, THEN conjunct2, THEN conjunct2, THEN conjunct1, THEN mp, OF refl]
  have s: "stopping_criterion unit_solver [1] unit_converged"
    by (rule c[THEN conjunct2, THEN conjunct2])
  have x: "x_update_info exact_identity_solver unit_solver [1] (admm_init unit_solver [0]) = Success"
    by (simp add: x_update_info_def exact_identity_solver_def)
  show ?thesis
    by (intro conjI unit_run s x) (simp add: unit_solver_cap)
qed

text \<open>
  Claim C5 as stated fails: with a linear solve that reports a numerical issue, the loop
  ends after one pass of the 1000 allowed although the primal residual is not below its
  tolerance.
\<close>

theorem ADMM_early_return_counterexample:
  "Solve_run failing_solver unit_solver [1] [0] = (SolverFailure, unit_failed, [unit_failed]) \<and>
   length [unit_failed] < nat (max_num_iterations (L1_options unit_solver)) \<and>
   \<not> stopping_criterion unit_solver [1] unit_failed"
proof -
  have "\<not> primal_residual unit_solver [1] unit_failed < eps_primal unit_solver [1] unit_failed"
    by (simp add: primal_residual_def eps_primal_def unit_solver_def unit_failed_def
          default_Options_def vsub_def vnorm_def squaredNorm_def)
  then show ?thesis
    by (simp add: unit_failed_run unit_solver_cap stopping_criterion_def)
qed

text \<open>
  Claim C7. For the identity matrix, an adapter that solves the identity system exactly,
  any right-hand side \<open>b\<close>, any initial \<open>x\<close> and any options that allow at least one
  iteration, \<open>Solve\<close> leaves \<open>x = b\<close> exactly. With a positive absolute tolerance and a
  non-negative relative tolerance (the defaults are \<open>1e-4\<close> and \<open>1e-2\<close>) and a system that
  is not empty, the loop stops after the first iteration.
\<close>

theorem identity_system_returns_rhs:
  assumes new: "L1Solver_new llt opts (Identity n) = Inr S"
    and exact: "\<forall>rhs. length rhs = n \<longrightarrow> llt_Solve llt (L1_linear_solver S) rhs = (Success, rhs)"
    and b: "length b = n"
    and iters: "0 < max_num_iterations opts"
  shows "Solve llt S b x0 = b \<and>
         (0 < absolute_tolerance opts \<and> 0 \<le> relative_tolerance opts \<and> 0 < n \<longrightarrow>
            (\<exists>fin. Solve_run llt S b x0 = (Convergence, fin, [fin]) \<and> admm_x fin = b))"
proof -
  from new have S: "L1_a S = Identity n" "L1_options S = opts"
    by (auto simp: L1Solver_new_def Let_def split: prod.splits if_splits)
  from iters obtain m where m: "nat (max_num_iterations opts) = Suc m"
    by (cases "nat (max_num_iterations opts)") auto
  have init: "admm_z (admm_init S x0) = setZero n" "admm_u (admm_init S x0) = setZero n"
    by (simp_all add: admm_init_def S Identity_def)
  have "Solve llt S b x0 = b"
    unfolding Solve_def Solve_run_def S m
    by (rule identity_loop[OF exact S(1) b init])
  moreover have "\<exists>fin. Solve_run llt S b x0 = (Convergence, fin, [fin]) \<and> admm_x fin = b"
    if tol: "0 < absolute_tolerance opts" "0 \<le> relative_tolerance opts" "0 < n"
  proof -
    from identity_first_iteration_converges[OF exact S(1) b init] tol S
    obtain st' where c: "admm_iteration llt S b (admm_init S x0) = Converged st'" by auto
    from identity_iteration[OF exact S(1) b init] c have "admm_x st' = b" by auto
    with c show ?thesis by (simp add: Solve_run_def S m)
  qed
  ultimately show ?thesis by blast
qed

theorem identity_system_returns_rhs_witness:
  "L1Solver_new exact_identity_solver default_Options (Identity 1) = Inr unit_solver \<and>
   0 < max_num_iterations default_Options \<and>
   Solve exact_identity_solver unit_solver [5] [7] = [5]"
proof -
  have c: "0 < max_num_iterations default_Options"
    by (simp add: default_Options_def)
  have l: "length [5::real] = 1"
    by simp
  from identity_system_returns_rhs[OF unit_solver_new exact_identity_solver_exact l c, of "[7]"]
    unit_solver_new c
  show ?thesis by blast
qed

section \<open>The IRLS refiner: proofs\<close>

subsection \<open>The weights\<close>

lemma irls_weights_Suc:
  "irls_weights sigma r (Suc n) = irls_weights sigma r n @ replicate 3 (edge_weight sigma r n)"
  by (simp add: irls_weights_def)

lemma length_irls_weights: "length (irls_weights sigma r n) = 3 * n"
  by (induction n) (simp_all add: irls_weights_Suc, simp add: irls_weights_def)

lemma nth_irls_weights:
  "k < n \<Longrightarrow> c < 3 \<Longrightarrow> irls_weights sigma r n ! (3 * k + c) = edge_weight sigma r k"
proof (induction n)
  case 0
  then show ?case by simp
next
  case (Suc n)
  show ?case
  proof (cases "k < n")
    case True
    then have "3 * k + c < length (irls_weights sigma r n)"
      using Suc.prems by (simp add: length_irls_weights)
    then show ?thesis
      using Suc.IH[OF True Suc.prems(2)] by (simp add: irls_weights_Suc nth_append)
  next
    case False
    with Suc.prems have "k = n" by simp
    then show ?thesis
      using Suc.prems by (simp add: irls_weights_Suc nth_append length_irls_weights)
  qed
qed

lemma edge_weight_formula:
  "edge_weight (irls_loss_parameter_sigma (irls_options R)) (tangent_space_residual R) k
     = soft_loss_weight R k"
  by (simp add: edge_weight_def soft_loss_weight_def edge_residual_def seg3_def Let_def
        power2_eq_square)

lemma asDiagonal_irls_weights:
  "asDiagonal (irls_weights (irls_loss_parameter_sigma (irls_options R))
                 (tangent_space_residual R) n) = row_weights R n"
proof -
  have "irls_weights (irls_loss_parameter_sigma (irls_options R)) (tangent_space_residual R) n ! i
          = soft_loss_weight R (i div 3)" if "i < 3 * n" for i
  proof -
    from that have "i div 3 < n" by simp
    moreover have "i mod 3 < 3" by simp
    ultimately have "irls_weights (irls_loss_parameter_sigma (irls_options R))
        (tangent_space_residual R) n ! (3 * (i div 3) + i mod 3) = soft_loss_weight R (i div 3)"
      by (simp only: nth_irls_weights edge_weight_formula)
    then show ?thesis by simp
  qed
  then show ?thesis
    by (auto simp: asDiagonal_def row_weights_def length_irls_weights intro!: ext)
qed

lemma row_weights_coeff:
  "k < num_edges \<Longrightarrow> c < 3 \<Longrightarrow>
   coeff (row_weights Q num_edges) (3 * k + c) (3 * k + c)
     = irls_loss_parameter_sigma (irls_options Q)
       / (squaredNorm3 (tangent_space_residual Q ! (3 * k), tangent_space_residual Q ! (3 * k + 1),
                        tangent_space_residual Q ! (3 * k + 2))
          + (irls_loss_parameter_sigma (irls_options Q))\<^sup>2)\<^sup>2"
  by (simp add: row_weights_def soft_loss_weight_def edge_residual_def)

subsection \<open>The view of index 0 and the loop\<close>

lemma UpdateGlobalRotations_gauge:
  "UpdateGlobalRotations env R gr = Inr gr' \<Longrightarrow>
   map_of (view_id_to_index R) v = Some 0 \<Longrightarrow> map_of gr' v = map_of gr v"
proof (induction gr arbitrary: gr')
  case Nil
  then show ?case by simp
next
  case (Cons a gr)
  obtain k r where a: "a = (k, r)" by (cases a)
  show ?case
    using Cons.prems Cons.IH unfolding a
    by (auto simp: FindOrDie_def kConstantRotationIndex_def Let_def
          split: sum.splits option.splits if_splits)
qed

lemma UpdateGlobalRotations_keys:
  "UpdateGlobalRotations env R gr = Inr gr' \<Longrightarrow> map fst gr' = map fst gr"
proof (induction gr arbitrary: gr')
  case Nil
  then show ?case by simp
next
  case (Cons a gr)
  obtain k r where a: "a = (k, r)" by (cases a)
  show ?case
    using Cons.prems Cons.IH unfolding a
    by (auto simp: Let_def split: sum.splits if_splits)
qed

lemma ComputeResiduals_fields:
  "ComputeResiduals env R rel gr = Inr R' \<Longrightarrow>
   view_id_to_index R' = view_id_to_index R \<and> irls_options R' = irls_options R \<and>
   sparse_matrix R' = sparse_matrix R \<and> tangent_space_step R' = tangent_space_step R"
  by (auto simp: ComputeResiduals_def split: sum.splits)

lemma irls_iteration_invariant:
  assumes "irls_iteration env rel (R, gr, f) = Inr (s, R', gr', f')"
  shows "view_id_to_index R' = view_id_to_index R \<and> irls_options R' = irls_options R \<and>
         sparse_matrix R' = sparse_matrix R \<and> map fst gr' = map fst gr \<and>
         (map_of (view_id_to_index R) v = Some 0 \<longrightarrow> map_of gr' v = map_of gr v)"
proof -
  let ?w = "irls_weights (irls_loss_parameter_sigma (irls_options R)) (tangent_space_residual R) (length rel)"
  let ?atw = "mat_mul (transpose_m (sparse_matrix R)) (asDiagonal ?w)"
  obtain i1 f1 where fz: "llt_Factorize (linear_solver env) f (mat_mul ?atw (sparse_matrix R)) = (i1, f1)"
    by (cases "llt_Factorize (linear_solver env) f (mat_mul ?atw (sparse_matrix R))")
  obtain i2 step where sv: "llt_Solve (linear_solver env) f1 (mat_vec ?atw (tangent_space_residual R)) = (i2, step)"
    by (cases "llt_Solve (linear_solver env) f1 (mat_vec ?atw (tangent_space_residual R))")
  let ?R1 = "R\<lparr>tangent_space_step := step\<rparr>"
  show ?thesis
  proof (cases "i1 = Success \<and> i2 = Success")
    case False
    with assms fz sv show ?thesis
      by (auto simp: irls_iteration_def Let_def split: if_splits)
  next
    case True
    with assms fz sv obtain R2 where
      u: "UpdateGlobalRotations env ?R1 gr = Inr gr'" and
      c: "ComputeResiduals env ?R1 rel gr' = Inr R2" and r: "R' = R2"
      by (auto simp: irls_iteration_def Let_def split: if_splits sum.splits)
    from UpdateGlobalRotations_gauge[OF u, of v] UpdateGlobalRotations_keys[OF u]
      ComputeResiduals_fields[OF c] r
    show ?thesis by simp
  qed
qed

lemma irls_iteration_step_size:
  "irls_iteration env rel st = Inr (StepTaken a, R', gr', f') \<Longrightarrow> a = ComputeAverageStepSize R'"
  by (cases st) (auto simp: irls_iteration_def Let_def split: prod.splits if_splits sum.splits)

lemma irls_loop_invariant:
  "irls_loop env rel n (R, gr, f) = Inr (ok, (R', gr', f'), tr) \<Longrightarrow>
     view_id_to_index R' = view_id_to_index R \<and> irls_options R' = irls_options R \<and>
     sparse_matrix R' = sparse_matrix R \<and> map fst gr' = map fst gr \<and>
     (map_of (view_id_to_index R) v = Some 0 \<longrightarrow> map_of gr' v = map_of gr v)"
proof (induction n arbitrary: R gr f ok R' gr' f' tr)
  case 0
  then show ?case by simp
next
  case (Suc n)
  from Suc.prems obtain s R1 gr1 f1 where
    it: "irls_iteration env rel (R, gr, f) = Inr (s, R1, gr1, f1)"
    by (auto split: sum.splits)
  note inv = irls_iteration_invariant[OF it, of v]
  show ?case
  proof (cases "irls_loop env rel n (R1, gr1, f1) = Inr (ok, (R', gr', f'), tl tr)
                \<and> (\<exists>a. s = StepTaken a)")
    case True
    from Suc.IH[OF True[THEN conjunct1]] inv show ?thesis by simp
  next
    case False
    with Suc.prems it have "R' = R1 \<and> gr' = gr1"
      by (cases s) (auto split: if_splits sum.splits)
    with inv show ?thesis by simp
  qed
qed

lemma irls_loop_trace:
  "irls_loop env rel n (R, gr, f) = Inr (ok, (R', gr', f'), tr) \<Longrightarrow>
     length tr \<le> n \<and>
     (\<forall>s \<in> set (butlast tr). \<exists>a. s = StepTaken a \<and>
         \<not> less_double a (irls_step_convergence_threshold (irls_options R))) \<and>
     (ok \<longleftrightarrow> (\<forall>s \<in> set tr. s \<noteq> FactorizeFailed \<and> s \<noteq> LinearSolveFailed)) \<and>
     (\<not> ok \<longrightarrow> tr \<noteq> [] \<and> (last tr = FactorizeFailed \<or> last tr = LinearSolveFailed)) \<and>
     (ok \<and> length tr < n \<longrightarrow>
        tr \<noteq> [] \<and> (\<exists>a. last tr = StepTaken a \<and>
           less_double a (irls_step_convergence_threshold (irls_options R)))) \<and>
     (\<forall>a. tr \<noteq> [] \<and> last tr = StepTaken a \<longrightarrow> a = ComputeAverageStepSize R')"
proof (induction n arbitrary: R gr f ok R' gr' f' tr)
  case 0
  then show ?case by simp
next
  case (Suc n)
  from Suc.prems obtain s R1 gr1 f1 where
    it: "irls_iteration env rel (R, gr, f) = Inr (s, R1, gr1, f1)"
    by (auto split: sum.splits)
  note inv = irls_iteration_invariant[OF it, of v]
  then have opts: "irls_options R1 = irls_options R" by simp
  show ?case
  proof (cases s)
    case FactorizeFailed
    with Suc.prems it show ?thesis by auto
  next
    case LinearSolveFailed
    with Suc.prems it show ?thesis by auto
  next
    case (StepTaken a)
    note sz = irls_iteration_step_size[OF it[unfolded StepTaken]]
    show ?thesis
    proof (cases "less_double a (irls_step_convergence_threshold (irls_options R))")
      case True
      with Suc.prems it StepTaken opts sz show ?thesis by auto
    next
      case False
      with Suc.prems it StepTaken opts obtain tr' where
        rec: "irls_loop env rel n (R1, gr1, f1) = Inr (ok, (R', gr', f'), tr')"
        and tr: "tr = StepTaken a # tr'"
        by (auto split: sum.splits)
      note IH = Suc.IH[OF rec]
      have last: "tr' = [] \<Longrightarrow> R' = R1"
        using rec IH by (cases n) auto
      from IH False sz last show ?thesis
        unfolding tr opts by (auto split: if_splits)
    qed
  qed
qed

lemma irls_iteration_pass:
  assumes "irls_iteration env rel st = Inr (s, st')"
  shows "snd (snd st') = snd (pass_factorize env rel st) \<and>
         (s = FactorizeFailed \<longleftrightarrow> fst (pass_factorize env rel st) \<noteq> Success) \<and>
         (s = LinearSolveFailed \<longleftrightarrow>
            fst (pass_factorize env rel st) = Success \<and> fst (pass_solve env rel st) \<noteq> Success) \<and>
         (s = FactorizeFailed \<longrightarrow> fst st' = fst st \<and> fst (snd st') = fst (snd st)) \<and>
         (s = LinearSolveFailed \<longrightarrow> fst (snd st') = fst (snd st)) \<and>
         (s \<noteq> FactorizeFailed \<longrightarrow> tangent_space_step (fst st') = snd (pass_solve env rel st))"
proof -
  obtain R gr f where st: "st = (R, gr, f)" by (cases st)
  let ?atw = "mat_mul (transpose_m (sparse_matrix R)) (row_weights R (length rel))"
  obtain i1 f1 where fz: "llt_Factorize (linear_solver env) f (mat_mul ?atw (sparse_matrix R)) = (i1, f1)"
    by (cases "llt_Factorize (linear_solver env) f (mat_mul ?atw (sparse_matrix R))")
  obtain i2 step where sv: "llt_Solve (linear_solver env) f1 (mat_vec ?atw (tangent_space_residual R)) = (i2, step)"
    by (cases "llt_Solve (linear_solver env) f1 (mat_vec ?atw (tangent_space_residual R))")
  have pf: "pass_factorize env rel (R, gr, f) = (i1, f1)"
    by (simp add: pass_factorize_def fz)
  have ps: "pass_solve env rel (R, gr, f) = (i2, step)"
    by (simp add: pass_solve_def pf sv)
  let ?R1 = "R\<lparr>tangent_space_step := step\<rparr>"
  show ?thesis
  proof (cases "i1 = Success \<and> i2 = Success")
    case False
    with assms fz sv show ?thesis
      unfolding st pf ps
      by (auto simp: irls_iteration_def Let_def asDiagonal_irls_weights split: if_splits)
  next
    case True
    with assms fz sv obtain gr' R2 where
      u: "UpdateGlobalRotations env ?R1 gr = Inr gr'" and
      c: "ComputeResiduals env ?R1 rel gr' = Inr R2" and
      r: "st' = (R2, gr', f1)" "s = StepTaken (ComputeAverageStepSize R2)"
      unfolding st
      by (auto simp: irls_iteration_def Let_def asDiagonal_irls_weights split: if_splits sum.splits)
    from ComputeResiduals_fields[OF c] r True show ?thesis
      unfolding st pf ps by simp
  qed
qed

lemma irls_loop_chain:
  "irls_loop env rel n st = Inr (ok, fin, tr) \<Longrightarrow>
     \<exists>sts. length sts = Suc (length tr) \<and> sts ! 0 = st \<and> last sts = fin \<and>
           (\<forall>i<length tr. irls_iteration env rel (sts ! i) = Inr (tr ! i, sts ! Suc i)) \<and>
           (0 < n \<longrightarrow> tr \<noteq> [])"
proof (induction n arbitrary: st ok fin tr)
  case 0
  then show ?case by (auto intro!: exI[of _ "[st]"])
next
  case (Suc n)
  from Suc.prems obtain s st' where
    it: "irls_iteration env rel st = Inr (s, st')"
    by (auto split: sum.splits)
  show ?case
  proof (cases "\<exists>tr'. tr = s # tr' \<and> irls_loop env rel n st' = Inr (ok, fin, tr')")
    case True
    then obtain tr' where tr: "tr = s # tr'" and rec: "irls_loop env rel n st' = Inr (ok, fin, tr')"
      by blast
    from Suc.IH[OF rec] obtain sts where
      l: "length sts = Suc (length tr')" and h: "sts ! 0 = st'" and la: "last sts = fin" and
      ch: "\<forall>i<length tr'. irls_iteration env rel (sts ! i) = Inr (tr' ! i, sts ! Suc i)"
      by blast
    have "\<forall>i<length tr. irls_iteration env rel ((st # sts) ! i) = Inr (tr ! i, (st # sts) ! Suc i)"
    proof (intro allI impI)
      fix i assume "i < length tr"
      then show "irls_iteration env rel ((st # sts) ! i) = Inr (tr ! i, (st # sts) ! Suc i)"
        using it h ch unfolding tr by (cases i) auto
    qed
    moreover from l have "sts \<noteq> []" by auto
    ultimately show ?thesis
      using l la tr by (intro exI[of _ "st # sts"]) simp
  next
    case False
    with Suc.prems it have "tr = [s]" "fin = st'"
      by (cases s; auto split: if_splits sum.splits)+
    with it show ?thesis
      by (intro exI[of _ "[st, st']"]) simp
  qed
qed

lemma passes_statuses:
  assumes ch: "\<forall>i<length tr. irls_iteration env rel (sts ! i) = Inr (tr ! i, sts ! Suc i)"
    and i: "i < length tr"
  shows "snd (snd (sts ! Suc i)) = snd (pass_factorize env rel (sts ! i)) \<and>
         (tr ! i = FactorizeFailed \<longleftrightarrow> fst (pass_factorize env rel (sts ! i)) \<noteq> Success) \<and>
         (tr ! i = LinearSolveFailed \<longleftrightarrow>
            fst (pass_factorize env rel (sts ! i)) = Success \<and>
            fst (pass_solve env rel (sts ! i)) \<noteq> Success) \<and>
         (tr ! i \<noteq> FactorizeFailed \<longrightarrow>
            tangent_space_step (fst (sts ! Suc i)) = snd (pass_solve env rel (sts ! i))) \<and>
         (tr ! i = FactorizeFailed \<or> tr ! i = LinearSolveFailed \<longrightarrow>
            fst (snd (sts ! Suc i)) = fst (snd (sts ! i)))"
  using irls_iteration_pass[OF ch[rule_format, OF i]] by blast

subsection \<open>The run on two views\<close>

lemma upt3: "[0..<3] = [0, 1, 2]"
  by (simp add: upt_rec numeral_3_eq_3)

lemma pair_weights: "irls_weights 1 [a, b, c] (Suc 0) = [1 / ((a * a + b * b + c * c + 1) * (a * a + b * b + c * c + 1)),
   1 / ((a * a + b * b + c * c + 1) * (a * a + b * b + c * c + 1)), 1 / ((a * a + b * b + c * c + 1) * (a * a + b * b + c * c + 1))]"
  by (simp add: irls_weights_def edge_weight_def seg3_def squaredNorm3_def numeral_3_eq_3 Let_def)

lemma pair_rhs:
  "mat_vec (mat_mul (transpose_m (Identity 3)) (asDiagonal [w, w, w])) [a, b, c] = [w * a, w * b, w * c]"
  by (simp add: mat_vec_def mat_mul_def transpose_m_def asDiagonal_def Identity_def upt3)

lemma pair_diagonal:
  "coeff (pair_weighted w) 0 0 = w" "coeff (pair_weighted w) (Suc 0) (Suc 0) = w"
  "coeff (pair_weighted w) (Suc (Suc 0)) (Suc (Suc 0)) = w"
  by (simp_all add: pair_weighted_def mat_mul_def transpose_m_def asDiagonal_def Identity_def upt3)

lemma pair_solve:
  "w \<noteq> 0 \<Longrightarrow> llt_Solve diagonal_solver (pair_weighted w) [w * a, w * b, w * c] = (Success, [a, b, c])"
  by (simp add: diagonal_solver_def upt3 pair_diagonal)

lemma pair_first_step:
  "irls_iteration (pair_env diagonal_solver) pair_measurement (pair_start, pair_rotations, f)
     = Inr (StepTaken (Some 1),
            pair_start\<lparr>tangent_space_step := [1, 0, 0], tangent_space_residual := [0, 0, 0]\<rparr>,
            pair_refined, pair_weighted (1 / 4))"
proof -
  have f: "llt_Factorize diagonal_solver f M = (Success, M)" for M
    by (simp add: diagonal_solver_def)
  have s: "llt_Solve diagonal_solver (pair_weighted (1 / 4)) [1 / 4, 0, 0] = (Success, [1, 0, 0])"
    using pair_solve[of "1 / 4" 1 0 0] by simp
  show ?thesis
    by (simp add: irls_iteration_def Let_def pair_start_def pair_env_def pair_measurement_def
          pair_options_def pair_weights pair_rhs f s pair_weighted_def[symmetric]
          pair_rotations_def pair_refined_def FindOrDie_def kConstantRotationIndex_def
          segment3_def seg3_def ComputeResiduals_def set_segment3_def neg3_def
          ComputeAverageStepSize_def norm3_def squaredNorm3_def)
qed

lemma pair_second_step:
  "irls_iteration (pair_env diagonal_solver) pair_measurement
     (pair_start\<lparr>tangent_space_step := [1, 0, 0], tangent_space_residual := [0, 0, 0]\<rparr>,
      pair_refined, f)
     = Inr (StepTaken (Some 0),
            pair_final,
            pair_refined, pair_weighted 1)"
proof -
  have f: "llt_Factorize diagonal_solver f M = (Success, M)" for M
    by (simp add: diagonal_solver_def)
  have s: "llt_Solve diagonal_solver (pair_weighted 1) [0, 0, 0] = (Success, [0, 0, 0])"
    using pair_solve[of 1 0 0 0] by simp
  show ?thesis
    by (simp add: irls_iteration_def Let_def pair_start_def pair_env_def pair_measurement_def
          pair_options_def pair_weights pair_rhs f s pair_weighted_def[symmetric]
          pair_refined_def pair_final_def FindOrDie_def kConstantRotationIndex_def
          segment3_def seg3_def ComputeResiduals_def set_segment3_def neg3_def
          ComputeAverageStepSize_def norm3_def squaredNorm3_def)
qed

lemma pair_loop:
  "2 \<le> n \<Longrightarrow>
   irls_loop (pair_env diagonal_solver) pair_measurement n (pair_start, pair_rotations, f)
     = Inr (True,
            (pair_final, pair_refined, pair_weighted 1),
            [StepTaken (Some 1), StepTaken (Some 0)])"
proof -
  have thr: "irls_step_convergence_threshold (irls_options pair_start) = 1 / 1000"
    "irls_step_convergence_threshold (irls_options pair_final) = 1 / 1000"
    by (simp_all add: pair_start_def pair_final_def pair_options_def)
  assume "2 \<le> n"
  then obtain m where n: "n = Suc (Suc m)"
    by (metis add_2_eq_Suc le_Suc_ex)
  show ?thesis
    unfolding n by (simp add: pair_first_step pair_second_step thr less_double_def)
qed

lemma pair_prepare:
  "SolveIRLS_prepare (pair_env llt) pair_refiner pair_measurement pair_rotations = pair_final"
  by (simp add: SolveIRLS_prepare_def pair_env_def pair_refiner_def pair_rotations_def
        IRLSRotationLocalRefiner_new_def pair_final_def pair_start_def setZero_def
        numeral_3_eq_3 upt_rec Identity_def)

lemma pair_residuals:
  "ComputeResiduals (pair_env llt) pair_final pair_measurement pair_rotations = Inr pair_start"
  by (simp add: ComputeResiduals_def pair_measurement_def pair_rotations_def FindOrDie_def
        pair_env_def neg3_def set_segment3_def pair_final_def pair_start_def)

lemma pair_run:
  "SolveIRLS (pair_env diagonal_solver) pair_refiner pair_measurement pair_rotations
     = Inr (True, pair_final, pair_refined, [StepTaken (Some 1), StepTaken (Some 0)])"
proof -
  have a: "llt_AnalyzePattern (linear_solver (pair_env diagonal_solver)) M = (Success, M)" for M
    by (simp add: diagonal_solver_def pair_env_def)
  have m: "nat (max_num_irls_iterations (irls_options pair_start)) = 100"
    by (simp add: pair_start_def pair_options_def)
  have l: "length pair_rotations = 2" "length pair_measurement = 1"
    by (simp_all add: pair_rotations_def pair_measurement_def)
  show ?thesis
    unfolding SolveIRLS_def
    by (simp add: l Let_def pair_prepare a pair_residuals m pair_loop del: irls_loop.simps)
qed

lemma pair_failing_step:
  "irls_iteration (pair_env factorize_failing_solver) pair_measurement (pair_start, pair_rotations, f)
     = Inr (FactorizeFailed, pair_start, pair_rotations, pair_weighted (1 / 4))"
  by (simp add: irls_iteration_def Let_def pair_start_def pair_env_def pair_measurement_def
        pair_options_def pair_weights factorize_failing_solver_def diagonal_solver_def
        pair_weighted_def)

lemma pair_failing_loop:
  "0 < n \<Longrightarrow>
   irls_loop (pair_env factorize_failing_solver) pair_measurement n (pair_start, pair_rotations, f)
     = Inr (False, (pair_start, pair_rotations, pair_weighted (1 / 4)), [FactorizeFailed])"
  by (cases n) (simp_all add: pair_failing_step)

lemma pair_failing_run:
  "SolveIRLS (pair_env factorize_failing_solver) pair_refiner pair_measurement pair_rotations
     = Inr (False, pair_start, pair_rotations, [FactorizeFailed])"
proof -
  have a: "llt_AnalyzePattern (linear_solver (pair_env factorize_failing_solver)) M = (Success, M)" for M
    by (simp add: factorize_failing_solver_def diagonal_solver_def pair_env_def)
  have m: "nat (max_num_irls_iterations (irls_options pair_start)) = 100"
    by (simp add: pair_start_def pair_options_def)
  have l: "length pair_rotations = 2" "length pair_measurement = 1"
    by (simp_all add: pair_rotations_def pair_measurement_def)
  show ?thesis
    unfolding SolveIRLS_def
    by (simp add: l Let_def pair_prepare a pair_residuals m pair_failing_loop del: irls_loop.simps)
qed

lemma pair_pattern: "pattern_info (pair_env diagonal_solver) pair_final = Success"
  by (simp add: pattern_info_def pair_env_def diagonal_solver_def)

lemma pair_soft_loss_weight: "soft_loss_weight pair_start 0 = 1 / 4"
  by (simp add: soft_loss_weight_def edge_residual_def pair_start_def pair_options_def
        squaredNorm3_def power2_eq_square)

lemma pair_first_factor:
  "coeff (snd (pass_factorize (pair_env diagonal_solver) pair_measurement (pair_start, g, f))) 0 0 = 1 / 4"
proof -
  have s: "sparse_matrix pair_start = Identity 3" by (simp add: pair_start_def)
  have l: "length pair_measurement = 1" by (simp add: pair_measurement_def)
  show ?thesis
    by (simp add: pass_factorize_def pair_env_def diagonal_solver_def s l mat_mul_def
          transpose_m_def Identity_def upt3 row_weights_def pair_soft_loss_weight)
qed

lemma pair_failing_factorize:
  "fst (pass_factorize (pair_env factorize_failing_solver) pair_measurement (Q, g, f)) = NumericalIssue"
  by (simp add: pass_factorize_def pair_env_def factorize_failing_solver_def diagonal_solver_def)

subsection \<open>What a call of SolveIRLS guarantees\<close>

lemma SolveIRLS_facts:
  assumes "SolveIRLS env R rel gr = Inr (ok, R', gr', tr)"
  shows "(pattern_info env R' \<noteq> Success \<longrightarrow> \<not> ok \<and> tr = [] \<and> gr' = gr) \<and>
         (ok \<longleftrightarrow> pattern_info env R' = Success
               \<and> (\<forall>s \<in> set tr. s \<noteq> FactorizeFailed \<and> s \<noteq> LinearSolveFailed)) \<and>
         (\<not> ok \<and> pattern_info env R' = Success \<longrightarrow>
            tr \<noteq> [] \<and> (last tr = FactorizeFailed \<or> last tr = LinearSolveFailed)) \<and>
         length tr \<le> nat (max_num_irls_iterations (irls_options R)) \<and>
         (\<forall>s \<in> set (butlast tr). \<exists>a. s = StepTaken a \<and>
             \<not> less_double a (irls_step_convergence_threshold (irls_options R))) \<and>
         (ok \<and> length tr < nat (max_num_irls_iterations (irls_options R)) \<longrightarrow>
            tr \<noteq> [] \<and> (\<exists>a. last tr = StepTaken a \<and>
               less_double a (irls_step_convergence_threshold (irls_options R)))) \<and>
         (\<forall>a. tr \<noteq> [] \<and> last tr = StepTaken a \<longrightarrow> a = ComputeAverageStepSize R') \<and>
         irls_options R' = irls_options R \<and> map fst gr' = map fst gr \<and>
         (map_of (view_id_to_index R') v = Some 0 \<longrightarrow> map_of gr' v = map_of gr v)"
proof -
  let ?R2 = "SolveIRLS_prepare env R rel gr"
  have o2: "irls_options ?R2 = irls_options R"
    by (simp add: SolveIRLS_prepare_def Let_def)
  obtain info factor where an:
    "llt_AnalyzePattern (linear_solver env)
       (mat_mul (transpose_m (sparse_matrix ?R2)) (sparse_matrix ?R2)) = (info, factor)"
    by (cases "llt_AnalyzePattern (linear_solver env)
                 (mat_mul (transpose_m (sparse_matrix ?R2)) (sparse_matrix ?R2))")
  then have pi: "pattern_info env ?R2 = info"
    by (simp add: pattern_info_def)
  show ?thesis
  proof (cases "info = Success")
    case False
    with assms an have "ok = False" "R' = ?R2" "gr' = gr" "tr = []"
      by (auto simp: SolveIRLS_def Let_def split: if_splits)
    with pi False o2 show ?thesis by simp
  next
    case True
    with assms an obtain R3 f' where
      c: "ComputeResiduals env ?R2 rel gr = Inr R3" and
      l: "irls_loop env rel (nat (max_num_irls_iterations (irls_options R3))) (R3, gr, factor)
            = Inr (ok, (R', gr', f'), tr)"
      by (auto simp: SolveIRLS_def Let_def split: if_splits sum.splits)
    note cf = ComputeResiduals_fields[OF c]
    note inv = irls_loop_invariant[OF l, of v]
    note trc = irls_loop_trace[OF l]
    have pi': "pattern_info env R' = Success"
      using pi True inv cf by (simp add: pattern_info_def)
    have o3: "irls_options R3 = irls_options R" using cf o2 by simp
    have vi: "view_id_to_index R' = view_id_to_index R3" using inv by simp
    from inv trc pi' show ?thesis
      unfolding o3 vi by auto
  qed
qed

lemma SolveIRLS_passes:
  assumes run: "SolveIRLS env R rel gr = Inr (ok, R', gr', tr)"
    and pat: "pattern_info env R' = Success"
  shows "\<exists>sts. passes_of_run env R rel gr sts tr \<and> fst (last sts) = R' \<and> fst (snd (last sts)) = gr' \<and>
           (tr = [] \<longleftrightarrow> nat (max_num_irls_iterations (irls_options R)) = 0)"
proof -
  let ?R2 = "SolveIRLS_prepare env R rel gr"
  have o2: "irls_options ?R2 = irls_options R"
    by (simp add: SolveIRLS_prepare_def Let_def)
  obtain info factor where an:
    "llt_AnalyzePattern (linear_solver env)
       (mat_mul (transpose_m (sparse_matrix ?R2)) (sparse_matrix ?R2)) = (info, factor)"
    by (cases "llt_AnalyzePattern (linear_solver env)
                 (mat_mul (transpose_m (sparse_matrix ?R2)) (sparse_matrix ?R2))")
  then have pi: "pattern_info env ?R2 = info"
    by (simp add: pattern_info_def)
  have ok_info: "info = Success"
  proof (rule ccontr)
    assume f: "info \<noteq> Success"
    with run an have "R' = ?R2"
      by (auto simp: SolveIRLS_def Let_def split: if_splits)
    with pi pat f show False by simp
  qed
  with run an obtain R3 f' where
    c: "ComputeResiduals env ?R2 rel gr = Inr R3" and
    l: "irls_loop env rel (nat (max_num_irls_iterations (irls_options R3))) (R3, gr, factor)
          = Inr (ok, (R', gr', f'), tr)"
    by (auto simp: SolveIRLS_def Let_def split: if_splits sum.splits)
  have o3: "irls_options R3 = irls_options R"
    using ComputeResiduals_fields[OF c] o2 by simp
  from irls_loop_chain[OF l] obtain sts where
    all: "length sts = Suc (length tr) \<and> sts ! 0 = (R3, gr, factor) \<and>
          last sts = (R', gr', f') \<and>
          (\<forall>i<length tr. irls_iteration env rel (sts ! i) = Inr (tr ! i, sts ! Suc i)) \<and>
          (0 < nat (max_num_irls_iterations (irls_options R3)) \<longrightarrow> tr \<noteq> [])" ..
  from all have len: "length sts = Suc (length tr)" by (rule conjunct1)
  from all have h: "sts ! 0 = (R3, gr, factor)" by (elim conjE)
  from all have la: "last sts = (R', gr', f')" by (elim conjE)
  from all have ch: "\<forall>i<length tr. irls_iteration env rel (sts ! i) = Inr (tr ! i, sts ! Suc i)"
    by (elim conjE)
  from all have ne: "0 < nat (max_num_irls_iterations (irls_options R3)) \<longrightarrow> tr \<noteq> []"
    by (elim conjE)
  have "length tr \<le> nat (max_num_irls_iterations (irls_options R3))"
    using irls_loop_trace[OF l] by simp
  with ne have z: "tr = [] \<longleftrightarrow> nat (max_num_irls_iterations (irls_options R)) = 0"
    unfolding o3 by auto
  have p: "passes_of_run env R rel gr sts tr"
    unfolding passes_of_run_def
  proof (intro conjI)
    show "length sts = Suc (length tr)" by (rule len)
    show "ComputeResiduals env ?R2 rel gr = Inr (fst (sts ! 0))" by (simp add: c h)
    show "fst (snd (sts ! 0)) = gr" by (simp add: h)
    show "snd (snd (sts ! 0)) = snd (llt_AnalyzePattern (linear_solver env)
       (mat_mul (transpose_m (sparse_matrix ?R2)) (sparse_matrix ?R2)))" by (simp add: h an)
    show "\<forall>i<length tr. irls_iteration env rel (sts ! i) = Inr (tr ! i, sts ! Suc i)" by (rule ch)
  qed
  have e: "fst (last sts) = R'" "fst (snd (last sts)) = gr'"
    by (simp_all add: la)
  show ?thesis
    by (rule exI[of _ sts]) (intro conjI p e z)
qed

lemma passes_options:
  assumes p: "passes_of_run env R rel gr sts tr"
  shows "i \<le> length tr \<Longrightarrow> irls_options (fst (sts ! i)) = irls_options R"
proof (induction i)
  case 0
  from p have "ComputeResiduals env (SolveIRLS_prepare env R rel gr) rel gr = Inr (fst (sts ! 0))"
    by (simp add: passes_of_run_def)
  from ComputeResiduals_fields[OF this] show ?case
    by (simp add: SolveIRLS_prepare_def Let_def)
next
  case (Suc i)
  then have i: "i < length tr" by simp
  with p have it: "irls_iteration env rel (sts ! i) = Inr (tr ! i, sts ! Suc i)"
    by (simp add: passes_of_run_def)
  obtain R1 g1 f1 where s1: "sts ! i = (R1, g1, f1)" by (cases "sts ! i")
  obtain R2 g2 f2 where s2: "sts ! Suc i = (R2, g2, f2)" by (cases "sts ! Suc i")
  from irls_iteration_invariant[OF it[unfolded s1 s2], of v] Suc.IH i show ?case
    by (simp add: s1 s2)
qed

lemma SolveIRLS_failures:
  assumes run: "SolveIRLS env R rel gr = Inr (ok, R', gr', tr)"
    and pat: "pattern_info env R' = Success"
  shows "\<exists>sts. passes_of_run env R rel gr sts tr \<and> fst (last sts) = R' \<and> fst (snd (last sts)) = gr' \<and>
           (tr = [] \<longleftrightarrow> nat (max_num_irls_iterations (irls_options R)) = 0) \<and>
           (ok \<longleftrightarrow> (\<forall>i<length tr. fst (pass_factorize env rel (sts ! i)) = Success \<and>
                                  fst (pass_solve env rel (sts ! i)) = Success)) \<and>
           (\<forall>i<length tr. fst (pass_factorize env rel (sts ! i)) \<noteq> Success \<or>
                          fst (pass_solve env rel (sts ! i)) \<noteq> Success \<longrightarrow>
                Suc i = length tr \<and> gr' = fst (snd (sts ! i)))"
proof -
  from SolveIRLS_passes[OF run pat] obtain sts where
    all: "passes_of_run env R rel gr sts tr \<and> fst (last sts) = R' \<and> fst (snd (last sts)) = gr' \<and>
           (tr = [] \<longleftrightarrow> nat (max_num_irls_iterations (irls_options R)) = 0)" ..
  from all have p: "passes_of_run env R rel gr sts tr" by (rule conjunct1)
  from all have la: "fst (last sts) = R'" "fst (snd (last sts)) = gr'" by simp_all
  from all have z: "tr = [] \<longleftrightarrow> nat (max_num_irls_iterations (irls_options R)) = 0"
    by (elim conjE)
  from p have len: "length sts = Suc (length tr)" and
    ch: "\<forall>i<length tr. irls_iteration env rel (sts ! i) = Inr (tr ! i, sts ! Suc i)"
    by (simp_all add: passes_of_run_def)
  note st = passes_statuses[OF ch]
  note facts = SolveIRLS_facts[OF run, of v]
  from facts pat have okc: "ok \<longleftrightarrow> (\<forall>s \<in> set tr. s \<noteq> FactorizeFailed \<and> s \<noteq> LinearSolveFailed)"
    by blast
  from facts have bl: "\<forall>s \<in> set (butlast tr). s \<noteq> FactorizeFailed \<and> s \<noteq> LinearSolveFailed"
    by blast
  have good: "tr ! i \<noteq> FactorizeFailed \<and> tr ! i \<noteq> LinearSolveFailed \<longleftrightarrow>
                fst (pass_factorize env rel (sts ! i)) = Success \<and>
                fst (pass_solve env rel (sts ! i)) = Success" if "i < length tr" for i
    using st[OF that] by blast
  have a: "ok \<longleftrightarrow> (\<forall>i<length tr. fst (pass_factorize env rel (sts ! i)) = Success \<and>
                                  fst (pass_solve env rel (sts ! i)) = Success)"
    unfolding okc all_set_conv_all_nth using good by blast
  have b: "Suc i = length tr \<and> gr' = fst (snd (sts ! i))"
    if i: "i < length tr" and f: "fst (pass_factorize env rel (sts ! i)) \<noteq> Success \<or>
                          fst (pass_solve env rel (sts ! i)) \<noteq> Success" for i
  proof -
    from good[OF i] f have bad: "tr ! i = FactorizeFailed \<or> tr ! i = LinearSolveFailed" by blast
    have "\<not> Suc i < length tr"
    proof
      assume "Suc i < length tr"
      then have "i < length (butlast tr)" by simp
      then have "butlast tr ! i \<in> set (butlast tr)" by (rule nth_mem)
      moreover have "butlast tr ! i = tr ! i"
        using \<open>i < length (butlast tr)\<close> by (rule nth_butlast)
      ultimately show False using bl bad by auto
    qed
    with i have e: "Suc i = length tr" by simp
    from len have "last sts = sts ! length tr"
      by (cases sts rule: rev_cases) (simp_all add: nth_append)
    with la e st[OF i] bad show ?thesis by simp
  qed
  from b have b': "\<forall>i<length tr. fst (pass_factorize env rel (sts ! i)) \<noteq> Success \<or>
                          fst (pass_solve env rel (sts ! i)) \<noteq> Success \<longrightarrow>
                Suc i = length tr \<and> gr' = fst (snd (sts ! i))"
    by (intro allI impI)
  show ?thesis
    by (rule exI[of _ sts]) (intro conjI p la z a b')
qed

lemma ComputeAverageStepSize_mean:
  "ComputeAverageStepSize Q =
     (if length (tangent_space_step Q) div 3 = 0 then None
      else Some (mean_increment_norm (length (tangent_space_step Q) div 3) (tangent_space_step Q)))"
  by (simp add: ComputeAverageStepSize_def mean_increment_norm_def Let_def
        interv_sum_list_conv_sum_set_nat atLeast0LessThan)

text \<open>
  Claim C4, as amended. \<open>ComputeAverageStepSize\<close> divides the sum of the norms of the
  three-coefficient increments of the step by their number \<open>n\<close>, the length of the step
  divided by three (with no increment the quotient is NaN). The constructor gives the
  step three coefficients for every view but one, so \<open>n\<close> is the number of views less one. The loop of \<open>SolveIRLS\<close> goes on after a
  pass only if that average is not below \<open>irls_step_convergence_threshold\<close>, and a call
  that returns true before the iteration cap ended on a pass whose average is below it.
\<close>

theorem average_step_size_and_stop:
  assumes "SolveIRLS env R rel gr = Inr (ok, R', gr', tr)"
  shows "ComputeAverageStepSize Q =
           (if length (tangent_space_step Q) div 3 = 0 then None
            else Some (mean_increment_norm (length (tangent_space_step Q) div 3)
                         (tangent_space_step Q))) \<and>
         length (tangent_space_step (IRLSRotationLocalRefiner_new V E opts)) div 3 = nat (V - 1) \<and>
         length tr \<le> nat (max_num_irls_iterations (irls_options R)) \<and>
         (\<forall>s \<in> set (butlast tr). \<exists>a. s = StepTaken a \<and>
             \<not> less_double a (irls_step_convergence_threshold (irls_options R))) \<and>
         (ok \<and> length tr < nat (max_num_irls_iterations (irls_options R)) \<longrightarrow>
            tr \<noteq> [] \<and> (\<exists>a. last tr = StepTaken a \<and>
               less_double a (irls_step_convergence_threshold (irls_options R)))) \<and>
         (\<forall>a. tr \<noteq> [] \<and> last tr = StepTaken a \<longrightarrow> a = ComputeAverageStepSize R')"
proof -
  have "length (tangent_space_step (IRLSRotationLocalRefiner_new V E opts)) div 3 = nat (V - 1)"
    by (cases "1 \<le> V") (simp_all add: IRLSRotationLocalRefiner_new_def setZero_def nat_mult_distrib)
  with SolveIRLS_facts[OF assms, of v] ComputeAverageStepSize_mean[of Q] show ?thesis
    by blast
qed

theorem average_step_size_and_stop_witness:
  "SolveIRLS (pair_env diagonal_solver) pair_refiner pair_measurement pair_rotations
     = Inr (True, pair_final, pair_refined, [StepTaken (Some 1), StepTaken (Some 0)]) \<and>
   length [StepTaken (Some 1), StepTaken (Some 0)]
     < nat (max_num_irls_iterations (irls_options pair_refiner)) \<and>
   \<not> less_double (Some 1) (irls_step_convergence_threshold (irls_options pair_refiner)) \<and>
   less_double (Some 0) (irls_step_convergence_threshold (irls_options pair_refiner)) \<and>
   ComputeAverageStepSize pair_final = Some 0 \<and>
   ComputeAverageStepSize pair_final = Some (mean_increment_norm 1 (tangent_space_step pair_final))"
proof -
  have o: "irls_options pair_refiner = pair_options"
    by (simp add: pair_refiner_def IRLSRotationLocalRefiner_new_def)
  have l: "length (tangent_space_step pair_final) = 3 * 1"
    by (simp add: pair_final_def pair_start_def)
  have z: "ComputeAverageStepSize pair_final = Some 0"
    by (simp add: ComputeAverageStepSize_def pair_final_def pair_start_def seg3_def norm3_def
          squaredNorm3_def)
  from average_step_size_and_stop[OF pair_run, of pair_final 2 1 pair_options] l
  have "ComputeAverageStepSize pair_final
          = Some (mean_increment_norm 1 (tangent_space_step pair_final))"
    by simp
  with z have "mean_increment_norm 1 (tangent_space_step pair_final) = 0"
    by simp
  then show ?thesis
    by (simp add: pair_run o pair_options_def less_double_def z)
qed

text \<open>
  Claim C4 as stated fails: with two views the step has one increment, here of norm \<open>1\<close>,
  and the average is \<open>1\<close>, not that norm divided by the number of views.
\<close>

theorem average_over_views_counterexample:
  "length pair_rotations = 2 \<and>
   tangent_space_step (SetInitTangentSpaceStep [1, 0, 0] pair_refiner) = [1, 0, 0] \<and>
   ComputeAverageStepSize (SetInitTangentSpaceStep [1, 0, 0] pair_refiner) = Some 1 \<and>
   1 / real (length pair_rotations) * norm3 (1, 0, 0) = 1 / 2"
  by (simp add: pair_rotations_def SetInitTangentSpaceStep_def pair_refiner_def
        IRLSRotationLocalRefiner_new_def ComputeAverageStepSize_def seg3_def norm3_def
        squaredNorm3_def)

text \<open>
  Claim C9. In every pass of the loop of \<open>SolveIRLS\<close> the weights are those of the
  specification, built from \<open>irls_loss_parameter_sigma\<close> of the options of the refiner and
  from \<open>tangent_space_residual\<close> as the pass finds it: the factor that the pass leaves is
  what the adapter returns for \<open>A\<^sup>T W A\<close>, and the step is what it returns for the
  right-hand side \<open>A\<^sup>T W r\<close>, where \<open>W\<close> is the diagonal matrix \<open>row_weights\<close>. Each of the
  three rows \<open>3 * k + c\<close> of edge \<open>k\<close> has in \<open>W\<close> the weight \<open>sigma / (e_sq + sigma\<^sup>2)\<^sup>2\<close>,
  where \<open>e_sq\<close> is the squared norm of the three residual coefficients of that edge; the
  weight vector of the code has three coefficients per edge, each of that value, and its
  diagonal matrix is \<open>W\<close>.
\<close>

theorem edge_weights_soft_loss:
  assumes run: "SolveIRLS env R rel gr = Inr (ok, R', gr', tr)"
    and pat: "pattern_info env R' = Success"
  shows "(\<exists>sts. passes_of_run env R rel gr sts tr \<and>
            (\<forall>i<length tr.
               irls_options (fst (sts ! i)) = irls_options R \<and>
               snd (snd (sts ! Suc i)) = snd (pass_factorize env rel (sts ! i)) \<and>
               (tr ! i = FactorizeFailed \<longleftrightarrow> fst (pass_factorize env rel (sts ! i)) \<noteq> Success) \<and>
               (tr ! i = LinearSolveFailed \<longleftrightarrow>
                  fst (pass_factorize env rel (sts ! i)) = Success \<and>
                  fst (pass_solve env rel (sts ! i)) \<noteq> Success) \<and>
               (tr ! i \<noteq> FactorizeFailed \<longrightarrow>
                  tangent_space_step (fst (sts ! Suc i)) = snd (pass_solve env rel (sts ! i))))) \<and>
         (\<forall>k<num_edges. \<forall>c<3.
            coeff (row_weights Q num_edges) (3 * k + c) (3 * k + c)
              = irls_loss_parameter_sigma (irls_options Q)
                / (squaredNorm3 (tangent_space_residual Q ! (3 * k),
                                 tangent_space_residual Q ! (3 * k + 1),
                                 tangent_space_residual Q ! (3 * k + 2))
                   + (irls_loss_parameter_sigma (irls_options Q))\<^sup>2)\<^sup>2 \<and>
            irls_weights sigma residual num_edges ! (3 * k + c)
              = sigma / (squaredNorm3 (residual ! (3 * k), residual ! (3 * k + 1), residual ! (3 * k + 2))
                         + sigma\<^sup>2)\<^sup>2 \<and>
            coeff (asDiagonal (irls_weights sigma residual num_edges)) (3 * k + c) (3 * k + c)
              = sigma / (squaredNorm3 (residual ! (3 * k), residual ! (3 * k + 1), residual ! (3 * k + 2))
                         + sigma\<^sup>2)\<^sup>2) \<and>
         length (irls_weights sigma residual num_edges) = 3 * num_edges \<and>
         asDiagonal (irls_weights (irls_loss_parameter_sigma (irls_options Q))
                       (tangent_space_residual Q) num_edges) = row_weights Q num_edges"
proof -
  from SolveIRLS_passes[OF run pat] obtain sts where
    all: "passes_of_run env R rel gr sts tr \<and> fst (last sts) = R' \<and> fst (snd (last sts)) = gr' \<and>
           (tr = [] \<longleftrightarrow> nat (max_num_irls_iterations (irls_options R)) = 0)" ..
  from all have p: "passes_of_run env R rel gr sts tr" by (rule conjunct1)
  from p have ch: "\<forall>i<length tr. irls_iteration env rel (sts ! i) = Inr (tr ! i, sts ! Suc i)"
    by (simp add: passes_of_run_def)
  have "\<forall>i<length tr.
               irls_options (fst (sts ! i)) = irls_options R \<and>
               snd (snd (sts ! Suc i)) = snd (pass_factorize env rel (sts ! i)) \<and>
               (tr ! i = FactorizeFailed \<longleftrightarrow> fst (pass_factorize env rel (sts ! i)) \<noteq> Success) \<and>
               (tr ! i = LinearSolveFailed \<longleftrightarrow>
                  fst (pass_factorize env rel (sts ! i)) = Success \<and>
                  fst (pass_solve env rel (sts ! i)) \<noteq> Success) \<and>
               (tr ! i \<noteq> FactorizeFailed \<longrightarrow>
                  tangent_space_step (fst (sts ! Suc i)) = snd (pass_solve env rel (sts ! i)))"
  proof (intro allI impI)
    fix i assume i: "i < length tr"
    from passes_options[OF p, of i] i have "irls_options (fst (sts ! i)) = irls_options R" by simp
    with passes_statuses[OF ch i] show "irls_options (fst (sts ! i)) = irls_options R \<and>
               snd (snd (sts ! Suc i)) = snd (pass_factorize env rel (sts ! i)) \<and>
               (tr ! i = FactorizeFailed \<longleftrightarrow> fst (pass_factorize env rel (sts ! i)) \<noteq> Success) \<and>
               (tr ! i = LinearSolveFailed \<longleftrightarrow>
                  fst (pass_factorize env rel (sts ! i)) = Success \<and>
                  fst (pass_solve env rel (sts ! i)) \<noteq> Success) \<and>
               (tr ! i \<noteq> FactorizeFailed \<longrightarrow>
                  tangent_space_step (fst (sts ! Suc i)) = snd (pass_solve env rel (sts ! i)))"
      by simp
  qed
  with p have one: "\<exists>sts. passes_of_run env R rel gr sts tr \<and>
            (\<forall>i<length tr.
               irls_options (fst (sts ! i)) = irls_options R \<and>
               snd (snd (sts ! Suc i)) = snd (pass_factorize env rel (sts ! i)) \<and>
               (tr ! i = FactorizeFailed \<longleftrightarrow> fst (pass_factorize env rel (sts ! i)) \<noteq> Success) \<and>
               (tr ! i = LinearSolveFailed \<longleftrightarrow>
                  fst (pass_factorize env rel (sts ! i)) = Success \<and>
                  fst (pass_solve env rel (sts ! i)) \<noteq> Success) \<and>
               (tr ! i \<noteq> FactorizeFailed \<longrightarrow>
                  tangent_space_step (fst (sts ! Suc i)) = snd (pass_solve env rel (sts ! i))))"
    by (intro exI[of _ sts] conjI)
  have two: "\<forall>k<num_edges. \<forall>c<3.
            coeff (row_weights Q num_edges) (3 * k + c) (3 * k + c)
              = irls_loss_parameter_sigma (irls_options Q)
                / (squaredNorm3 (tangent_space_residual Q ! (3 * k),
                                 tangent_space_residual Q ! (3 * k + 1),
                                 tangent_space_residual Q ! (3 * k + 2))
                   + (irls_loss_parameter_sigma (irls_options Q))\<^sup>2)\<^sup>2 \<and>
            irls_weights sigma residual num_edges ! (3 * k + c)
              = sigma / (squaredNorm3 (residual ! (3 * k), residual ! (3 * k + 1), residual ! (3 * k + 2))
                         + sigma\<^sup>2)\<^sup>2 \<and>
            coeff (asDiagonal (irls_weights sigma residual num_edges)) (3 * k + c) (3 * k + c)
              = sigma / (squaredNorm3 (residual ! (3 * k), residual ! (3 * k + 1), residual ! (3 * k + 2))
                         + sigma\<^sup>2)\<^sup>2"
    by (simp add: row_weights_coeff length_irls_weights nth_irls_weights edge_weight_def Let_def
          seg3_def power2_eq_square asDiagonal_def)
  show ?thesis
    by (intro conjI one two length_irls_weights asDiagonal_irls_weights)
qed

theorem edge_weights_soft_loss_witness:
  "SolveIRLS (pair_env diagonal_solver) pair_refiner pair_measurement pair_rotations
     = Inr (True, pair_final, pair_refined, [StepTaken (Some 1), StepTaken (Some 0)]) \<and>
   pattern_info (pair_env diagonal_solver) pair_final = Success \<and>
   irls_loss_parameter_sigma (irls_options pair_start) = 1 \<and>
   tangent_space_residual pair_start = [1, 0, 0] \<and>
   (\<exists>sts :: Matrix irls_state list. fst (sts ! 0) = pair_start \<and> coeff (snd (snd (sts ! Suc 0))) 0 0 = 1 / 4) \<and>
   irls_weights 1 [0, 0, 0, 1, 0, 0] 2 ! (3 * 1 + 2) = 1 / 4"
proof -
  note t = edge_weights_soft_loss[OF pair_run pair_pattern, of 2 pair_start 1 "[0, 0, 0, 1, 0, 0]"]
  from t[THEN conjunct1] obtain sts where
    a: "passes_of_run (pair_env diagonal_solver) pair_refiner pair_measurement pair_rotations sts
          [StepTaken (Some 1), StepTaken (Some 0)] \<and>
        (\<forall>i<length [StepTaken (Some 1), StepTaken (Some 0)].
               irls_options (fst (sts ! i)) = irls_options pair_refiner \<and>
               snd (snd (sts ! Suc i))
                 = snd (pass_factorize (pair_env diagonal_solver) pair_measurement (sts ! i)) \<and>
               ([StepTaken (Some 1), StepTaken (Some 0)] ! i = FactorizeFailed \<longleftrightarrow>
                  fst (pass_factorize (pair_env diagonal_solver) pair_measurement (sts ! i)) \<noteq> Success) \<and>
               ([StepTaken (Some 1), StepTaken (Some 0)] ! i = LinearSolveFailed \<longleftrightarrow>
                  fst (pass_factorize (pair_env diagonal_solver) pair_measurement (sts ! i)) = Success \<and>
                  fst (pass_solve (pair_env diagonal_solver) pair_measurement (sts ! i)) \<noteq> Success) \<and>
               ([StepTaken (Some 1), StepTaken (Some 0)] ! i \<noteq> FactorizeFailed \<longrightarrow>
                  tangent_space_step (fst (sts ! Suc i))
                    = snd (pass_solve (pair_env diagonal_solver) pair_measurement (sts ! i))))" ..
  from a have p: "passes_of_run (pair_env diagonal_solver) pair_refiner pair_measurement
      pair_rotations sts [StepTaken (Some 1), StepTaken (Some 0)]"
    by (rule conjunct1)
  from a[THEN conjunct2, rule_format, of 0]
  have f: "snd (snd (sts ! Suc 0))
          = snd (pass_factorize (pair_env diagonal_solver) pair_measurement (sts ! 0))"
    by simp
  from t[THEN conjunct2, THEN conjunct1, rule_format, of 1 2]
  have w: "irls_weights 1 [0, 0, 0, 1, 0, 0] 2 ! (3 * 1 + 2)
          = 1 / (squaredNorm3 ([0, 0, 0, 1, 0, 0] ! (3 * 1), [0, 0, 0, 1, 0, 0] ! (3 * 1 + 1),
                               [0, 0, 0, 1, 0, 0] ! (3 * 1 + 2)) + 1\<^sup>2)\<^sup>2"
    by simp
  from p have s0: "fst (sts ! 0) = pair_start"
    by (simp add: passes_of_run_def pair_prepare pair_residuals)
  obtain g0 f0 where t: "sts ! 0 = (pair_start, g0, f0)"
    using s0 by (cases "sts ! 0") auto
  have c: "coeff (snd (snd (sts ! Suc 0))) 0 0 = 1 / 4"
    unfolding f t by (rule pair_first_factor)
  have "\<exists>sts :: Matrix irls_state list. fst (sts ! 0) = pair_start \<and> coeff (snd (snd (sts ! Suc 0))) 0 0 = 1 / 4"
    by (rule exI[of _ sts]) (intro conjI s0 c)
  moreover from w have "irls_weights 1 [0, 0, 0, 1, 0, 0] 2 ! (3 * 1 + 2) = 1 / 4"
    by (simp add: squaredNorm3_def power2_eq_square)
  ultimately show ?thesis
    using pair_run pair_pattern by (simp add: pair_start_def pair_options_def)
qed

section \<open>The Lagrange-dual estimator: proofs\<close>

subsection \<open>The fields a call leaves alone, and the aborts\<close>

lemma CreateSDPSolver_cases:
  "CreateSDPSolver E n d = None \<longleftrightarrow> (\<exists>v. solver_type (ld_options E) = OTHER_SOLVER_TYPE v)"
  by (simp add: CreateSDPSolver_def split: SDPSolverType.splits)

lemma FillinRelativeGraph_fields:
  "FillinRelativeGraph env vp E = Inr (E', adj) \<Longrightarrow>
     alpha_max E' = alpha_max E \<and> ld_options E' = ld_options E \<and> images_num E' = images_num E
     \<and> dim E' = dim E"
  by (auto simp: FillinRelativeGraph_def split: prod.splits sum.splits)

lemma RetrieveRotations_fields:
  "RetrieveRotations env E Y gr = Inr (E', gr') \<Longrightarrow>
     alpha_max E' = alpha_max E \<and> ld_options E' = ld_options E \<and> ld_Y E' = ld_Y E"
  by (auto simp: RetrieveRotations_def split: prod.splits sum.splits)

lemma EstimateRotations_Inr:
  assumes "EstimateRotations env E vp gr = Inr (ok, E', gr')"
  shows "ok \<and> alpha_max E' = alpha_max E \<and> ld_options E' = ld_options E
         \<and> CreateSDPSolver E (images_num E) (dim E) \<noteq> None"
proof -
  let ?E1 = "EstimateRotations_prepare env E gr"
  have p1: "ld_options ?E1 = ld_options E" "alpha_max ?E1 = alpha_max E"
    "images_num ?E1 = images_num E" "dim ?E1 = dim E"
    by (simp_all add: EstimateRotations_prepare_def)
  from assms obtain E2 adj where f: "FillinRelativeGraph env vp ?E1 = Inr (E2, adj)"
    by (auto simp: EstimateRotations_def Let_def split: if_splits sum.splits)
  note ff = FillinRelativeGraph_fields[OF f]
  from assms f obtain solver where c: "CreateSDPSolver E2 (images_num E) (dim E2) = Some solver"
    by (auto simp: EstimateRotations_def Let_def split: if_splits sum.splits option.splits)
  obtain Y s' where r: "sdp_run env solver (smult_m (- 1) (ld_R E2)) adj (ld_summary E2) = (Y, s')"
    by (cases "sdp_run env solver (smult_m (- 1) (ld_R E2)) adj (ld_summary E2)")
  from assms f c r have rr: "RetrieveRotations env (E2\<lparr>ld_Y := Y, ld_summary := s'\<rparr>) Y gr = Inr (E', gr')"
    and ok: "ok"
    by (auto simp: EstimateRotations_def Let_def split: if_splits sum.splits)
  note rf = RetrieveRotations_fields[OF rr]
  have "CreateSDPSolver E (images_num E) (dim E) \<noteq> None"
    using c ff p1 by (auto simp: CreateSDPSolver_def split: SDPSolverType.splits)
  with ok rf ff p1 show ?thesis by simp
qed

lemma setFromTriplets_abort: "setFromTriplets M ts = Inl a \<Longrightarrow> a = IndexOutOfRange"
  by (auto simp: setFromTriplets_def split: if_splits)

lemma FillinRelativeGraph_abort: "FillinRelativeGraph env vp X = Inl a \<Longrightarrow> a = IndexOutOfRange"
  by (auto simp: FillinRelativeGraph_def split: prod.splits sum.splits dest: setFromTriplets_abort)

lemma RetrieveRotations_loop_abort:
  "RetrieveRotations_loop env Y gr m = Inl a \<Longrightarrow> a = IndexOutOfRange"
proof (induction gr arbitrary: m)
  case Nil
  then show ?case by simp
next
  case (Cons e gr)
  obtain k r where e: "e = (k, r)" by (cases e)
  obtain j m1 where ii: "index_or_insert m k = (j, m1)" by (cases "index_or_insert m k")
  show ?case
    using Cons.prems Cons.IH[of m1] unfolding e
    by (auto simp: ii Let_def block3_transposed_def split: sum.splits if_splits)
qed

lemma RetrieveRotations_abort: "RetrieveRotations env E Y gr = Inl a \<Longrightarrow> a = IndexOutOfRange"
  by (auto simp: RetrieveRotations_def split: sum.splits dest: RetrieveRotations_loop_abort)

lemma EstimateRotations_null:
  assumes "solver_type (ld_options E) = OTHER_SOLVER_TYPE v"
  shows "EstimateRotations env E vp gr \<in> {Inl CheckFailed, Inl IndexOutOfRange, Inl NullPointerDereference}"
    and "0 < length vp \<Longrightarrow> 0 < images_num E \<Longrightarrow>
         FillinRelativeGraph env vp (EstimateRotations_prepare env E gr) = Inr (E2, adj)
         \<Longrightarrow> EstimateRotations env E vp gr = Inl NullPointerDereference"
proof -
  have p: "ld_options (EstimateRotations_prepare env E gr) = ld_options E"
    by (simp add: EstimateRotations_prepare_def)
  have cn: "FillinRelativeGraph env vp (EstimateRotations_prepare env E gr) = Inr (E2', adj')
            \<Longrightarrow> CreateSDPSolver E2' n d = None" for E2' adj' n d
    using assms p FillinRelativeGraph_fields[of env vp "EstimateRotations_prepare env E gr" E2' adj']
    by (simp add: CreateSDPSolver_def)
  show "EstimateRotations env E vp gr \<in> {Inl CheckFailed, Inl IndexOutOfRange, Inl NullPointerDereference}"
    by (auto simp: EstimateRotations_def Let_def cn split: sum.splits dest: FillinRelativeGraph_abort)
  show "0 < length vp \<Longrightarrow> 0 < images_num E \<Longrightarrow>
         FillinRelativeGraph env vp (EstimateRotations_prepare env E gr) = Inr (E2, adj)
         \<Longrightarrow> EstimateRotations env E vp gr = Inl NullPointerDereference"
    by (auto simp: EstimateRotations_def Let_def cn split: sum.splits if_splits)
qed

lemma EstimateRotations_no_null:
  assumes "CreateSDPSolver E n d \<noteq> None"
  shows "EstimateRotations env E vp gr \<noteq> Inl NullPointerDereference"
proof -
  have p: "ld_options (EstimateRotations_prepare env E gr) = ld_options E"
    by (simp add: EstimateRotations_prepare_def)
  have cn: "FillinRelativeGraph env vp (EstimateRotations_prepare env E gr) = Inr (E2', adj')
            \<Longrightarrow> CreateSDPSolver E2' n' d' \<noteq> None" for E2' adj' n' d'
    using assms p FillinRelativeGraph_fields[of env vp "EstimateRotations_prepare env E gr" E2' adj']
    by (auto simp: CreateSDPSolver_def split: SDPSolverType.splits)
  show ?thesis
  proof
    assume a: "EstimateRotations env E vp gr = Inl NullPointerDereference"
    show False
    proof (cases "FillinRelativeGraph env vp (EstimateRotations_prepare env E gr)")
      case (Inl x)
      with a FillinRelativeGraph_abort[OF Inl] show False
        by (auto simp: EstimateRotations_def Let_def split: if_splits)
    next
      case (Inr p)
      obtain E2 adj where p: "p = (E2, adj)" by (cases p)
      from cn[OF Inr[unfolded p]] obtain solver where
        "CreateSDPSolver E2 (images_num E) (dim E2) = Some solver" by auto
      with a Inr p show False
        by (auto simp: EstimateRotations_def Let_def split: if_splits prod.splits sum.splits
              dest: RetrieveRotations_abort)
    qed
  qed
qed

subsection \<open>Retrieval writes every view\<close>

lemma index_or_insert_other:
  "k \<noteq> v \<Longrightarrow> map_of (snd (index_or_insert m k)) v = map_of m v"
  by (auto simp: index_or_insert_def map_add_def split: option.splits)

lemma index_or_insert_same:
  "map_of (snd (index_or_insert m k)) k = Some (fst (index_or_insert m k))"
  by (auto simp: index_or_insert_def map_add_def split: option.splits)

lemma index_or_insert_keeps:
  "map_of m v = Some i \<Longrightarrow> map_of (snd (index_or_insert m k)) v = Some i"
  by (auto simp: index_or_insert_def map_add_def split: option.splits)

lemma index_or_insert_fst:
  "fst (index_or_insert m v) = (case map_of m v of None \<Rightarrow> 0 | Some i \<Rightarrow> i)"
  by (auto simp: index_or_insert_def split: option.splits)

lemma RetrieveRotations_loop_keeps:
  "RetrieveRotations_loop env Y gr m = Inr (gr', m') \<Longrightarrow> map_of m v = Some i \<Longrightarrow> map_of m' v = Some i"
proof (induction gr arbitrary: m gr' m')
  case Nil
  then show ?case by simp
next
  case (Cons a gr)
  obtain k r where a: "a = (k, r)" by (cases a)
  obtain j m1 where ii: "index_or_insert m k = (j, m1)" by (cases "index_or_insert m k")
  from Cons.prems(1) obtain rest' where
    rec: "RetrieveRotations_loop env Y gr m1 = Inr (rest', m')"
    unfolding a by (auto simp: ii Let_def split: sum.splits)
  from index_or_insert_keeps[OF Cons.prems(2), of k] ii have "map_of m1 v = Some i" by simp
  from Cons.IH[OF rec this] show ?case .
qed

lemma RetrieveRotations_loop_overwrites:
  "RetrieveRotations_loop env Y gr m = Inr (gr', m') \<Longrightarrow> map_of gr v = Some r \<Longrightarrow>
     (\<exists>i R. map_of m' v = Some i \<and> block3_transposed Y (3 * i) = Inr R \<and>
        map_of gr' v = Some (RotationMatrixToAngleAxis env
                               (if determinant3 R < 0 then smult_m (- 1) R else R)))"
proof (induction gr arbitrary: m gr' m')
  case Nil
  then show ?case by simp
next
  case (Cons a gr)
  obtain k r0 where a: "a = (k, r0)" by (cases a)
  obtain j m1 where ii: "index_or_insert m k = (j, m1)" by (cases "index_or_insert m k")
  from Cons.prems(1) obtain R rest' where
    blk: "block3_transposed Y (3 * j) = Inr R" and
    rec: "RetrieveRotations_loop env Y gr m1 = Inr (rest', m')" and
    gr': "gr' = (k, RotationMatrixToAngleAxis env
                      (if determinant3 R < 0 then smult_m (- 1) R else R)) # rest'"
    unfolding a by (auto simp: ii Let_def split: sum.splits)
  show ?case
  proof (cases "k = v")
    case True
    from index_or_insert_same[of m k] ii have "map_of m1 k = Some j" by simp
    from RetrieveRotations_loop_keeps[OF rec this] have "map_of m' v = Some j"
      using True by simp
    with blk gr' True show ?thesis by auto
  next
    case False
    with Cons.prems(2) a have "map_of gr v = Some r" by simp
    from Cons.IH[OF rec this] gr' False show ?thesis by auto
  qed
qed

lemma EstimateRotations_overwrites:
  assumes "EstimateRotations env E vp gr = Inr (ok, E', gr')" and "map_of gr v = Some r"
  shows "\<exists>i R. map_of (ld_view_id_to_index E') v = Some i \<and>
           block3_transposed (ld_Y E') (3 * i) = Inr R \<and>
           map_of gr' v = Some (RotationMatrixToAngleAxis env
                                  (if determinant3 R < 0 then smult_m (- 1) R else R))"
proof -
  let ?E1 = "EstimateRotations_prepare env E gr"
  have p1: "ld_options ?E1 = ld_options E" "alpha_max ?E1 = alpha_max E"
    "images_num ?E1 = images_num E" "dim ?E1 = dim E"
    by (simp_all add: EstimateRotations_prepare_def)
  from assms obtain E2 adj where f: "FillinRelativeGraph env vp ?E1 = Inr (E2, adj)"
    by (auto simp: EstimateRotations_def Let_def split: if_splits sum.splits)
  from assms f obtain solver where c: "CreateSDPSolver E2 (images_num E) (dim E2) = Some solver"
    by (auto simp: EstimateRotations_def Let_def split: if_splits sum.splits option.splits)
  obtain Y s' where r: "sdp_run env solver (smult_m (- 1) (ld_R E2)) adj (ld_summary E2) = (Y, s')"
    by (cases "sdp_run env solver (smult_m (- 1) (ld_R E2)) adj (ld_summary E2)")
  from assms f c r have rr: "RetrieveRotations env (E2\<lparr>ld_Y := Y, ld_summary := s'\<rparr>) Y gr = Inr (E', gr')"
    by (auto simp: EstimateRotations_def Let_def split: if_splits sum.splits)
  then obtain m' where
    l: "RetrieveRotations_loop env Y gr (ld_view_id_to_index E2) = Inr (gr', m')" and
    E': "E' = E2\<lparr>ld_Y := Y, ld_summary := s', ld_view_id_to_index := m'\<rparr>"
    by (auto simp: RetrieveRotations_def split: sum.splits)
  from RetrieveRotations_loop_overwrites[OF l assms(2)] E' show ?thesis by simp
qed

subsection \<open>The error bound\<close>

lemma sqrt_quarter: "sqrt (1 / 4) = 1 / 2"
  by (simp add: real_sqrt_divide)

lemma ComputeErrorBound_failure:
  assumes "fst (SymEigsSolver env L) \<noteq> SUCCESSFUL"
    and "ComputeErrorBound_L vp E = Inr (L, d, m)"
  shows "\<exists>E'. ComputeErrorBound env vp E = Inr E' \<and> alpha_max E' = 0"
  using assms by (auto simp: ComputeErrorBound_def Let_def sqrt_quarter split: prod.splits)


lemma star_fill:
  "\<exists>E2 adj. FillinRelativeGraph (star_env eigs) star_pairs
              (EstimateRotations_prepare (star_env eigs) (star_estimator t) gr) = Inr (E2, adj)
      \<and> ld_view_id_to_index E2 = star_index"
  by (simp add: FillinRelativeGraph_def star_pairs_def star_estimator_def EstimateRotations_prepare_def star_index_def
        ld_SetViewIdToIndex_def LagrangeDualRotationEstimator_new_def index_or_insert_def
        setFromTriplets_def triplet_in_range_def zero_matrix_def edge_triplets_def upt_rec
        Let_def star_env_def identity_measurement_def)

lemma star_retrieve:
  "RetrieveRotations_loop (star_env eigs) star_Y star_rotations star_index
     = Inr (star_result, star_index)"
  by (simp add: star_rotations_def star_result_def star_index_def index_or_insert_def block3_transposed_def
        star_Y_def determinant3_def star_env_def Let_def)

subsection \<open>The runs on five views\<close>

lemma index_or_insert_present: "map_of m k = Some i \<Longrightarrow> index_or_insert m k = (i, m)"
  by (simp add: index_or_insert_def)

lemma laplacian_triplets_step:
  "map_of m a = Some i \<Longrightarrow> map_of m b = Some j \<Longrightarrow>
   laplacian_triplets degrees (((a, b), g) # rest) (m, ats, dts, mx)
     = laplacian_triplets degrees rest
         (m, ats @ [(i, j, 1), (j, i, 1)],
          dts @ [(i, i, degrees ! nat i), (j, j, degrees ! nat j)],
          max (max mx (degrees ! nat i)) (degrees ! nat j))"
  by (simp add: index_or_insert_present)

lemma count_degrees_step:
  "map_of m a = Some i \<Longrightarrow> map_of m b = Some j \<Longrightarrow>
   increment_degree degrees i = Inr d1 \<Longrightarrow> increment_degree d1 j = Inr d2 \<Longrightarrow>
   count_degrees (((a, b), g) # rest) (m, degrees) = count_degrees rest (m, d2)"
  by (simp add: index_or_insert_present)

lemma star_lookup:
  "map_of star_index 0 = Some 0" "map_of star_index 1 = Some 1" "map_of star_index 2 = Some 2"
  "map_of star_index 3 = Some 3" "map_of star_index 4 = Some 4"
  by (simp_all add: star_index_def)

lemma star_triplets:
  "laplacian_triplets [4, 1, 1, 1, 1] star_pairs (star_index, [], [], 0)
     = (star_index,
        [(0, 1, 1), (1, 0, 1), (0, 2, 1), (2, 0, 1), (0, 3, 1), (3, 0, 1), (0, 4, 1), (4, 0, 1)],
        [(0, 0, 4), (1, 1, 1), (0, 0, 4), (2, 2, 1), (0, 0, 4), (3, 3, 1), (0, 0, 4), (4, 4, 1)],
        4)"
  unfolding star_pairs_def
  by (simp add: laplacian_triplets_step star_lookup del: laplacian_triplets.simps(2))

lemma cycle_triplets:
  "laplacian_triplets [2, 2, 2, 2, 2] cycle_pairs (star_index, [], [], 0)
     = (star_index,
        [(0, 1, 1), (1, 0, 1), (1, 2, 1), (2, 1, 1), (2, 3, 1), (3, 2, 1), (3, 4, 1), (4, 3, 1),
         (4, 0, 1), (0, 4, 1)],
        [(0, 0, 2), (1, 1, 2), (1, 1, 2), (2, 2, 2), (2, 2, 2), (3, 3, 2), (3, 3, 2), (4, 4, 2),
         (4, 4, 2), (0, 0, 2)],
        2)"
  unfolding cycle_pairs_def
  by (simp add: laplacian_triplets_step star_lookup del: laplacian_triplets.simps(2))

lemma u5: "[0..<5] = [0, 1, 2, 3, 4]"
  by (simp add: upt_rec)

lemma cycle_set:
  "setFromTriplets (zero_matrix 5 5)
        [(0, 1, 1), (1, 0, 1), (1, 2, 1), (2, 1, 1), (2, 3, 1), (3, 2, 1), (3, 4, 1), (4, 3, 1),
         (4, 0, 1), (0, 4, 1)] = Inr A \<Longrightarrow>
   setFromTriplets (zero_matrix 5 5)
        [(0, 0, 2), (1, 1, 2), (1, 1, 2), (2, 2, 2), (2, 2, 2), (3, 3, 2), (3, 3, 2), (4, 4, 2),
         (4, 4, 2), (0, 0, 2)] = Inr D \<Longrightarrow>
   to_rows (msub D A) = [[4, - 1, 0, 0, - 1], [- 1, 4, - 1, 0, 0], [0, - 1, 4, - 1, 0],
             [0, 0, - 1, 4, - 1], [- 1, 0, 0, - 1, 4]]"
  by (auto simp: setFromTriplets_def triplet_in_range_def zero_matrix_def to_rows_def msub_def u5)

lemma cycle_laplacian:
  "to_rows (graph_laplacian 5 [(0, 1), (1, 2), (2, 3), (3, 4), (4, 0)])
     = [[2, - 1, 0, 0, - 1], [- 1, 2, - 1, 0, 0], [0, - 1, 2, - 1, 0],
        [0, 0, - 1, 2, - 1], [- 1, 0, 0, - 1, 2]]"
  by (simp add: to_rows_def graph_laplacian_def vertex_degree_def adjacency_def u5)

lemma replicate5: "replicate 5 (0::real) = [0, 0, 0, 0, 0]"
  by (simp add: numeral_eq_Suc)

lemma star_run:
  "\<exists>E'. EstimateRotations (star_env eigs) (star_estimator RBR_BCM) star_pairs star_rotations
           = Inr (True, E', star_result) \<and> alpha_max E' = 0"
proof -
  let ?env = "star_env eigs" and ?E = "star_estimator RBR_BCM"
  from star_fill[of eigs RBR_BCM star_rotations] obtain E2 adj where
    f: "FillinRelativeGraph ?env star_pairs (EstimateRotations_prepare ?env ?E star_rotations)
          = Inr (E2, adj)" and m: "ld_view_id_to_index E2 = star_index" by blast
  have prep: "ld_options (EstimateRotations_prepare ?env ?E star_rotations) = \<lparr>solver_type = RBR_BCM\<rparr>"
    "alpha_max (EstimateRotations_prepare ?env ?E star_rotations) = 0"
    by (simp_all add: EstimateRotations_prepare_def star_estimator_def ld_SetViewIdToIndex_def
          LagrangeDualRotationEstimator_new_def)
  from FillinRelativeGraph_fields[OF f] prep
  have o: "ld_options E2 = \<lparr>solver_type = RBR_BCM\<rparr>" "alpha_max E2 = 0" by simp_all
  then have c: "CreateSDPSolver E2 n d = Some (RBRSDPSolver n d \<lparr>solver_type = RBR_BCM\<rparr>)" for n d
    by (simp add: CreateSDPSolver_def)
  have r: "sdp_run ?env solver C a s = (star_Y, s)" for solver C a s
    by (simp add: star_env_def)
  have n: "images_num ?E = 5" "length star_pairs = 4"
    by (simp_all add: star_estimator_def ld_SetViewIdToIndex_def
          LagrangeDualRotationEstimator_new_def star_pairs_def)
  show ?thesis
    unfolding EstimateRotations_def
    by (simp add: n Let_def f c r RetrieveRotations_def m star_retrieve o)
qed


lemma star_degrees:
  "count_degrees star_pairs (star_index, replicate 5 0) = Inr (star_index, [4, 1, 1, 1, 1])"
  unfolding star_pairs_def replicate5
  by (simp add: count_degrees_step star_lookup increment_degree_def del: count_degrees.simps(2))

lemma cycle_degrees:
  "count_degrees cycle_pairs (star_index, replicate 5 0) = Inr (star_index, [2, 2, 2, 2, 2])"
  unfolding cycle_pairs_def replicate5
  by (simp add: count_degrees_step star_lookup increment_degree_def del: count_degrees.simps(2))

lemma star_estimator_fields:
  "nat (images_num (star_estimator t)) = 5" "images_num (star_estimator t) = 5"
  "ld_view_id_to_index (star_estimator t) = star_index"
  "ld_options (star_estimator t) = \<lparr>solver_type = t\<rparr>" "alpha_max (star_estimator t) = 0"
  by (simp_all add: star_estimator_def ld_SetViewIdToIndex_def LagrangeDualRotationEstimator_new_def)

lemma star_L:
  "\<exists>L. ComputeErrorBound_L star_pairs (star_estimator t) = Inr (L, 4, star_index)"
  unfolding ComputeErrorBound_L_def
  by (simp add: star_estimator_fields Let_def star_degrees star_triplets setFromTriplets_def
        triplet_in_range_def zero_matrix_def)

lemma cycle_L:
  "matrix_for_eigensolver (ComputeErrorBound_L cycle_pairs (star_estimator t))
     = Some [[4, - 1, 0, 0, - 1], [- 1, 4, - 1, 0, 0], [0, - 1, 4, - 1, 0],
             [0, 0, - 1, 4, - 1], [- 1, 0, 0, - 1, 4]]"
proof -
  obtain A where A: "setFromTriplets (zero_matrix 5 5)
        [(0, 1, 1), (1, 0, 1), (1, 2, 1), (2, 1, 1), (2, 3, 1), (3, 2, 1), (3, 4, 1), (4, 3, 1),
         (4, 0, 1), (0, 4, 1)] = Inr A"
    by (simp add: setFromTriplets_def triplet_in_range_def zero_matrix_def)
  obtain D where D: "setFromTriplets (zero_matrix 5 5)
        [(0, 0, 2), (1, 1, 2), (1, 1, 2), (2, 2, 2), (2, 2, 2), (3, 3, 2), (3, 3, 2), (4, 4, 2),
         (4, 4, 2), (0, 0, 2)] = Inr D"
    by (simp add: setFromTriplets_def triplet_in_range_def zero_matrix_def)
  show ?thesis
    unfolding ComputeErrorBound_L_def
    by (simp add: star_estimator_fields Let_def cycle_degrees cycle_triplets A D
          matrix_for_eigensolver_def cycle_set[OF A D])
qed

lemma star_set:
  "setFromTriplets (zero_matrix 5 5)
        [(0, 1, 1), (1, 0, 1), (0, 2, 1), (2, 0, 1), (0, 3, 1), (3, 0, 1), (0, 4, 1), (4, 0, 1)]
     = Inr A \<Longrightarrow>
   setFromTriplets (zero_matrix 5 5)
        [(0, 0, 4), (1, 1, 1), (0, 0, 4), (2, 2, 1), (0, 0, 4), (3, 3, 1), (0, 0, 4), (4, 4, 1)]
     = Inr D \<Longrightarrow>
   to_rows (msub D A) = star_matrix"
  by (auto simp: setFromTriplets_def triplet_in_range_def zero_matrix_def to_rows_def msub_def u5
        star_matrix_def)

lemma star_L_rows:
  "matrix_for_eigensolver (ComputeErrorBound_L star_pairs (star_estimator t)) = Some star_matrix"
proof -
  obtain A where A: "setFromTriplets (zero_matrix 5 5)
        [(0, 1, 1), (1, 0, 1), (0, 2, 1), (2, 0, 1), (0, 3, 1), (3, 0, 1), (0, 4, 1), (4, 0, 1)]
     = Inr A"
    by (simp add: setFromTriplets_def triplet_in_range_def zero_matrix_def)
  obtain D where D: "setFromTriplets (zero_matrix 5 5)
        [(0, 0, 4), (1, 1, 1), (0, 0, 4), (2, 2, 1), (0, 0, 4), (3, 3, 1), (0, 0, 4), (4, 4, 1)]
     = Inr D"
    by (simp add: setFromTriplets_def triplet_in_range_def zero_matrix_def)
  show ?thesis
    unfolding ComputeErrorBound_L_def
    by (simp add: star_estimator_fields Let_def star_degrees star_triplets A D
          matrix_for_eigensolver_def star_set[OF A D])
qed

lemma star_eigenvalue_one:
  "rows_times star_matrix [0, 1, - 1, 0, 0] = vscale 1 [0, 1, - 1, 0, 0]"
  by (simp add: rows_times_def star_matrix_def vscale_def)

lemma star_eigenvalue_least:
  "rows_times star_matrix [(sqrt 241 - 15) / 2, 1, 1, 1, 1]
     = vscale ((17 - sqrt 241) / 2) [(sqrt 241 - 15) / 2, 1, 1, 1, 1]"
proof -
  have "sqrt 241 * sqrt 241 = 241" by simp
  then show ?thesis
    by (simp add: rows_times_def star_matrix_def vscale_def field_simps)
qed

lemma star_bound:
  "bound_after_compute (ComputeErrorBound (star_env star_eigenvalues) star_pairs (star_estimator t))
     = Some (2 * arcsin (sqrt (3 / 8) - 1 / 2))"
proof -
  from star_L[of t] obtain L where
    "ComputeErrorBound_L star_pairs (star_estimator t) = Inr (L, 4, star_index)" by blast
  then show ?thesis
    by (simp add: ComputeErrorBound_def bound_after_compute_def GetErrorBound_def star_env_def
          star_eigenvalues_def)
qed

lemma star_bound_failure:
  "bound_after_compute (ComputeErrorBound (star_env no_eigenvalues) star_pairs (star_estimator t))
     = Some 0"
proof -
  from star_L[of t] obtain L where
    "ComputeErrorBound_L star_pairs (star_estimator t) = Inr (L, 4, star_index)" by blast
  then show ?thesis
    by (simp add: ComputeErrorBound_def bound_after_compute_def GetErrorBound_def star_env_def
          no_eigenvalues_def sqrt_quarter)
qed

lemma star_bound_positive: "0 < 2 * arcsin (sqrt (3 / 8) - 1 / 2)"
proof -
  have "sqrt (1 / 4) < sqrt (3 / 8)"
    by (rule real_sqrt_less_mono) simp
  then have lo: "0 < sqrt (3 / 8) - 1 / 2"
    by (simp add: sqrt_quarter)
  have "sqrt (3 / 8) \<le> 1"
    using real_sqrt_le_mono[of "3 / 8" 1] by simp
  then have hi: "sqrt (3 / 8) - 1 / 2 \<le> 1"
    by linarith
  have "arcsin 0 < arcsin (sqrt (3 / 8) - 1 / 2)"
    by (rule arcsin_less_arcsin) (use lo hi in simp_all)
  then show ?thesis by simp
qed

lemma ComputeErrorBound_success:
  assumes "ComputeErrorBound_L vp E = Inr (L, dmax, m)"
    and "SymEigsSolver env L = (SUCCESSFUL, l2 # ls)"
  shows "bound_after_compute (ComputeErrorBound env vp E)
           = Some (2 * arcsin (sqrt (0.25 + l2 / (2 * dmax)) - 0.5))"
  using assms
  by (simp add: ComputeErrorBound_def bound_after_compute_def GetErrorBound_def)

lemma ComputeErrorBound_swallows_failure:
  assumes "ComputeErrorBound_L vp E = Inr (L, dmax, m)"
    and "fst (SymEigsSolver env L) \<noteq> SUCCESSFUL"
  shows "bound_after_compute (ComputeErrorBound env vp E) = Some 0"
  using assms
  by (auto simp: ComputeErrorBound_def bound_after_compute_def GetErrorBound_def sqrt_quarter
        split: prod.splits)

section \<open>Claims about both estimators\<close>

text \<open>
  Claim C1, as amended. \<open>SolveIRLS\<close> returns false exactly when the pattern analysis, or the
  factorization or the solve of some pass of the loop (the factorization of \<open>A\<^sup>T W A\<close> and
  the solve with \<open>A\<^sup>T W r\<close> that the pass asks of the adapter in the state in which it
  begins), reports a status other than success. A pass in which one of them does is the
  last one (nothing is retried) and leaves the rotations as it found them; a failed
  analysis leaves them as they were passed in. With a successful analysis the loop makes
  no pass only if \<open>max_num_irls_iterations\<close> allows none. \<open>EstimateRotations\<close> of the
  Lagrange-dual estimator returns true whenever it returns. An eigensolver that does not
  succeed is met only in \<open>ComputeErrorBound\<close>, which reports nothing: it takes
  \<open>lambda2 = 0\<close> and, when the largest degree is positive, stores the bound \<open>0\<close>.
\<close>

theorem failure_status:
  "(SolveIRLS env R rel gr = Inr (ok, R', gr', tr) \<longrightarrow>
      (pattern_info env R' \<noteq> Success \<longrightarrow> \<not> ok \<and> tr = [] \<and> gr' = gr) \<and>
      (ok \<longleftrightarrow> pattern_info env R' = Success
            \<and> (\<forall>s \<in> set tr. s \<noteq> FactorizeFailed \<and> s \<noteq> LinearSolveFailed)) \<and>
      (\<forall>s \<in> set (butlast tr). s \<noteq> FactorizeFailed \<and> s \<noteq> LinearSolveFailed) \<and>
      (pattern_info env R' = Success \<longrightarrow>
         (\<exists>sts. passes_of_run env R rel gr sts tr \<and>
            fst (last sts) = R' \<and> fst (snd (last sts)) = gr' \<and>
            (tr = [] \<longleftrightarrow> nat (max_num_irls_iterations (irls_options R)) = 0) \<and>
            (ok \<longleftrightarrow> (\<forall>i<length tr. fst (pass_factorize env rel (sts ! i)) = Success \<and>
                                   fst (pass_solve env rel (sts ! i)) = Success)) \<and>
            (\<forall>i<length tr. fst (pass_factorize env rel (sts ! i)) \<noteq> Success \<or>
                           fst (pass_solve env rel (sts ! i)) \<noteq> Success \<longrightarrow>
                 Suc i = length tr \<and> gr' = fst (snd (sts ! i)))))) \<and>
   (EstimateRotations lenv E vp lgr = Inr (lok, E', lgr') \<longrightarrow> lok) \<and>
   (ComputeErrorBound_L vp E = Inr (L, dmax, m) \<and> 0 < dmax \<and> fst (SymEigsSolver lenv L) \<noteq> SUCCESSFUL \<longrightarrow>
      bound_after_compute (ComputeErrorBound lenv vp E) = Some 0)"
proof -
  have A: "(pattern_info env R' \<noteq> Success \<longrightarrow> \<not> ok \<and> tr = [] \<and> gr' = gr) \<and>
      (ok \<longleftrightarrow> pattern_info env R' = Success
            \<and> (\<forall>s \<in> set tr. s \<noteq> FactorizeFailed \<and> s \<noteq> LinearSolveFailed)) \<and>
      (\<forall>s \<in> set (butlast tr). s \<noteq> FactorizeFailed \<and> s \<noteq> LinearSolveFailed) \<and>
      (pattern_info env R' = Success \<longrightarrow>
         (\<exists>sts. passes_of_run env R rel gr sts tr \<and>
            fst (last sts) = R' \<and> fst (snd (last sts)) = gr' \<and>
            (tr = [] \<longleftrightarrow> nat (max_num_irls_iterations (irls_options R)) = 0) \<and>
            (ok \<longleftrightarrow> (\<forall>i<length tr. fst (pass_factorize env rel (sts ! i)) = Success \<and>
                                   fst (pass_solve env rel (sts ! i)) = Success)) \<and>
            (\<forall>i<length tr. fst (pass_factorize env rel (sts ! i)) \<noteq> Success \<or>
                           fst (pass_solve env rel (sts ! i)) \<noteq> Success \<longrightarrow>
                 Suc i = length tr \<and> gr' = fst (snd (sts ! i)))))"
    if run: "SolveIRLS env R rel gr = Inr (ok, R', gr', tr)"
  proof -
    have a: "(pattern_info env R' \<noteq> Success \<longrightarrow> \<not> ok \<and> tr = [] \<and> gr' = gr) \<and>
      (ok \<longleftrightarrow> pattern_info env R' = Success
            \<and> (\<forall>s \<in> set tr. s \<noteq> FactorizeFailed \<and> s \<noteq> LinearSolveFailed)) \<and>
      (\<forall>s \<in> set (butlast tr). s \<noteq> FactorizeFailed \<and> s \<noteq> LinearSolveFailed)"
      using SolveIRLS_facts[OF run, of v] by blast
    from a have a1: "pattern_info env R' \<noteq> Success \<longrightarrow> \<not> ok \<and> tr = [] \<and> gr' = gr"
      by (rule conjunct1)
    from a have a2: "ok \<longleftrightarrow> pattern_info env R' = Success
            \<and> (\<forall>s \<in> set tr. s \<noteq> FactorizeFailed \<and> s \<noteq> LinearSolveFailed)"
      by (rule conjunct2[THEN conjunct1])
    from a have a3: "\<forall>s \<in> set (butlast tr). s \<noteq> FactorizeFailed \<and> s \<noteq> LinearSolveFailed"
      by (rule conjunct2[THEN conjunct2])
    have b: "pattern_info env R' = Success \<longrightarrow>
         (\<exists>sts. passes_of_run env R rel gr sts tr \<and>
            fst (last sts) = R' \<and> fst (snd (last sts)) = gr' \<and>
            (tr = [] \<longleftrightarrow> nat (max_num_irls_iterations (irls_options R)) = 0) \<and>
            (ok \<longleftrightarrow> (\<forall>i<length tr. fst (pass_factorize env rel (sts ! i)) = Success \<and>
                                   fst (pass_solve env rel (sts ! i)) = Success)) \<and>
            (\<forall>i<length tr. fst (pass_factorize env rel (sts ! i)) \<noteq> Success \<or>
                           fst (pass_solve env rel (sts ! i)) \<noteq> Success \<longrightarrow>
                 Suc i = length tr \<and> gr' = fst (snd (sts ! i))))"
      using SolveIRLS_failures[OF run] by (rule impI)
    show ?thesis
      by (intro conjI a1 a2 a3 b)
  qed
  have B: "lok" if "EstimateRotations lenv E vp lgr = Inr (lok, E', lgr')"
    using EstimateRotations_Inr[OF that] by simp
  have C: "bound_after_compute (ComputeErrorBound lenv vp E) = Some 0"
    if "ComputeErrorBound_L vp E = Inr (L, dmax, m) \<and> 0 < dmax \<and> fst (SymEigsSolver lenv L) \<noteq> SUCCESSFUL"
    using ComputeErrorBound_swallows_failure[of vp E L dmax m lenv] that by simp
  show ?thesis
    by (rule conjI[OF impI[OF A] conjI[OF impI[OF B] impI[OF C]]])
qed

theorem failure_status_witness:
  "SolveIRLS (pair_env factorize_failing_solver) pair_refiner pair_measurement pair_rotations
     = Inr (False, pair_start, pair_rotations, [FactorizeFailed]) \<and>
   pattern_info (pair_env factorize_failing_solver) pair_start = Success \<and>
   (\<exists>sts :: Matrix irls_state list.
      fst (sts ! 0) = pair_start \<and> fst (snd (sts ! 0)) = pair_rotations \<and>
      fst (pass_factorize (pair_env factorize_failing_solver) pair_measurement (sts ! 0))
        = NumericalIssue) \<and>
   returned_value (EstimateRotations (star_env no_eigenvalues) (star_estimator RBR_BCM)
                     star_pairs star_rotations) = Some True \<and>
   bound_after_compute (ComputeErrorBound (star_env no_eigenvalues) star_pairs
                          (star_estimator RBR_BCM)) = Some 0"
proof -
  from star_run[of no_eigenvalues] obtain E' where
    r: "EstimateRotations (star_env no_eigenvalues) (star_estimator RBR_BCM) star_pairs star_rotations
          = Inr (True, E', star_result)" by blast
  from star_L[of RBR_BCM] obtain L where
    l: "ComputeErrorBound_L star_pairs (star_estimator RBR_BCM) = Inr (L, 4, star_index)" by blast
  have e: "fst (SymEigsSolver (star_env no_eigenvalues) L) \<noteq> SUCCESSFUL"
    by (simp add: star_env_def no_eigenvalues_def)
  note t = failure_status[of "pair_env factorize_failing_solver" pair_refiner pair_measurement
      pair_rotations False pair_start pair_rotations "[FactorizeFailed]"
      "star_env no_eigenvalues" "star_estimator RBR_BCM" star_pairs star_rotations True E'
      star_result L 4 star_index]
  note irls = t[THEN conjunct1, THEN mp, OF pair_failing_run]
  from irls[THEN conjunct1]
  have pat: "pattern_info (pair_env factorize_failing_solver) pair_start = Success"
    by simp
  from irls[THEN conjunct2, THEN conjunct2, THEN conjunct2, THEN mp, OF pat]
  obtain sts where
    a: "passes_of_run (pair_env factorize_failing_solver) pair_refiner pair_measurement
          pair_rotations sts [FactorizeFailed] \<and>
        fst (last sts) = pair_start \<and> fst (snd (last sts)) = pair_rotations \<and>
        ([FactorizeFailed] = [] \<longleftrightarrow> nat (max_num_irls_iterations (irls_options pair_refiner)) = 0) \<and>
        (False \<longleftrightarrow> (\<forall>i<length [FactorizeFailed].
            fst (pass_factorize (pair_env factorize_failing_solver) pair_measurement (sts ! i)) = Success \<and>
            fst (pass_solve (pair_env factorize_failing_solver) pair_measurement (sts ! i)) = Success)) \<and>
        (\<forall>i<length [FactorizeFailed].
            fst (pass_factorize (pair_env factorize_failing_solver) pair_measurement (sts ! i)) \<noteq> Success \<or>
            fst (pass_solve (pair_env factorize_failing_solver) pair_measurement (sts ! i)) \<noteq> Success \<longrightarrow>
            Suc i = length [FactorizeFailed] \<and> pair_rotations = fst (snd (sts ! i)))" ..
  from a have p: "passes_of_run (pair_env factorize_failing_solver) pair_refiner pair_measurement
          pair_rotations sts [FactorizeFailed]"
    by (rule conjunct1)
  from p have s0: "fst (sts ! 0) = pair_start" and g0: "fst (snd (sts ! 0)) = pair_rotations"
    by (simp_all add: passes_of_run_def pair_prepare pair_residuals)
  have f0: "fst (pass_factorize (pair_env factorize_failing_solver) pair_measurement (sts ! 0))
              = NumericalIssue"
    by (cases "sts ! 0") (simp add: pair_failing_factorize)
  have ex: "\<exists>sts :: Matrix irls_state list.
      fst (sts ! 0) = pair_start \<and> fst (snd (sts ! 0)) = pair_rotations \<and>
      fst (pass_factorize (pair_env factorize_failing_solver) pair_measurement (sts ! 0))
        = NumericalIssue"
    by (rule exI[of _ sts]) (intro conjI s0 g0 f0)
  from t[THEN conjunct2, THEN conjunct2] l e
  have b: "bound_after_compute (ComputeErrorBound (star_env no_eigenvalues)
      star_pairs (star_estimator RBR_BCM)) = Some 0"
    by simp
  have rv: "returned_value (EstimateRotations (star_env no_eigenvalues) (star_estimator RBR_BCM)
                     star_pairs star_rotations) = Some True"
    by (simp add: r returned_value_def)
  show ?thesis
    by (intro conjI pair_failing_run pat ex rv b)
qed

text \<open>
  Claim C1 as stated fails: with an eigensolver that never converges,
  \<open>EstimateRotations\<close> returns true and \<open>ComputeErrorBound\<close> returns normally.
\<close>

theorem eigensolver_failure_counterexample:
  "fst (SymEigsSolver (star_env no_eigenvalues) (zero_matrix 5 5)) = NOT_CONVERGING \<and>
   returned_value (EstimateRotations (star_env no_eigenvalues) (star_estimator RBR_BCM)
                     star_pairs star_rotations) = Some True \<and>
   bound_after_compute (ComputeErrorBound (star_env no_eigenvalues) star_pairs
                          (star_estimator RBR_BCM)) = Some 0"
proof -
  from star_run[of no_eigenvalues] obtain E' where
    r: "EstimateRotations (star_env no_eigenvalues) (star_estimator RBR_BCM) star_pairs star_rotations
          = Inr (True, E', star_result)" by blast
  have "fst (SymEigsSolver (star_env no_eigenvalues) (zero_matrix 5 5)) = NOT_CONVERGING"
    by (simp add: star_env_def no_eigenvalues_def)
  with r show ?thesis
    by (simp add: returned_value_def star_bound_failure)
qed

text \<open>
  Claim C2, as amended. \<open>SolveIRLS\<close> leaves the rotation of every view whose dense index is
  \<open>0\<close> as it found it. \<open>EstimateRotations\<close> of the Lagrange-dual estimator assigns to every
  view of \<open>global_rotations\<close>, the one of index \<open>0\<close> included, the angle-axis vector of its
  own block of the solution \<open>Y\<close> (transposed, and negated when its determinant is
  negative).
\<close>

theorem gauge_rotation:
  "(SolveIRLS env R rel gr = Inr (ok, R', gr', tr) \<and> map_of (view_id_to_index R') v = Some 0 \<longrightarrow>
      map_of gr' v = map_of gr v) \<and>
   (EstimateRotations lenv E vp lgr = Inr (lok, E', lgr') \<and> map_of lgr w = Some r \<longrightarrow>
      (\<exists>i M. map_of (ld_view_id_to_index E') w = Some i \<and>
              block3_transposed (ld_Y E') (3 * i) = Inr M \<and>
              map_of lgr' w = Some (RotationMatrixToAngleAxis lenv
                                      (if determinant3 M < 0 then smult_m (- 1) M else M))))"
proof -
  have "map_of gr' v = map_of gr v"
    if "SolveIRLS env R rel gr = Inr (ok, R', gr', tr)" "map_of (view_id_to_index R') v = Some 0"
    using SolveIRLS_facts[OF that(1), of v] that(2) by blast
  moreover have "\<exists>i M. map_of (ld_view_id_to_index E') w = Some i \<and>
              block3_transposed (ld_Y E') (3 * i) = Inr M \<and>
              map_of lgr' w = Some (RotationMatrixToAngleAxis lenv
                                      (if determinant3 M < 0 then smult_m (- 1) M else M))"
    if "EstimateRotations lenv E vp lgr = Inr (lok, E', lgr')" "map_of lgr w = Some r"
    using EstimateRotations_overwrites[OF that] .
  ultimately show ?thesis by blast
qed

theorem gauge_rotation_witness:
  "SolveIRLS (pair_env diagonal_solver) pair_refiner pair_measurement pair_rotations
     = Inr (True, pair_final, pair_refined, [StepTaken (Some 1), StepTaken (Some 0)]) \<and>
   map_of (view_id_to_index pair_final) 10 = Some 0 \<and>
   map_of pair_refined 10 = map_of pair_rotations 10 \<and>
   map_of star_rotations 0 = Some (1, 0, 0) \<and>
   rotations_after (EstimateRotations (star_env star_eigenvalues) (star_estimator RBR_BCM)
                      star_pairs star_rotations) = Some star_result \<and>
   map_of star_result 0 = Some (RotationMatrixToAngleAxis (star_env star_eigenvalues) (Identity 3))"
proof -
  from star_run[of star_eigenvalues] obtain E' where
    r: "EstimateRotations (star_env star_eigenvalues) (star_estimator RBR_BCM) star_pairs star_rotations
          = Inr (True, E', star_result)" by blast
  have i: "map_of (view_id_to_index pair_final) 10 = Some 0"
    by (simp add: pair_final_def pair_start_def)
  have s: "map_of star_rotations 0 = Some (1, 0, 0)"
    by (simp add: star_rotations_def)
  note t = gauge_rotation[of "pair_env diagonal_solver" pair_refiner pair_measurement pair_rotations
      True pair_final pair_refined "[StepTaken (Some 1), StepTaken (Some 0)]" 10
      "star_env star_eigenvalues" "star_estimator RBR_BCM" star_pairs star_rotations True E'
      star_result 0 "(1, 0, 0)"]
  from t pair_run i have "map_of pair_refined 10 = map_of pair_rotations 10"
    by simp
  moreover from t r s have "map_of star_result 0
      = Some (RotationMatrixToAngleAxis (star_env star_eigenvalues) (Identity 3))"
    by (auto simp: star_env_def)
  ultimately show ?thesis
    using pair_run i s r by (simp add: rotations_after_def)
qed

text \<open>
  Claim C2 as stated fails: the Lagrange-dual estimator replaces the rotation \<open>(1, 0, 0)\<close>
  of the view of index \<open>0\<close> by the vector of its block of \<open>Y\<close>.
\<close>

theorem gauge_overwritten_counterexample:
  "map_of star_index 0 = Some 0 \<and>
   map_of star_rotations 0 = Some (1, 0, 0) \<and>
   rotations_after (EstimateRotations (star_env star_eigenvalues) (star_estimator RBR_BCM)
                      star_pairs star_rotations) = Some star_result \<and>
   map_of star_result 0 = Some (0, 0, 0)"
proof -
  from star_run[of star_eigenvalues] obtain E' where
    r: "EstimateRotations (star_env star_eigenvalues) (star_estimator RBR_BCM) star_pairs star_rotations
          = Inr (True, E', star_result)" by blast
  then show ?thesis
    by (simp add: rotations_after_def star_index_def star_rotations_def star_result_def)
qed

text \<open>
  Claim C3, as amended. \<open>EstimateRotations\<close> does not compute the error bound: after the
  call \<open>GetErrorBound\<close> returns what it returned before, which is \<open>0\<close> for an estimator
  just constructed. The bound is stored by a separate call of \<open>ComputeErrorBound\<close>, from
  the first eigenvalue the eigensolver lists and the largest degree.
\<close>

theorem estimate_leaves_error_bound:
  "GetErrorBound (LagrangeDualRotationEstimator_new s0 N d opts) = 0 \<and>
   (EstimateRotations env E vp gr = Inr (ok, E', gr') \<longrightarrow> GetErrorBound E' = GetErrorBound E) \<and>
   (ComputeErrorBound_L vp E = Inr (L, dmax, m) \<and> SymEigsSolver env L = (SUCCESSFUL, l2 # ls) \<longrightarrow>
      bound_after_compute (ComputeErrorBound env vp E)
        = Some (2 * arcsin (sqrt (0.25 + l2 / (2 * dmax)) - 0.5)))"
proof -
  have "GetErrorBound E' = GetErrorBound E" if "EstimateRotations env E vp gr = Inr (ok, E', gr')"
    using EstimateRotations_Inr[OF that] by (simp add: GetErrorBound_def)
  then show ?thesis
    using ComputeErrorBound_success[of vp E L dmax m env l2 ls]
    by (auto simp: GetErrorBound_def LagrangeDualRotationEstimator_new_def)
qed

theorem estimate_leaves_error_bound_witness:
  "bound_after_estimate (EstimateRotations (star_env star_eigenvalues) (star_estimator RBR_BCM)
                           star_pairs star_rotations)
     = Some (GetErrorBound (star_estimator RBR_BCM)) \<and>
   GetErrorBound (star_estimator RBR_BCM) = 0 \<and>
   bound_after_compute (ComputeErrorBound (star_env star_eigenvalues) star_pairs
                          (star_estimator RBR_BCM))
     = Some (2 * arcsin (sqrt (0.25 + 1 / (2 * 4)) - 0.5))"
proof -
  from star_run[of star_eigenvalues] obtain E' where
    r: "EstimateRotations (star_env star_eigenvalues) (star_estimator RBR_BCM) star_pairs star_rotations
          = Inr (True, E', star_result)" by blast
  from star_L[of RBR_BCM] obtain L where
    l: "ComputeErrorBound_L star_pairs (star_estimator RBR_BCM) = Inr (L, 4, star_index)" by blast
  have e: "SymEigsSolver (star_env star_eigenvalues) L = (SUCCESSFUL, 1 # [(17 - sqrt 241) / 2])"
    by (simp add: star_env_def star_eigenvalues_def)
  note t = estimate_leaves_error_bound[of "()" 5 3 "\<lparr>solver_type = RBR_BCM\<rparr>"
      "star_env star_eigenvalues" "star_estimator RBR_BCM"
      star_pairs star_rotations True E' star_result L 4 star_index 1 "[(17 - sqrt 241) / 2]"]
  from t r have "GetErrorBound E' = GetErrorBound (star_estimator RBR_BCM)"
    by simp
  moreover from t l e have "bound_after_compute (ComputeErrorBound (star_env star_eigenvalues)
      star_pairs (star_estimator RBR_BCM)) = Some (2 * arcsin (sqrt (0.25 + 1 / (2 * 4)) - 0.5))"
    by simp
  ultimately show ?thesis
    using r by (simp add: bound_after_estimate_def GetErrorBound_def star_estimator_fields)
qed

text \<open>
  Claim C3 as stated fails: on the star, the bound after \<open>EstimateRotations\<close> is the
  initial \<open>0\<close>, while \<open>ComputeErrorBound\<close> on the same input stores a positive bound.
\<close>

theorem bound_not_computed_counterexample:
  "bound_after_estimate (EstimateRotations (star_env star_eigenvalues) (star_estimator RBR_BCM)
                           star_pairs star_rotations) = Some 0 \<and>
   bound_after_compute (ComputeErrorBound (star_env star_eigenvalues) star_pairs
                          (star_estimator RBR_BCM))
     = Some (2 * arcsin (sqrt (3 / 8) - 1 / 2)) \<and>
   0 < 2 * arcsin (sqrt (3 / 8) - 1 / 2)"
proof -
  from star_run[of star_eigenvalues] obtain E' where
    r: "EstimateRotations (star_env star_eigenvalues) (star_estimator RBR_BCM) star_pairs star_rotations
          = Inr (True, E', star_result)" and a: "alpha_max E' = 0" by blast
  then show ?thesis
    using star_bound_positive
    by (simp add: bound_after_estimate_def GetErrorBound_def star_bound)
qed

text \<open>
  Claim C10. For the solver types \<open>RBR_BCM\<close>, \<open>RANK_DEFICIENT_BCM\<close> and
  \<open>RIEMANNIAN_STAIRCASE\<close>, \<open>CreateSDPSolver\<close> returns a solver and \<open>EstimateRotations\<close>
  never dereferences a null pointer. For every other solver type \<open>CreateSDPSolver\<close>
  returns null and \<open>EstimateRotations\<close> never returns: once its checks have passed and
  the relative graph is filled in, it dereferences the null pointer.
\<close>

theorem created_solver_is_dereferenced:
  "(solver_type (ld_options E) \<in> {RBR_BCM, RANK_DEFICIENT_BCM, RIEMANNIAN_STAIRCASE} \<longrightarrow>
      CreateSDPSolver E n d \<noteq> None \<and>
      EstimateRotations env E vp gr \<noteq> Inl NullPointerDereference) \<and>
   (solver_type (ld_options E) \<notin> {RBR_BCM, RANK_DEFICIENT_BCM, RIEMANNIAN_STAIRCASE} \<longrightarrow>
      CreateSDPSolver E n d = None \<and>
      EstimateRotations env E vp gr
        \<in> {Inl CheckFailed, Inl IndexOutOfRange, Inl NullPointerDereference} \<and>
      (0 < length vp \<and> 0 < images_num E \<and>
       FillinRelativeGraph env vp (EstimateRotations_prepare env E gr) = Inr (E2, adj) \<longrightarrow>
         EstimateRotations env E vp gr = Inl NullPointerDereference))"
proof (cases "solver_type (ld_options E)")
  case (OTHER_SOLVER_TYPE v)
  from EstimateRotations_null(1)[OF OTHER_SOLVER_TYPE, where env = env and vp = vp and gr = gr]
    EstimateRotations_null(2)[OF OTHER_SOLVER_TYPE, where env = env and vp = vp and gr = gr
      and ?E2.0 = E2 and adj = adj]
    OTHER_SOLVER_TYPE
  show ?thesis
    by (simp add: CreateSDPSolver_def)
qed (use EstimateRotations_no_null[of E n d env vp gr] in \<open>simp_all add: CreateSDPSolver_def\<close>)

theorem created_solver_is_dereferenced_witness:
  "CreateSDPSolver (star_estimator RBR_BCM) 5 3 \<noteq> None \<and>
   EstimateRotations (star_env star_eigenvalues) (star_estimator RBR_BCM) star_pairs star_rotations
     \<noteq> Inl NullPointerDereference \<and>
   CreateSDPSolver (star_estimator (OTHER_SOLVER_TYPE 7)) 5 3 = None \<and>
   EstimateRotations (star_env star_eigenvalues) (star_estimator (OTHER_SOLVER_TYPE 7))
     star_pairs star_rotations = Inl NullPointerDereference"
proof -
  from star_fill[of star_eigenvalues "OTHER_SOLVER_TYPE 7" star_rotations] obtain E2 adj where
    f: "FillinRelativeGraph (star_env star_eigenvalues) star_pairs
          (EstimateRotations_prepare (star_env star_eigenvalues)
             (star_estimator (OTHER_SOLVER_TYPE 7)) star_rotations) = Inr (E2, adj)" by blast
  have l: "0 < length star_pairs"
    by (simp add: star_pairs_def)
  from created_solver_is_dereferenced[of "star_estimator RBR_BCM" 5 3 "star_env star_eigenvalues"
      star_pairs star_rotations]
  have a: "CreateSDPSolver (star_estimator RBR_BCM) 5 3 \<noteq> None \<and>
      EstimateRotations (star_env star_eigenvalues) (star_estimator RBR_BCM) star_pairs star_rotations
        \<noteq> Inl NullPointerDereference"
    by (simp add: star_estimator_fields)
  from created_solver_is_dereferenced[of "star_estimator (OTHER_SOLVER_TYPE 7)" 5 3
      "star_env star_eigenvalues" star_pairs star_rotations E2 adj] f l
  have b: "CreateSDPSolver (star_estimator (OTHER_SOLVER_TYPE 7)) 5 3 = None \<and>
      EstimateRotations (star_env star_eigenvalues) (star_estimator (OTHER_SOLVER_TYPE 7))
        star_pairs star_rotations = Inl NullPointerDereference"
    by (simp add: star_estimator_fields)
  from a b show ?thesis by blast
qed

text \<open>
  Claim C6, on the cycle of five views. The matrix \<open>ComputeErrorBound\<close> hands to the
  eigensolver has the squared degree \<open>4\<close> on its diagonal, where the graph Laplacian
  \<open>D - A\<close> has the degree \<open>2\<close>: the degree of a vertex is pushed as a triplet once for
  every edge at the vertex, and \<open>setFromTriplets\<close> adds the triplets up.
\<close>

theorem degree_matrix_sums_duplicates:
  "matrix_for_eigensolver (ComputeErrorBound_L cycle_pairs (star_estimator RBR_BCM))
     = Some [[4, - 1, 0, 0, - 1], [- 1, 4, - 1, 0, 0], [0, - 1, 4, - 1, 0],
             [0, 0, - 1, 4, - 1], [- 1, 0, 0, - 1, 4]] \<and>
   to_rows (graph_laplacian 5 [(0, 1), (1, 2), (2, 3), (3, 4), (4, 0)])
     = [[2, - 1, 0, 0, - 1], [- 1, 2, - 1, 0, 0], [0, - 1, 2, - 1, 0],
        [0, 0, - 1, 2, - 1], [- 1, 0, 0, - 1, 2]]"
  using cycle_L[of RBR_BCM] cycle_laplacian by simp

end
